theory Spec2Isabelle
  imports Main "HOL-Library.AList" "HOL-Library.Sublist"
begin

section \<open>JavaScript values\<close>

text \<open>
  The program handles three JSON documents: the credentials file, the body of the
  HTTP response and the manifest \<^verbatim>\<open>package.json\<close>. A parsed document is a tree.
  An object is an association list in property order, as \<^verbatim>\<open>JSON.stringify\<close>
  enumerates it. Strings are byte strings (the UTF-8 encoding of the JavaScript
  string). Numbers are integers: fractions and exponents are floating point and
  lie outside this development.
\<close>

datatype json =
    JNull
  | JBool bool
  | JNum int
  | JStr string
  | JArr "json list"
  | JObj "(string \<times> json) list"

text \<open>A JavaScript value is a JSON tree or \<^verbatim>\<open>undefined\<close>.\<close>

datatype jsval = Undefined | Val json

text \<open>
  The exceptions the program can meet. A system error carries the \<^verbatim>\<open>code\<close>
  property (\<^verbatim>\<open>ENOENT\<close>, \<^verbatim>\<open>EACCES\<close>, ...) and a message; the error that axios
  rejects with carries the response (status and body) when there was one; the
  error of a child process carries the command and its exit status.
\<close>

datatype js_error =
    SystemError string string
  | SyntaxError string
  | TypeError string
  | ReferenceError string
  | Error string
  | AxiosError string "(nat \<times> json) option"
  | ChildProcessError string nat

fun error_code :: "js_error \<Rightarrow> string option" where
  "error_code (SystemError c m) = Some c"
| "error_code _ = None"

fun is_SyntaxError :: "js_error \<Rightarrow> bool" where
  "is_SyntaxError (SyntaxError m) = True"
| "is_SyntaxError _ = False"

fun error_message :: "js_error \<Rightarrow> string" where
  "error_message (SystemError c m) = m"
| "error_message (SyntaxError m) = m"
| "error_message (TypeError m) = m"
| "error_message (ReferenceError m) = m"
| "error_message (Error m) = m"
| "error_message (AxiosError m r) = m"
| "error_message (ChildProcessError c n) = ''Command failed: '' @ c"

fun error_response :: "js_error \<Rightarrow> (nat \<times> json) option" where
  "error_response (AxiosError m r) = r"
| "error_response _ = None"

abbreviation dquote :: char where "dquote \<equiv> CHR 0x22"
abbreviation bslash :: char where "bslash \<equiv> CHR 0x5C"
abbreviation squote :: char where "squote \<equiv> CHR 0x27"
abbreviation newline :: char where "newline \<equiv> CHR 0x0A"

subsection \<open>Property access, truthiness, string conversion\<close>

text \<open>
  \<^verbatim>\<open>v.k\<close>: reading a property of \<^verbatim>\<open>undefined\<close> or \<^verbatim>\<open>null\<close> throws a
  TypeError; an object yields the property or \<^verbatim>\<open>undefined\<close>. None of the property
  names the program reads (\<^verbatim>\<open>token\<close>, \<^verbatim>\<open>username\<close>, \<^verbatim>\<open>links\<close>, \<^verbatim>\<open>html\<close>,
  \<^verbatim>\<open>href\<close>, \<^verbatim>\<open>figdata\<close>, \<^verbatim>\<open>error\<close>, \<^verbatim>\<open>message\<close>) is an own or inherited
  property of an array, a string, a number or a boolean, so these yield
  \<^verbatim>\<open>undefined\<close>.
\<close>

fun get_prop :: "jsval \<Rightarrow> string \<Rightarrow> js_error + jsval" where
  "get_prop Undefined k =
     Inl (TypeError (''Cannot read properties of undefined (reading '' @ [squote] @ k @ [squote] @ '')''))"
| "get_prop (Val JNull) k =
     Inl (TypeError (''Cannot read properties of null (reading '' @ [squote] @ k @ [squote] @ '')''))"
| "get_prop (Val (JObj kvs)) k =
     Inr (case map_of kvs k of None \<Rightarrow> Undefined | Some v \<Rightarrow> Val v)"
| "get_prop (Val v) k = Inr Undefined"

text \<open>\<^verbatim>\<open>v?.k\<close>: \<^verbatim>\<open>undefined\<close> and \<^verbatim>\<open>null\<close> short-circuit to \<^verbatim>\<open>undefined\<close>.\<close>

fun get_prop_opt :: "jsval \<Rightarrow> string \<Rightarrow> jsval" where
  "get_prop_opt (Val (JObj kvs)) k =
     (case map_of kvs k of None \<Rightarrow> Undefined | Some v \<Rightarrow> Val v)"
| "get_prop_opt v k = Undefined"

fun truthy :: "jsval \<Rightarrow> bool" where
  "truthy Undefined = False"
| "truthy (Val JNull) = False"
| "truthy (Val (JBool b)) = b"
| "truthy (Val (JNum n)) = (n \<noteq> 0)"
| "truthy (Val (JStr s)) = (s \<noteq> [])"
| "truthy (Val v) = True"

definition digit_char :: "nat \<Rightarrow> char" where
  "digit_char n = char_of (48 + n)"

fun show_nat :: "nat \<Rightarrow> string" where
  "show_nat n = (if n < 10 then [digit_char n] else show_nat (n div 10) @ [digit_char (n mod 10)])"

declare show_nat.simps [simp del]

definition show_int :: "int \<Rightarrow> string" where
  "show_int i = (if i < 0 then CHR ''-'' # show_nat (nat (- i)) else show_nat (nat i))"

fun join :: "'a list \<Rightarrow> 'a list list \<Rightarrow> 'a list" where
  "join sep [] = []"
| "join sep [x] = x"
| "join sep (x # y # ys) = x @ sep @ join sep (y # ys)"

text \<open>
  \<^verbatim>\<open>String(v)\<close>, which a template literal applies to an interpolated value.
  An array joins its elements with commas, \<^verbatim>\<open>null\<close> elements as the empty string.
\<close>

fun to_string_json :: "json \<Rightarrow> string" where
  "to_string_json JNull = ''null''"
| "to_string_json (JBool b) = (if b then ''true'' else ''false'')"
| "to_string_json (JNum n) = show_int n"
| "to_string_json (JStr s) = s"
| "to_string_json (JArr xs) =
     join '','' (map (\<lambda>x. if x = JNull then [] else to_string_json x) xs)"
| "to_string_json (JObj kvs) = ''[object Object]''"

fun to_string :: "jsval \<Rightarrow> string" where
  "to_string Undefined = ''undefined''"
| "to_string (Val v) = to_string_json v"

subsection \<open>\<^verbatim>\<open>JSON.stringify(value, null, space)\<close>\<close>

definition pad :: "nat \<Rightarrow> string" where
  "pad n = replicate n CHR '' ''"

definition hex_digit :: "nat \<Rightarrow> char" where
  "hex_digit n = (if n < 10 then char_of (48 + n) else char_of (87 + n))"

text \<open>QuoteJSONString, one character at a time.\<close>

definition quote_char :: "char \<Rightarrow> string" where
  "quote_char c =
     (if c = CHR 0x08 then [bslash, CHR ''b'']
      else if c = CHR 0x09 then [bslash, CHR ''t'']
      else if c = CHR 0x0A then [bslash, CHR ''n'']
      else if c = CHR 0x0C then [bslash, CHR ''f'']
      else if c = CHR 0x0D then [bslash, CHR ''r'']
      else if c = dquote then [bslash, dquote]
      else if c = bslash then [bslash, bslash]
      else if (of_char c :: nat) < 0x20 then
        [bslash, CHR ''u'', CHR ''0'', CHR ''0'',
         hex_digit (of_char c div 16), hex_digit (of_char c mod 16)]
      else [c])"

definition quote :: "string \<Rightarrow> string" where
  "quote s = dquote # concat (map quote_char s) @ [dquote]"

text \<open>
  SerializeJSONProperty with \<open>gap\<close> spaces per level, at indentation \<open>ind\<close>. With
  an empty gap the output has no line breaks and no space after the colon.
\<close>

fun serialize :: "nat \<Rightarrow> nat \<Rightarrow> json \<Rightarrow> string" where
  "serialize gap ind JNull = ''null''"
| "serialize gap ind (JBool b) = (if b then ''true'' else ''false'')"
| "serialize gap ind (JNum n) = show_int n"
| "serialize gap ind (JStr s) = quote s"
| "serialize gap ind (JArr xs) =
     (if xs = [] then ''[]''
      else if gap = 0 then
        ''['' @ join '','' (map (serialize gap ind) xs) @ '']''
      else
        ''['' @ newline # pad (ind + gap)
          @ join ('','' @ newline # pad (ind + gap)) (map (serialize gap (ind + gap)) xs)
          @ newline # pad ind @ '']'')"
| "serialize gap ind (JObj kvs) =
     (if kvs = [] then ''{}''
      else if gap = 0 then
        ''{'' @ join '','' (map (\<lambda>kv. quote (fst kv) @ '':'' @ serialize gap ind (snd kv)) kvs) @ ''}''
      else
        ''{'' @ newline # pad (ind + gap)
          @ join ('','' @ newline # pad (ind + gap))
              (map (\<lambda>kv. quote (fst kv) @ '': '' @ serialize gap (ind + gap) (snd kv)) kvs)
          @ newline # pad ind @ ''}'')"

text \<open>The \<open>space\<close> argument is clamped to ten.\<close>

definition JSON_stringify :: "json \<Rightarrow> nat \<Rightarrow> string" where
  "JSON_stringify v space = serialize (min space 10) 0 v"

subsection \<open>\<^verbatim>\<open>JSON.parse\<close>\<close>

definition is_ws :: "char \<Rightarrow> bool" where
  "is_ws c = (c = CHR '' '' \<or> c = CHR 0x09 \<or> c = CHR 0x0A \<or> c = CHR 0x0D)"

definition skip_ws :: "string \<Rightarrow> string" where
  "skip_ws s = dropWhile is_ws s"

definition is_digit :: "char \<Rightarrow> bool" where
  "is_digit c = (48 \<le> (of_char c :: nat) \<and> (of_char c :: nat) \<le> 57)"

definition digit_val :: "char \<Rightarrow> nat" where
  "digit_val c = of_char c - 48"

definition digits_val :: "string \<Rightarrow> nat" where
  "digits_val ds = foldl (\<lambda>a c. 10 * a + digit_val c) 0 ds"

text \<open>
  A number token: an optional minus sign and decimal digits without a leading
  zero. A fraction or an exponent is refused (it is outside this development).
\<close>

definition parse_number :: "string \<Rightarrow> (json \<times> string) option" where
  "parse_number s =
     (let neg = (s \<noteq> [] \<and> hd s = CHR ''-'');
          s1 = (if neg then tl s else s);
          ds = takeWhile is_digit s1;
          rest = dropWhile is_digit s1
      in if ds = [] then None
         else if hd ds = CHR ''0'' \<and> length ds > 1 then None
         else if rest \<noteq> [] \<and> (hd rest = CHR ''.'' \<or> hd rest = CHR ''e'' \<or> hd rest = CHR ''E'') then None
         else Some (JNum (if neg then - int (digits_val ds) else int (digits_val ds)), rest))"

definition hex_val :: "char \<Rightarrow> nat option" where
  "hex_val c =
     (let n = (of_char c :: nat) in
      if 48 \<le> n \<and> n \<le> 57 then Some (n - 48)
      else if 97 \<le> n \<and> n \<le> 102 then Some (n - 87)
      else if 65 \<le> n \<and> n \<le> 70 then Some (n - 55)
      else None)"

text \<open>
  The UTF-8 bytes of a code unit written \<^verbatim>\<open>\uXXXX\<close>. Surrogates (code points
  beyond the basic plane, written as two escapes) are refused.
\<close>

definition utf8 :: "nat \<Rightarrow> string option" where
  "utf8 n =
     (if n < 0x80 then Some [char_of n]
      else if n < 0x800 then Some [char_of (0xC0 + n div 64), char_of (0x80 + n mod 64)]
      else if 0xD800 \<le> n \<and> n < 0xE000 then None
      else Some [char_of (0xE0 + n div 4096), char_of (0x80 + (n div 64) mod 64),
                 char_of (0x80 + n mod 64)])"

definition decode_u :: "char \<Rightarrow> char \<Rightarrow> char \<Rightarrow> char \<Rightarrow> string option" where
  "decode_u a b c d =
     (case (hex_val a, hex_val b, hex_val c, hex_val d) of
        (Some x, Some y, Some z, Some w) \<Rightarrow> utf8 (((x * 16 + y) * 16 + z) * 16 + w)
      | _ \<Rightarrow> None)"

definition unescape :: "char \<Rightarrow> char option" where
  "unescape e =
     (if e = dquote then Some dquote
      else if e = bslash then Some bslash
      else if e = CHR ''/'' then Some CHR ''/''
      else if e = CHR ''b'' then Some (CHR 0x08)
      else if e = CHR ''f'' then Some (CHR 0x0C)
      else if e = CHR ''n'' then Some (CHR 0x0A)
      else if e = CHR ''r'' then Some (CHR 0x0D)
      else if e = CHR ''t'' then Some (CHR 0x09)
      else None)"

text \<open>
  The characters of a string after its opening quote, up to the closing quote;
  the result is the decoded string and the input that follows.
\<close>

fun parse_chars :: "string \<Rightarrow> (string \<times> string) option" where
  "parse_chars [] = None"
| "parse_chars (c # cs) =
     (if c = dquote then Some ([], cs)
      else if c = bslash then
        (case cs of
           [] \<Rightarrow> None
         | e # r \<Rightarrow>
             if e = CHR ''u'' then
               (case r of
                  h1 # h2 # h3 # h4 # r' \<Rightarrow>
                    (case decode_u h1 h2 h3 h4 of
                       None \<Rightarrow> None
                     | Some bs \<Rightarrow>
                         (case parse_chars r' of
                            None \<Rightarrow> None
                          | Some (t, rest) \<Rightarrow> Some (bs @ t, rest)))
                | _ \<Rightarrow> None)
             else
               (case unescape e of
                  None \<Rightarrow> None
                | Some x \<Rightarrow>
                    (case parse_chars r of
                       None \<Rightarrow> None
                     | Some (t, rest) \<Rightarrow> Some (x # t, rest))))
      else if (of_char c :: nat) < 0x20 then None
      else
        (case parse_chars cs of
           None \<Rightarrow> None
         | Some (t, rest) \<Rightarrow> Some (c # t, rest)))"

definition strip_prefix :: "string \<Rightarrow> string \<Rightarrow> string option" where
  "strip_prefix p s = (if take (length p) s = p then Some (drop (length p) s) else None)"

text \<open>
  The object a list of parsed members denotes: each member defines its property
  in turn, so a repeated key keeps its first position and its last value.
\<close>

definition obj_of_members :: "(string \<times> json) list \<Rightarrow> (string \<times> json) list" where
  "obj_of_members kvs = foldl (\<lambda>al kv. AList.update (fst kv) (snd kv) al) [] kvs"

text \<open>
  Recursive descent. The first argument bounds the number of nested calls; the
  length of the text is always enough (see \<open>JSON_parse\<close>).
\<close>

fun parse_value :: "nat \<Rightarrow> string \<Rightarrow> (json \<times> string) option"
  and parse_elements :: "nat \<Rightarrow> string \<Rightarrow> (json list \<times> string) option"
  and parse_members :: "nat \<Rightarrow> string \<Rightarrow> ((string \<times> json) list \<times> string) option"
where
  "parse_value 0 s = None"
| "parse_value (Suc n) s =
     (case skip_ws s of
        [] \<Rightarrow> None
      | c # cs \<Rightarrow>
          if c = CHR ''{'' then
            (case skip_ws cs of
               [] \<Rightarrow> None
             | d # r \<Rightarrow>
                 if d = CHR ''}'' then Some (JObj [], r)
                 else (case parse_members n cs of
                         None \<Rightarrow> None
                       | Some (kvs, r') \<Rightarrow> Some (JObj (obj_of_members kvs), r')))
          else if c = CHR ''['' then
            (case skip_ws cs of
               [] \<Rightarrow> None
             | d # r \<Rightarrow>
                 if d = CHR '']'' then Some (JArr [], r)
                 else (case parse_elements n cs of
                         None \<Rightarrow> None
                       | Some (vs, r') \<Rightarrow> Some (JArr vs, r')))
          else if c = dquote then
            (case parse_chars cs of
               None \<Rightarrow> None
             | Some (t, r) \<Rightarrow> Some (JStr t, r))
          else if c = CHR ''t'' then
            (case strip_prefix ''true'' (c # cs) of
               None \<Rightarrow> None | Some r \<Rightarrow> Some (JBool True, r))
          else if c = CHR ''f'' then
            (case strip_prefix ''false'' (c # cs) of
               None \<Rightarrow> None | Some r \<Rightarrow> Some (JBool False, r))
          else if c = CHR ''n'' then
            (case strip_prefix ''null'' (c # cs) of
               None \<Rightarrow> None | Some r \<Rightarrow> Some (JNull, r))
          else parse_number (c # cs))"
| "parse_elements 0 s = None"
| "parse_elements (Suc n) s =
     (case parse_value n s of
        None \<Rightarrow> None
      | Some (v, r) \<Rightarrow>
          (case skip_ws r of
             [] \<Rightarrow> None
           | d # r' \<Rightarrow>
               if d = CHR '','' then
                 (case parse_elements n r' of
                    None \<Rightarrow> None
                  | Some (vs, r'') \<Rightarrow> Some (v # vs, r''))
               else if d = CHR '']'' then Some ([v], r')
               else None))"
| "parse_members 0 s = None"
| "parse_members (Suc n) s =
     (case skip_ws s of
        [] \<Rightarrow> None
      | q # r \<Rightarrow>
          if q \<noteq> dquote then None
          else
            (case parse_chars r of
               None \<Rightarrow> None
             | Some (k, r1) \<Rightarrow>
                 (case skip_ws r1 of
                    [] \<Rightarrow> None
                  | c # r2 \<Rightarrow>
                      if c \<noteq> CHR '':'' then None
                      else
                        (case parse_value n r2 of
                           None \<Rightarrow> None
                         | Some (v, r3) \<Rightarrow>
                             (case skip_ws r3 of
                                [] \<Rightarrow> None
                              | d # r4 \<Rightarrow>
                                  if d = CHR '','' then
                                    (case parse_members n r4 of
                                       None \<Rightarrow> None
                                     | Some (kvs, r5) \<Rightarrow> Some ((k, v) # kvs, r5))
                                  else if d = CHR ''}'' then Some ([(k, v)], r4)
                                  else None)))))"

text \<open>
  \<^verbatim>\<open>JSON.parse(text)\<close>: one value, surrounded by white space only. \<open>None\<close> is the
  SyntaxError.
\<close>

definition JSON_parse :: "string \<Rightarrow> json option" where
  "JSON_parse s =
     (case parse_value (Suc (length s)) s of
        None \<Rightarrow> None
      | Some (v, r) \<Rightarrow> if skip_ws r = [] then Some v else None)"


section \<open>The process and its collaborators\<close>

text \<open>
  What the program prints: \<^verbatim>\<open>console.log\<close> writes to the standard output,
  \<^verbatim>\<open>console.error\<close> to the standard error. An argument is a string of the program
  text (\<open>S\<close>) or a run-time value (\<open>V\<close>).
\<close>

datatype stream = Stdout | Stderr

datatype console_arg = S string | V jsval

type_synonym console_line = "stream \<times> console_arg list"

record http_request =
  http_method :: string
  url :: string
  headers :: "(string \<times> string) list"
  data :: json

text \<open>The remote answers with a status and a body, or not at all.\<close>

datatype http_result = NoResponse string | Response nat json

text \<open>A file is its text, or cannot be read (error code and message).\<close>

datatype node = File string | Unreadable string string

type_synonym filesystem = "string \<Rightarrow> node option"

text \<open>A zx command: the literal pieces of the template and the interpolated values.\<close>

datatype zx_part = Lit string | Arg jsval

text \<open>
  The effects on the outside world, in the order the program attempts them, each
  with what came back: an HTTP request and its result; a shell command, the
  directory it ran in and its exit status; a recursive removal; a change of
  directory; a file written. The last component of \<open>RmSync\<close>, \<open>Chdir\<close> and
  \<open>WriteFile\<close> tells whether the call succeeded.
\<close>

datatype effect =
    HttpRequest http_request http_result
  | ExecSync string string nat
  | ZxRun "zx_part list" string nat
  | RmSync string bool
  | Chdir string bool
  | WriteFile string string bool

record proc =
  cwd :: string
  fs :: filesystem
  console :: "console_line list"
  trace :: "effect list"

text \<open>
  The external collaborators: the operator's answer to the prompt, the remote API,
  the shell that runs a command line in a directory (it returns an exit status and
  may change the file system in any way), and the operating system refusing a
  removal, a change of directory or a write.
\<close>

record env =
  prompt_answer :: string
  axios_reply :: "http_request \<Rightarrow> http_result"
  shell :: "string \<Rightarrow> string \<Rightarrow> filesystem \<Rightarrow> nat \<times> filesystem"
  zx_shell :: "zx_part list \<Rightarrow> string \<Rightarrow> filesystem \<Rightarrow> nat \<times> filesystem"
  rm_fault :: "string \<Rightarrow> js_error option"
  chdir_fault :: "string \<Rightarrow> js_error option"
  write_fault :: "string \<Rightarrow> js_error option"

definition start :: "string \<Rightarrow> filesystem \<Rightarrow> proc" where
  "start dir files = \<lparr>cwd = dir, fs = files, console = [], trace = []\<rparr>"

subsection \<open>Computations that may throw\<close>

type_synonym 'a io = "proc \<Rightarrow> (js_error + 'a) \<times> proc"

definition io_return :: "'a \<Rightarrow> 'a io" where
  "io_return x s = (Inr x, s)"

definition io_throw :: "js_error \<Rightarrow> 'a io" where
  "io_throw e s = (Inl e, s)"

definition io_bind :: "'a io \<Rightarrow> ('a \<Rightarrow> 'b io) \<Rightarrow> 'b io" where
  "io_bind m k s = (case m s of (Inl e, s') \<Rightarrow> (Inl e, s') | (Inr x, s') \<Rightarrow> k x s')"

definition io_then :: "unit io \<Rightarrow> 'b io \<Rightarrow> 'b io" where
  "io_then m k = io_bind m (\<lambda>_. k)"

text \<open>\<^verbatim>\<open>try { m } catch (error) { h(error) }\<close>\<close>

definition io_catch :: "'a io \<Rightarrow> (js_error \<Rightarrow> 'a io) \<Rightarrow> 'a io" where
  "io_catch m h s = (case m s of (Inl e, s') \<Rightarrow> h e s' | (Inr x, s') \<Rightarrow> (Inr x, s'))"

definition io_lift :: "js_error + 'a \<Rightarrow> 'a io" where
  "io_lift r s = (r, s)"

definition console_log :: "console_arg list \<Rightarrow> unit io" where
  "console_log args s = (Inr (), s\<lparr>console := console s @ [(Stdout, args)]\<rparr>)"

definition console_error :: "console_arg list \<Rightarrow> unit io" where
  "console_error args s = (Inr (), s\<lparr>console := console s @ [(Stderr, args)]\<rparr>)"

subsection \<open>Node and library calls\<close>

text \<open>A path is taken from the working directory unless it is absolute (POSIX).\<close>

definition resolve :: "string \<Rightarrow> string \<Rightarrow> string" where
  "resolve dir p = (if p \<noteq> [] \<and> hd p = CHR ''/'' then p else dir @ ''/'' @ p)"

definition readFileSync :: "string \<Rightarrow> string io" where
  "readFileSync path s =
     (case fs s (resolve (cwd s) path) of
        None \<Rightarrow>
          (Inl (SystemError ''ENOENT''
                 (''ENOENT: no such file or directory, open '' @ [squote] @ path @ [squote])), s)
      | Some (Unreadable code msg) \<Rightarrow> (Inl (SystemError code msg), s)
      | Some (File text) \<Rightarrow> (Inr text, s))"

definition writeFileSync :: "env \<Rightarrow> string \<Rightarrow> string \<Rightarrow> unit io" where
  "writeFileSync e path text s =
     (let p = resolve (cwd s) path in
      case write_fault e p of
        Some err \<Rightarrow> (Inl err, s\<lparr>trace := trace s @ [WriteFile p text False]\<rparr>)
      | None \<Rightarrow>
          (Inr (), s\<lparr>fs := (fs s)(p \<mapsto> File text),
                      trace := trace s @ [WriteFile p text True]\<rparr>))"

text \<open>The wording of the engine's SyntaxError depends on the text; it is never printed.\<close>

definition JSON_parse_io :: "string \<Rightarrow> json io" where
  "JSON_parse_io text =
     (case JSON_parse text of
        None \<Rightarrow> io_throw (SyntaxError ''Unexpected token in JSON'')
      | Some v \<Rightarrow> io_return v)"

text \<open>\<^verbatim>\<open>execSync(cmd, { stdio: "inherit" })\<close> throws when the exit status is not zero.\<close>

definition execSync :: "env \<Rightarrow> string \<Rightarrow> unit io" where
  "execSync e cmd s =
     (case shell e cmd (cwd s) (fs s) of
        (status, files) \<Rightarrow>
          (if status = 0 then Inr () else Inl (ChildProcessError cmd status),
           s\<lparr>fs := files, trace := trace s @ [ExecSync cmd (cwd s) status]\<rparr>))"

fun zx_text :: "zx_part list \<Rightarrow> string" where
  "zx_text [] = []"
| "zx_text (Lit t # ps) = t @ zx_text ps"
| "zx_text (Arg v # ps) = to_string v @ zx_text ps"

text \<open>\<^verbatim>\<open>await $`...`\<close> rejects when the exit status is not zero.\<close>

definition zx :: "env \<Rightarrow> zx_part list \<Rightarrow> unit io" where
  "zx e parts s =
     (case zx_shell e parts (cwd s) (fs s) of
        (status, files) \<Rightarrow>
          (if status = 0 then Inr () else Inl (ChildProcessError (zx_text parts) status),
           s\<lparr>fs := files, trace := trace s @ [ZxRun parts (cwd s) status]\<rparr>))"

text \<open>
  \<^verbatim>\<open>rmSync(path, { recursive: true, force: true })\<close> removes the path and all
  below it; with \<^verbatim>\<open>force\<close> a missing path is no error.
\<close>

definition rmSync :: "env \<Rightarrow> string \<Rightarrow> unit io" where
  "rmSync e path s =
     (let p = resolve (cwd s) path in
      case rm_fault e p of
        Some err \<Rightarrow> (Inl err, s\<lparr>trace := trace s @ [RmSync p False]\<rparr>)
      | None \<Rightarrow>
          (Inr (), s\<lparr>fs := (\<lambda>q. if q = p \<or> take (Suc (length p)) q = p @ ''/'' then None
                                 else fs s q),
                      trace := trace s @ [RmSync p True]\<rparr>))"

definition process_cwd :: "string io" where
  "process_cwd s = (Inr (cwd s), s)"

definition process_chdir :: "env \<Rightarrow> string \<Rightarrow> unit io" where
  "process_chdir e dir s =
     (let p = resolve (cwd s) dir in
      case chdir_fault e p of
        Some err \<Rightarrow> (Inl err, s\<lparr>trace := trace s @ [Chdir p False]\<rparr>)
      | None \<Rightarrow> (Inr (), s\<lparr>cwd := p, trace := trace s @ [Chdir p True]\<rparr>))"

text \<open>
  \<^verbatim>\<open>await axios(config)\<close> resolves with the response when the status is 2xx and
  rejects otherwise, with the response attached when there was one.
\<close>

definition axios :: "env \<Rightarrow> http_request \<Rightarrow> (nat \<times> json) io" where
  "axios e req s =
     (let res = axios_reply e req;
          s' = s\<lparr>trace := trace s @ [HttpRequest req res]\<rparr>
      in case res of
           NoResponse msg \<Rightarrow> (Inl (AxiosError msg None), s')
         | Response status body \<Rightarrow>
             if 200 \<le> status \<and> status < 300 then (Inr (status, body), s')
             else (Inl (AxiosError (''Request failed with status code '' @ show_nat status)
                          (Some (status, body))), s'))"

definition b64_char :: "nat \<Rightarrow> char" where
  "b64_char n =
     (if n < 26 then char_of (65 + n)
      else if n < 52 then char_of (71 + n)
      else if n < 62 then char_of (n - 4)
      else if n = 62 then CHR ''+'' else CHR ''/'')"

text \<open>\<^verbatim>\<open>Buffer.from(text).toString("base64")\<close>\<close>

fun base64 :: "string \<Rightarrow> string" where
  "base64 [] = []"
| "base64 [a] =
     (let x = (of_char a :: nat)
      in [b64_char (x div 4), b64_char ((x mod 4) * 16), CHR ''='', CHR ''=''])"
| "base64 [a, b] =
     (let x = (of_char a :: nat); y = (of_char b :: nat)
      in [b64_char (x div 4), b64_char ((x mod 4) * 16 + y div 16),
          b64_char ((y mod 16) * 4), CHR ''=''])"
| "base64 (a # b # c # r) =
     (let x = (of_char a :: nat); y = (of_char b :: nat); z = (of_char c :: nat)
      in [b64_char (x div 4), b64_char ((x mod 4) * 16 + y div 16),
          b64_char ((y mod 16) * 4 + z div 64), b64_char (z mod 64)] @ base64 r)"

text \<open>\<^verbatim>\<open>a || b\<close>\<close>

definition js_or :: "jsval \<Rightarrow> jsval \<Rightarrow> jsval" where
  "js_or a b = (if truthy a then a else b)"

text \<open>
  \<^verbatim>\<open>target[k] = v\<close> in a module (strict mode), for the keys \<^verbatim>\<open>name\<close> and
  \<^verbatim>\<open>id\<close>. An existing property keeps its place, a new one goes last. On an array
  the assignment creates a named property that \<^verbatim>\<open>JSON.stringify\<close> does not
  serialise, so the tree is unchanged. The result is the target after the
  assignment.
\<close>

fun set_prop :: "jsval \<Rightarrow> string \<Rightarrow> json \<Rightarrow> js_error + json" where
  "set_prop Undefined k v =
     Inl (TypeError (''Cannot set properties of undefined (setting '' @ [squote] @ k @ [squote] @ '')''))"
| "set_prop (Val JNull) k v =
     Inl (TypeError (''Cannot set properties of null (setting '' @ [squote] @ k @ [squote] @ '')''))"
| "set_prop (Val (JObj kvs)) k v = Inr (JObj (AList.update k v kvs))"
| "set_prop (Val (JArr xs)) k v = Inr (JArr xs)"
| "set_prop (Val p) k v =
     Inl (TypeError (''Cannot create property '' @ [squote] @ k @ [squote] @ '' on a primitive value''))"


section \<open>The program\<close>

subsection \<open>Messages\<close>

definition cross_mark :: string where
  "cross_mark = [CHR 0xE2, CHR 0x9D, CHR 0x8C]"

definition check_mark :: string where
  "check_mark = [CHR 0xE2, CHR 0x9C, CHR 0x85]"

definition arrow_mark :: string where
  "arrow_mark = [CHR 0xE2, CHR 0x9E, CHR 0xA1, CHR 0xEF, CHR 0xB8, CHR 0x8F]"

definition e_acute :: string where
  "e_acute = [CHR 0xC3, CHR 0xA9]"

definition e_circ :: string where
  "e_circ = [CHR 0xC3, CHR 0xAA]"

definition a_grave :: string where
  "a_grave = [CHR 0xC3, CHR 0xA0]"

text \<open>The expected shape of the credentials file, each line after \<open>ind\<close>.\<close>

definition credentials_shape :: "string \<Rightarrow> string" where
  \<open>credentials_shape ind =
     ind @ ''{'' @ [newline]
     @ ind @ ''  "username": "votre_username",'' @ [newline]
     @ ind @ ''  "token": "votre_token"'' @ [newline]
     @ ind @ ''}''\<close>

text \<open>
  The diagnostic of a missing file. The template literal of
  \<^verbatim>\<open>getBitbucketCredentials\<close> is indented by eight spaces, the one of the callers
  is not.
\<close>

definition file_missing_msg :: "string \<Rightarrow> string" where
  "file_missing_msg ind =
     cross_mark @ '' Le fichier de credentials n'existe pas.'' @ [newline]
     @ ind @ ''Pour cr'' @ e_acute @ ''er le fichier, veuillez cr'' @ e_acute
     @ ''er ./bitbucket-credentials.json avec le format :'' @ [newline]
     @ credentials_shape ind"

definition invalid_json_msg :: string where
  "invalid_json_msg =
     cross_mark @ '' Le fichier bitbucket-credentials.json contient du JSON invalide''"

definition read_error_msg :: string where
  "read_error_msg = cross_mark @ '' Erreur lors de la lecture du fichier de credentials:''"

definition invalid_format_msg :: string where
  "invalid_format_msg =
     cross_mark @ '' Format de credentials invalide.'' @ [newline]
     @ ''Le fichier doit contenir les champs obligatoires :'' @ [newline]
     @ credentials_shape []"

definition repo_required_msg :: string where
  "repo_required_msg = cross_mark @ '' Le nom du repository est requis''"

definition invalid_permission_msg :: string where
  \<open>invalid_permission_msg =
     cross_mark @ '' La permission doit '' @ e_circ @ ''tre "read", "write" ou "admin"''\<close>

definition permissions_updated_msg :: "string \<Rightarrow> string" where
  "permissions_updated_msg repoName =
     check_mark @ '' Permissions mises '' @ a_grave
     @ '' jour pour le groupe Datavis developers sur le repository '' @ repoName"

definition permissions_failed_msg :: string where
  "permissions_failed_msg =
     cross_mark @ '' Erreur lors de la mise '' @ a_grave @ '' jour des permissions:''"

definition creation_failed_msg :: string where
  "creation_failed_msg =
     cross_mark @ '' Erreur lors de la cr'' @ e_acute @ ''ation du repo Bitbucket:''"

definition creating_msg :: string where
  "creating_msg = arrow_mark @ '' Cr'' @ e_acute @ ''ation du repo Bitbucket...''"

definition created_msg :: string where
  "created_msg = check_mark @ '' Repo Bitbucket cr'' @ e_acute @ e_acute @ '':''"

definition impossible_msg :: string where
  "impossible_msg = cross_mark @ '' Impossible de cr'' @ e_acute @ ''er le repo Bitbucket''"

definition cloning_msg :: string where
  "cloning_msg = arrow_mark @ '' Clonage du repo de base...''"

definition customizing_msg :: string where
  "customizing_msg = arrow_mark @ '' Customisation des fichiers...''"

definition done_msg :: string where
  "done_msg =
     check_mark @ '' Projet initialis'' @ e_acute @ '' et cr'' @ e_acute @ e_acute
     @ '' sur Bitbucket !''"

subsection \<open>Credentials\<close>

text \<open>
  \<^verbatim>\<open>getBitbucketCredentials\<close> (first variant, lines 13 to 29): whatever the read
  or the parse throws, the handler prints the diagnostic of a missing file and
  throws the error again.
\<close>

definition getBitbucketCredentials :: "json io" where
  "getBitbucketCredentials =
     io_catch
       (io_bind (readFileSync ''./bitbucket-credentials.json'') JSON_parse_io)
       (\<lambda>error.
          io_then (console_error [S (file_missing_msg (pad 8))])
                  (io_throw error))"

text \<open>
  The handler around the reading of the credentials, the same in
  \<^verbatim>\<open>createBitbucketRepo\<close> and \<^verbatim>\<open>updateBitbucketRepoPermissions\<close> of both variants.
\<close>

definition credentials_catch :: "js_error \<Rightarrow> 'a io" where
  "credentials_catch error =
     io_then
       (if error_code error = Some ''ENOENT'' then console_error [S (file_missing_msg [])]
        else if is_SyntaxError error then console_error [S invalid_json_msg]
        else console_error [S read_error_msg, S (error_message error)])
       (io_throw error)"

text \<open>\<^verbatim>\<open>if (!credentials.token || !credentials.username) throw new Error(...)\<close>\<close>

definition check_credentials :: "json \<Rightarrow> unit io" where
  "check_credentials credentials =
     io_bind (io_lift (get_prop (Val credentials) ''token'')) (\<lambda>token.
       if \<not> truthy token then io_throw (Error invalid_format_msg)
       else
         io_bind (io_lift (get_prop (Val credentials) ''username'')) (\<lambda>username.
           if \<not> truthy username then io_throw (Error invalid_format_msg)
           else io_return ()))"

text \<open>The Basic-Auth token: base64 of \<^verbatim>\<open>`${credentials.username}:${credentials.token}`\<close>.\<close>

definition basic_auth :: "json \<Rightarrow> string io" where
  "basic_auth credentials =
     io_bind (io_lift (get_prop (Val credentials) ''username'')) (\<lambda>username.
     io_bind (io_lift (get_prop (Val credentials) ''token'')) (\<lambda>token.
       io_return (base64 (to_string username @ '':'' @ to_string token))))"

text \<open>\<^verbatim>\<open>error.response?.data?.error?.message || error.message\<close>\<close>

definition reported_message :: "js_error \<Rightarrow> jsval" where
  "reported_message error =
     js_or
       (case error_response error of
          None \<Rightarrow> Undefined
        | Some (status, body) \<Rightarrow> get_prop_opt (get_prop_opt (Val body) ''error'') ''message'')
       (Val (JStr (error_message error)))"

subsection \<open>Repository Provisioner\<close>

definition create_request :: "string \<Rightarrow> string \<Rightarrow> http_request" where
  "create_request auth repoName =
     \<lparr>http_method = ''POST'',
      url = ''https://api.bitbucket.org/2.0/repositories/lefigaro/'' @ repoName,
      headers = [(''Authorization'', ''Basic '' @ auth),
                 (''Content-Type'', ''application/json'')],
      data = JObj [(''scm'', JStr ''git''), (''is_private'', JBool True),
                   (''project'', JObj [(''key'', JStr ''DAT'')])]\<rparr>"

text \<open>
  Lines 147 to 183, the same in both variants: validation of the credentials, the
  POST, and \<^verbatim>\<open>return response.data.links.html.href\<close> inside the \<^verbatim>\<open>try\<close> block.
\<close>

definition provision :: "env \<Rightarrow> string \<Rightarrow> json \<Rightarrow> jsval io" where
  "provision e repoName credentials =
     io_then (check_credentials credentials)
    (io_bind (basic_auth credentials) (\<lambda>auth.
       io_catch
         (io_bind (axios e (create_request auth repoName)) (\<lambda>response.
          io_bind (io_lift (get_prop (Val (snd response)) ''links'')) (\<lambda>links.
          io_bind (io_lift (get_prop links ''html'')) (\<lambda>html.
            io_lift (get_prop html ''href'')))))
         (\<lambda>error.
            io_then (console_error [S creation_failed_msg, V (reported_message error)])
                    (io_throw error))))"

text \<open>\<^verbatim>\<open>createBitbucketRepo\<close> of the first variant (lines 120 to 184).\<close>

definition createBitbucketRepo :: "env \<Rightarrow> string \<Rightarrow> jsval io" where
  "createBitbucketRepo e repoName =
     io_bind (io_catch getBitbucketCredentials credentials_catch) (provision e repoName)"

text \<open>
  \<^verbatim>\<open>createBitbucketRepo\<close> of the second variant (lines 351 to 417), which reads
  and parses the file itself.
\<close>

definition createBitbucketRepo_zx :: "env \<Rightarrow> string \<Rightarrow> jsval io" where
  "createBitbucketRepo_zx e repoName =
     io_bind
       (io_catch (io_bind (readFileSync ''./bitbucket-credentials.json'') JSON_parse_io)
                 credentials_catch)
       (provision e repoName)"

subsection \<open>Permission Updater\<close>

text \<open>
  The body of \<^verbatim>\<open>updateBitbucketRepoPermissions(repoName)\<close> reads two identifiers,
  \<^verbatim>\<open>permission\<close> and \<^verbatim>\<open>permissionMap\<close>, that are neither parameters nor
  declared anywhere in the module. The body is modelled in a scope that may bind
  them; a read of an unbound identifier throws a ReferenceError.
\<close>

type_synonym scope = "string \<Rightarrow> jsval option"

definition lookup_ident :: "scope \<Rightarrow> string \<Rightarrow> jsval io" where
  "lookup_ident sc x =
     (case sc x of
        None \<Rightarrow> io_throw (ReferenceError (x @ '' is not defined''))
      | Some v \<Rightarrow> io_return v)"

text \<open>The scope of the module: neither identifier is bound.\<close>

definition module_scope :: scope where
  "module_scope = (\<lambda>x. None)"

definition lower_char :: "char \<Rightarrow> char" where
  "lower_char c =
     (if 65 \<le> (of_char c :: nat) \<and> (of_char c :: nat) \<le> 90 then char_of ((of_char c :: nat) + 32)
      else c)"

text \<open>\<^verbatim>\<open>permission.toLowerCase()\<close>\<close>

fun toLowerCase :: "jsval \<Rightarrow> js_error + string" where
  "toLowerCase (Val (JStr t)) = Inr (map lower_char t)"
| "toLowerCase Undefined =
     Inl (TypeError ''Cannot read properties of undefined (reading 'toLowerCase')'')"
| "toLowerCase (Val JNull) =
     Inl (TypeError ''Cannot read properties of null (reading 'toLowerCase')'')"
| "toLowerCase (Val v) = Inl (TypeError ''permission.toLowerCase is not a function'')"

text \<open>\<^verbatim>\<open>Object.keys(permissionMap)\<close>\<close>

fun object_keys :: "jsval \<Rightarrow> js_error + string list" where
  "object_keys Undefined = Inl (TypeError ''Cannot convert undefined or null to object'')"
| "object_keys (Val JNull) = Inl (TypeError ''Cannot convert undefined or null to object'')"
| "object_keys (Val (JObj kvs)) = Inr (map fst kvs)"
| "object_keys (Val (JArr xs)) = Inr (map show_nat [0 ..< length xs])"
| "object_keys (Val (JStr t)) = Inr (map show_nat [0 ..< length t])"
| "object_keys (Val v) = Inr []"

definition permissions_request :: "string \<Rightarrow> string \<Rightarrow> http_request" where
  "permissions_request auth repoName =
     \<lparr>http_method = ''PUT'',
      url = ''https://api.bitbucket.org/2.0/repositories/lefigaro/'' @ repoName
            @ ''/permissions-config/groups/datavis-developers'',
      headers = [(''Authorization'', ''Basic '' @ auth),
                 (''Content-Type'', ''application/json''),
                 (''Accept'', ''application/json'')],
      data = JObj [(''permission'', JStr ''admin'')]\<rparr>"

text \<open>Lines 64 to 112, the same in both variants.\<close>

definition update_permissions :: "scope \<Rightarrow> env \<Rightarrow> string \<Rightarrow> json \<Rightarrow> nat io" where
  "update_permissions sc e repoName credentials =
     io_then (check_credentials credentials)
      (if repoName = [] then io_throw (Error repo_required_msg)
       else
         io_bind (lookup_ident sc ''permission'') (\<lambda>permission.
         io_bind (io_lift (toLowerCase permission)) (\<lambda>normalizedPermission.
         io_bind (lookup_ident sc ''permissionMap'') (\<lambda>permissionMap.
         io_bind (io_lift (object_keys permissionMap)) (\<lambda>keys.
           if normalizedPermission \<notin> set keys then io_throw (Error invalid_permission_msg)
           else
             io_bind (basic_auth credentials) (\<lambda>auth.
               io_catch
                 (io_bind (axios e (permissions_request auth repoName)) (\<lambda>response.
                    io_then (console_log [S (permissions_updated_msg repoName)])
                            (io_return (fst response))))
                 (\<lambda>error.
                    io_bind
                      (io_lift
                         (case error_response error of
                            None \<Rightarrow>
                              Inl (TypeError
                                     ''Cannot read properties of undefined (reading 'data')'')
                          | Some (status, body) \<Rightarrow> Inr body))
                      (\<lambda>body.
                         io_then (console_log [V (Val body)])
                        (io_then (console_error [S permissions_failed_msg,
                                                 V (reported_message error)])
                                 (io_throw error))))))))))"

text \<open>\<^verbatim>\<open>updateBitbucketRepoPermissions\<close> of the first variant (lines 37 to 113).\<close>

definition updateBitbucketRepoPermissions :: "env \<Rightarrow> string \<Rightarrow> nat io" where
  "updateBitbucketRepoPermissions e repoName =
     io_bind (io_catch getBitbucketCredentials credentials_catch)
             (update_permissions module_scope e repoName)"

text \<open>\<^verbatim>\<open>updateBitbucketRepoPermissions\<close> of the second variant (lines 266 to 344).\<close>

definition updateBitbucketRepoPermissions_zx :: "env \<Rightarrow> string \<Rightarrow> nat io" where
  "updateBitbucketRepoPermissions_zx e repoName =
     io_bind
       (io_catch (io_bind (readFileSync ''./bitbucket-credentials.json'') JSON_parse_io)
                 credentials_catch)
       (update_permissions module_scope e repoName)"

subsection \<open>Local Workspace Initializer\<close>

definition template_url :: string where
  "template_url = ''git@bitbucket.org:lefigaro/data-vite-scaffolder.git''"

text \<open>
  Lines 224 to 240 of the first variant. The result is \<^verbatim>\<open>initialDir\<close>, the
  working directory saved before the change into the project.
\<close>

definition initWorkspace :: "env \<Rightarrow> string \<Rightarrow> jsval \<Rightarrow> string io" where
  "initWorkspace e projectDir repoUrl =
     io_then (console_log [S cloning_msg])
    (io_then (execSync e (''git clone --depth 1 '' @ template_url @ '' '' @ projectDir))
    (io_then (rmSync e (projectDir @ ''/.git''))
    (io_bind process_cwd (\<lambda>initialDir.
     io_then (process_chdir e projectDir)
    (io_then (execSync e ''git init'')
    (io_then (execSync e (''git remote add origin '' @ to_string repoUrl))
             (io_return initialDir)))))))"

text \<open>Lines 457 to 460 of the second variant: two zx commands.\<close>

definition initWorkspace_zx :: "env \<Rightarrow> string \<Rightarrow> jsval \<Rightarrow> unit io" where
  "initWorkspace_zx e projectDir repoUrl =
     io_then (console_log [S cloning_msg])
    (io_then (zx e [Lit (''git clone --depth 1 '' @ template_url @ '' ''),
                    Arg (Val (JStr projectDir)), Lit '' ''])
             (zx e [Lit ''cd '', Arg (Val (JStr projectDir)),
                    Lit '' && rm -rf .git && git init && git remote add origin '',
                    Arg repoUrl]))"

subsection \<open>Manifest Customizer\<close>

text \<open>
  Lines 244 to 247 (464 to 467 in the second variant). The assignment to
  \<^verbatim>\<open>pkg["figdata"]["id"]\<close> changes the nested object in place, so the manifest
  that is written holds the changed \<^verbatim>\<open>figdata\<close> at its old position.
\<close>

definition rewriteManifest :: "env \<Rightarrow> string \<Rightarrow> string \<Rightarrow> unit io" where
  "rewriteManifest e pkgPath projectDir =
     io_bind (readFileSync pkgPath) (\<lambda>text.
     io_bind (JSON_parse_io text) (\<lambda>pkg.
     io_bind (io_lift (set_prop (Val pkg) ''name'' (JStr projectDir))) (\<lambda>pkg1.
     io_bind (io_lift (get_prop (Val pkg1) ''figdata'')) (\<lambda>figdata.
     io_bind (io_lift (set_prop figdata ''id'' (JStr projectDir))) (\<lambda>figdata1.
       writeFileSync e pkgPath
         (JSON_stringify
            (case pkg1 of JObj kvs \<Rightarrow> JObj (AList.update ''figdata'' figdata1 kvs) | _ \<Rightarrow> pkg1)
            2))))))"

definition customizeManifest :: "env \<Rightarrow> string \<Rightarrow> unit io" where
  "customizeManifest e projectDir =
     io_then (console_log [S customizing_msg])
             (rewriteManifest e ''package.json'' projectDir)"

definition customizeManifest_zx :: "env \<Rightarrow> string \<Rightarrow> unit io" where
  "customizeManifest_zx e projectDir =
     io_then (console_log [S customizing_msg])
             (rewriteManifest e (projectDir @ ''/package.json'') projectDir)"

subsection \<open>Top-level run\<close>

text \<open>
  How the process ends: \<^verbatim>\<open>process.exit(n)\<close>, an exception that nothing catches
  (Node reports it and stops the process), or the end of the script.
\<close>

datatype outcome = Exited nat | Uncaught js_error | Completed

text \<open>
  The script of the first variant from line 203 on, after the prompt. Only the
  call of \<^verbatim>\<open>createBitbucketRepo\<close> stands in a \<^verbatim>\<open>try\<close> block.
\<close>

definition run :: "env \<Rightarrow> proc \<Rightarrow> outcome \<times> proc" where
  "run e s0 =
     (let projectDir = prompt_answer e in
      case io_then (console_log [S creating_msg]) (createBitbucketRepo e projectDir) s0 of
        (Inl error, s1) \<Rightarrow> (Exited 1, snd (console_error [S impossible_msg] s1))
      | (Inr repoUrl, s1) \<Rightarrow>
          (case io_then (console_log [S created_msg, V repoUrl])
                 (io_bind (initWorkspace e projectDir repoUrl) (\<lambda>initialDir.
                  io_then (customizeManifest e projectDir)
                 (io_then (process_chdir e initialDir)
                          (console_log [S done_msg])))) s1 of
             (Inl error, s2) \<Rightarrow> (Uncaught error, s2)
           | (Inr u, s2) \<Rightarrow> (Completed, s2)))"

text \<open>The script of the second variant from line 436 on.\<close>

definition run_zx :: "env \<Rightarrow> proc \<Rightarrow> outcome \<times> proc" where
  "run_zx e s0 =
     (let projectDir = prompt_answer e in
      case io_then (console_log [S creating_msg]) (createBitbucketRepo_zx e projectDir) s0 of
        (Inl error, s1) \<Rightarrow> (Exited 1, snd (console_error [S impossible_msg] s1))
      | (Inr repoUrl, s1) \<Rightarrow>
          (case io_then (console_log [S created_msg, V repoUrl])
                 (io_then (initWorkspace_zx e projectDir repoUrl)
                 (io_then (customizeManifest_zx e projectDir)
                          (console_log [S done_msg]))) s1 of
             (Inl error, s2) \<Rightarrow> (Uncaught error, s2)
           | (Inr u, s2) \<Rightarrow> (Completed, s2)))"

section \<open>Vocabulary of the properties\<close>

text \<open>A line added to the console, an effect added to the trace.\<close>

definition say :: "stream \<Rightarrow> console_arg list \<Rightarrow> proc \<Rightarrow> proc" where
  "say st args s = s\<lparr>console := console s @ [(st, args)]\<rparr>"

definition sent :: "effect \<Rightarrow> proc \<Rightarrow> proc" where
  "sent x s = s\<lparr>trace := trace s @ [x]\<rparr>"

text \<open>
  Credentials pass the validation of line 148 when they are not \<^verbatim>\<open>null\<close> and both
  fields are truthy.
\<close>

definition valid_credentials :: "json \<Rightarrow> bool" where
  "valid_credentials c =
     (c \<noteq> JNull \<and> truthy (get_prop_opt (Val c) ''token'')
      \<and> truthy (get_prop_opt (Val c) ''username''))"

definition auth_token :: "json \<Rightarrow> string" where
  "auth_token c =
     base64 (to_string (get_prop_opt (Val c) ''username'') @ '':''
             @ to_string (get_prop_opt (Val c) ''token''))"

text \<open>\<^verbatim>\<open>response.data.links.html.href\<close>, for the body \<^verbatim>\<open>response.data\<close>.\<close>

definition response_href :: "json \<Rightarrow> js_error + jsval" where
  "response_href body =
     (case get_prop (Val body) ''links'' of
        Inl e \<Rightarrow> Inl e
      | Inr links \<Rightarrow>
          (case get_prop links ''html'' of
             Inl e \<Rightarrow> Inl e
           | Inr html \<Rightarrow> get_prop html ''href''))"

text \<open>
  The effects that change the local file system: a shell command (clone, init,
  remote registration, or the commands of zx), a removal, a file written.
\<close>

fun is_mutation :: "effect \<Rightarrow> bool" where
  "is_mutation (HttpRequest req res) = False"
| "is_mutation (ExecSync cmd dir st) = True"
| "is_mutation (ZxRun parts dir st) = True"
| "is_mutation (RmSync p ok) = True"
| "is_mutation (Chdir p ok) = False"
| "is_mutation (WriteFile p t ok) = True"

definition repositories_url :: string where
  "repositories_url = ''https://api.bitbucket.org/2.0/repositories/lefigaro/''"

text \<open>A create-repository request that came back with a 2xx response.\<close>

fun created :: "effect \<Rightarrow> bool" where
  "created (HttpRequest req (Response st body)) =
     (http_method req = ''POST'' \<and> take (length repositories_url) (url req) = repositories_url
      \<and> 200 \<le> st \<and> st < 300)"
| "created x = False"

text \<open>No mutation stands before the first successful creation.\<close>

fun creation_first :: "effect list \<Rightarrow> bool" where
  "creation_first [] = True"
| "creation_first (x # xs) = (created x \<or> (\<not> is_mutation x \<and> creation_first xs))"

text \<open>
  A finished run respects the order: no mutation before a successful creation,
  and without a successful creation the process has exited with code 1 and
  nothing was mutated.
\<close>

definition mutation_guarded :: "outcome \<times> proc \<Rightarrow> bool" where
  "mutation_guarded r =
     (creation_first (trace (snd r))
      \<and> ((\<forall>x \<in> set (trace (snd r)). \<not> created x) \<longrightarrow>
           fst r = Exited 1 \<and> (\<forall>x \<in> set (trace (snd r)). \<not> is_mutation x)))"

text \<open>A computation only adds to the trace, and only effects that satisfy \<open>P\<close>.\<close>

definition adds :: "(effect \<Rightarrow> bool) \<Rightarrow> 'a io \<Rightarrow> bool" where
  "adds P m = (\<forall>s. \<exists>t. trace (snd (m s)) = trace s @ t \<and> list_all P t)"

text \<open>What the two scripts do once the repository exists.\<close>

definition after_creation :: "env \<Rightarrow> string \<Rightarrow> jsval \<Rightarrow> unit io" where
  "after_creation e projectDir repoUrl =
     io_then (console_log [S created_msg, V repoUrl])
       (io_bind (initWorkspace e projectDir repoUrl) (\<lambda>initialDir.
        io_then (customizeManifest e projectDir)
       (io_then (process_chdir e initialDir)
                (console_log [S done_msg]))))"

definition after_creation_zx :: "env \<Rightarrow> string \<Rightarrow> jsval \<Rightarrow> unit io" where
  "after_creation_zx e projectDir repoUrl =
     io_then (console_log [S created_msg, V repoUrl])
       (io_then (initWorkspace_zx e projectDir repoUrl)
       (io_then (customizeManifest_zx e projectDir)
                (console_log [S done_msg])))"

text \<open>
  The effects of the first variant after the creation: the three commands, the
  removal, the changes of directory and the manifest write.
\<close>

definition clone_command :: "string \<Rightarrow> string" where
  "clone_command projectDir = ''git clone --depth 1 '' @ template_url @ '' '' @ projectDir"

definition remote_command :: "jsval \<Rightarrow> string" where
  "remote_command repoUrl = ''git remote add origin '' @ to_string repoUrl"

definition local_step :: "string \<Rightarrow> jsval \<Rightarrow> effect \<Rightarrow> bool" where
  "local_step projectDir repoUrl x =
     (case x of
        HttpRequest req res \<Rightarrow> False
      | ExecSync cmd dir st \<Rightarrow>
          cmd = clone_command projectDir \<or> cmd = ''git init'' \<or> cmd = remote_command repoUrl
      | ZxRun parts dir st \<Rightarrow> False
      | _ \<Rightarrow> True)"

text \<open>\<^verbatim>\<open>undefined\<close> or \<^verbatim>\<open>null\<close>: the values whose properties cannot be read.\<close>

definition nullish :: "jsval \<Rightarrow> bool" where
  "nullish v = (v = Undefined \<or> v = Val JNull)"

text \<open>\<^verbatim>\<open>response.data?.links?.html\<close>\<close>

definition html_of :: "json \<Rightarrow> jsval" where
  "html_of body = get_prop_opt (get_prop_opt (Val body) ''links'') ''html''"


definition absolute :: "string \<Rightarrow> bool" where
  "absolute p = (p \<noteq> [] \<and> hd p = CHR ''/'')"

definition keeps_cwd :: "'a io \<Rightarrow> bool" where
  "keeps_cwd m = (\<forall>s. cwd (snd (m s)) = cwd s)"

subsection \<open>Serialised documents\<close>


definition all_ws :: "string \<Rightarrow> bool" where
  "all_ws w = list_all is_ws w"

text \<open>What may follow a value in a document: nothing, a separator, a closing bracket, white space.\<close>

definition follows :: "string \<Rightarrow> bool" where
  "follows r =
     (r = [] \<or> hd r = CHR '','' \<or> hd r = CHR '']'' \<or> hd r = CHR ''}'' \<or> is_ws (hd r))"



subsection \<open>Commands as a POSIX shell reads them\<close>

text \<open>
  Both variants hand their git commands to a shell. \<^verbatim>\<open>execSync\<close> gives the text of
  the command to \<^verbatim>\<open>/bin/sh\<close> as it is; \<^verbatim>\<open>$\<close> of zx quotes every interpolated
  string, so that it reaches the command as one word whatever it holds.

  The shell is followed on a small part of its language only: words of plain
  characters (letters, digits and \<^verbatim>\<open>- _ . / : @\<close>) separated by spaces, and the
  operator \<^verbatim>\<open>&&\<close> between the commands of a list. On every other text the
  reading is \<open>None\<close>: nothing is said about what the shell does with it.
\<close>

definition plain_char :: "char \<Rightarrow> bool" where
  "plain_char c =
     (let n = (of_char c :: nat) in
      (48 \<le> n \<and> n \<le> 57) \<or> (65 \<le> n \<and> n \<le> 90) \<or> (97 \<le> n \<and> n \<le> 122)
      \<or> c = CHR ''-'' \<or> c = CHR ''_'' \<or> c = CHR ''.'' \<or> c = CHR ''/'' \<or> c = CHR '':''
      \<or> c = CHR ''@'')"

definition plain_word :: "string \<Rightarrow> bool" where
  "plain_word w = (w \<noteq> [] \<and> list_all plain_char w)"

datatype token = Word string | AndIf

text \<open>The pieces of a text between the occurrences of a separator.\<close>

fun split_on :: "char \<Rightarrow> string \<Rightarrow> string list" where
  "split_on sep [] = [[]]"
| "split_on sep (c # cs) =
     (if c = sep then [] # split_on sep cs
      else (case split_on sep cs of [] \<Rightarrow> [[c]] | w # ws \<Rightarrow> (c # w) # ws))"

definition sh_tokens :: "string \<Rightarrow> token list option" where
  "sh_tokens t =
     (let ws = filter (\<lambda>w. w \<noteq> []) (split_on (CHR '' '') t) in
      if list_all (\<lambda>w. w = ''&&'' \<or> list_all plain_char w) ws
      then Some (map (\<lambda>w. if w = ''&&'' then AndIf else Word w) ws)
      else None)"

text \<open>
  A zx command is followed when every interpolated value is a string that is
  not empty and stands between spaces (or at the end): zx quotes the string, and
  the shell reads it back as one word.
\<close>

fun after_space :: "zx_part list \<Rightarrow> bool" where
  "after_space [] = True"
| "after_space (Lit t # ps) = (t \<noteq> [] \<and> hd t = CHR '' '')"
| "after_space (Arg v # ps) = False"

fun zx_tokens :: "zx_part list \<Rightarrow> token list option" where
  "zx_tokens [] = Some []"
| "zx_tokens (Lit t # ps) =
     (if ps \<noteq> [] \<and> (t = [] \<or> last t \<noteq> CHR '' '') then None
      else (case sh_tokens t of
              None \<Rightarrow> None
            | Some ts \<Rightarrow>
                (case zx_tokens ps of None \<Rightarrow> None | Some r \<Rightarrow> Some (ts @ r))))"
| "zx_tokens (Arg (Val (JStr w)) # ps) =
     (if w = [] \<or> \<not> after_space ps then None
      else (case zx_tokens ps of None \<Rightarrow> None | Some r \<Rightarrow> Some (Word w # r)))"
| "zx_tokens (Arg v # ps) = None"

text \<open>The commands of an and-list, each one the list of its words.\<close>

fun commands :: "token list \<Rightarrow> string list list" where
  "commands [] = [[]]"
| "commands (AndIf # ts) = [] # commands ts"
| "commands (Word w # ts) = (case commands ts of [] \<Rightarrow> [[w]] | c # cs \<Rightarrow> (w # c) # cs)"

text \<open>
  A program (here git) gets its words, the directory it runs in and the files,
  and gives its exit status and the files it leaves.
\<close>

type_synonym program = "string list \<Rightarrow> string \<Rightarrow> filesystem \<Rightarrow> nat \<times> filesystem"

text \<open>
  The files left when a path and all below it are removed, as \<^verbatim>\<open>rmSync\<close> with
  \<^verbatim>\<open>recursive\<close> does and as \<^verbatim>\<open>rm -rf\<close> does.
\<close>

definition remove_tree :: "string \<Rightarrow> filesystem \<Rightarrow> filesystem" where
  "remove_tree p files =
     (\<lambda>q. if q = p \<or> take (Suc (length p)) q = p @ ''/'' then None else files q)"

text \<open>
  The operands on which \<^verbatim>\<open>cd\<close> and \<^verbatim>\<open>rm -rf\<close> are followed. \<^verbatim>\<open>cd\<close> with an
  operand that begins with \<^verbatim>\<open>-\<close> (an option, or \<^verbatim>\<open>cd -\<close>) or that has a component
  \<^verbatim>\<open>..\<close> (which the shell resolves on the text of the path, not on the file
  system) is not followed; nor is \<^verbatim>\<open>rm -rf\<close> of an option, of \<^verbatim>\<open>.\<close>, \<^verbatim>\<open>..\<close> or a
  path that ends with a slash. \<^verbatim>\<open>CDPATH\<close> is taken to be unset.
\<close>

definition cd_operand :: "string \<Rightarrow> bool" where
  "cd_operand p = (p \<noteq> [] \<and> hd p \<noteq> CHR ''-'' \<and> ''..'' \<notin> set (split_on (CHR ''/'') p))"

definition rm_operand :: "string \<Rightarrow> bool" where
  "rm_operand p =
     (p \<noteq> [] \<and> hd p \<noteq> CHR ''-''
      \<and> last (split_on (CHR ''/'') p) \<notin> {[], ''.'', ''..''})"

text \<open>
  An and-list stops at the first command that fails. \<^verbatim>\<open>cd\<close> and \<^verbatim>\<open>rm -rf\<close> fail
  when \<^verbatim>\<open>process.chdir\<close> and \<^verbatim>\<open>rmSync\<close> would on the same path, with status 1.
  Of the other commands only those of git are followed.
\<close>

fun run_list ::
  "env \<Rightarrow> program \<Rightarrow> string list list \<Rightarrow> string \<Rightarrow> filesystem \<Rightarrow> (nat \<times> filesystem) option" where
  "run_list e prog [] dir files = Some (0, files)"
| "run_list e prog (argv # rest) dir files =
     (if length argv = 2 \<and> hd argv = ''cd'' \<and> cd_operand (argv ! 1) then
        (case chdir_fault e (resolve dir (argv ! 1)) of
           Some err \<Rightarrow> Some (1, files)
         | None \<Rightarrow> run_list e prog rest (resolve dir (argv ! 1)) files)
      else if length argv = 3 \<and> take 2 argv = [''rm'', ''-rf''] \<and> rm_operand (argv ! 2) then
        (case rm_fault e (resolve dir (argv ! 2)) of
           Some err \<Rightarrow> Some (1, files)
         | None \<Rightarrow> run_list e prog rest dir (remove_tree (resolve dir (argv ! 2)) files))
      else if argv \<noteq> [] \<and> hd argv = ''git'' then
        (case prog argv dir files of
           (st, files') \<Rightarrow> if st = 0 then run_list e prog rest dir files' else Some (st, files'))
      else None)"

definition posix_sh ::
  "env \<Rightarrow> program \<Rightarrow> string \<Rightarrow> string \<Rightarrow> filesystem \<Rightarrow> (nat \<times> filesystem) option" where
  "posix_sh e prog cmd dir files =
     (case sh_tokens cmd of
        None \<Rightarrow> None
      | Some ts \<Rightarrow> run_list e prog (commands ts) dir files)"

definition posix_zx ::
  "env \<Rightarrow> program \<Rightarrow> zx_part list \<Rightarrow> string \<Rightarrow> filesystem \<Rightarrow> (nat \<times> filesystem) option" where
  "posix_zx e prog parts dir files =
     (case zx_tokens parts of
        None \<Rightarrow> None
      | Some ts \<Rightarrow> run_list e prog (commands ts) dir files)"

text \<open>
  The shell of both variants is a POSIX shell in front of the same programs:
  wherever the reading above says what a command does, the shell does that.
\<close>

definition posix :: "env \<Rightarrow> program \<Rightarrow> bool" where
  "posix e prog =
     ((\<forall>cmd dir files r. posix_sh e prog cmd dir files = Some r \<longrightarrow> shell e cmd dir files = r)
      \<and> (\<forall>parts dir files r.
            posix_zx e prog parts dir files = Some r \<longrightarrow> zx_shell e parts dir files = r))"

text \<open>
  An environment with such a shell; a command that is not followed is reported
  as not found (status 127).
\<close>

definition with_posix :: "env \<Rightarrow> program \<Rightarrow> env" where
  "with_posix e prog =
     e\<lparr>shell := (\<lambda>cmd dir files.
                   case posix_sh e prog cmd dir files of Some r \<Rightarrow> r | None \<Rightarrow> (127, files)),
       zx_shell := (\<lambda>parts dir files.
                   case posix_zx e prog parts dir files of Some r \<Rightarrow> r | None \<Rightarrow> (127, files))\<rparr>"

text \<open>
  A project identifier that both variants treat alike: a plain word that \<^verbatim>\<open>cd\<close>
  takes as a directory.
\<close>

definition project_name :: "string \<Rightarrow> bool" where
  "project_name a = (plain_word a \<and> cd_operand a)"

text \<open>An address that is a string and a plain word.\<close>

fun plain_href :: "jsval \<Rightarrow> bool" where
  "plain_href (Val (JStr h)) = plain_word h"
| "plain_href v = False"

text \<open>Every address that a successful answer of the remote carries is one.\<close>

definition hrefs_plain :: "env \<Rightarrow> bool" where
  "hrefs_plain e =
     (\<forall>req st body u. axios_reply e req = Response st body \<longrightarrow> response_href body = Inr u \<longrightarrow>
        plain_href u)"

text \<open>The two commands of the second variant, lines 459 and 460.\<close>

definition clone_parts :: "string \<Rightarrow> zx_part list" where
  "clone_parts projectDir =
     [Lit (''git clone --depth 1 '' @ template_url @ '' ''),
      Arg (Val (JStr projectDir)), Lit '' '']"

definition setup_parts :: "string \<Rightarrow> jsval \<Rightarrow> zx_part list" where
  "setup_parts projectDir repoUrl =
     [Lit ''cd '', Arg (Val (JStr projectDir)),
      Lit '' && rm -rf .git && git init && git remote add origin '',
      Arg repoUrl]"

text \<open>The words that register the remote \<^verbatim>\<open>origin\<close> at an address.\<close>

definition remote_argv :: "string \<Rightarrow> string list" where
  "remote_argv h = [''git'', ''remote'', ''add'', ''origin'', h]"

subsection \<open>The local steps, as the interface describes them\<close>

text \<open>
  The shallow clone of the fixed template into the project directory, the
  removal of its history, \<^verbatim>\<open>git init\<close> and the registration of \<^verbatim>\<open>origin\<close> in
  the project directory: whether all succeeded, and the files left.
\<close>

definition clone_argv :: "string \<Rightarrow> string list" where
  "clone_argv d = [''git'', ''clone'', ''--depth'', ''1'', template_url, d]"

definition workspace_result ::
  "env \<Rightarrow> program \<Rightarrow> string \<Rightarrow> string \<Rightarrow> string \<Rightarrow> filesystem \<Rightarrow> bool \<times> filesystem" where
  "workspace_result e prog a h d f0 =
     (case prog (clone_argv a) d f0 of
        (st1, f1) \<Rightarrow>
          if st1 \<noteq> 0 then (False, f1)
          else
            (case rm_fault e (resolve d (a @ ''/.git'')) of
               Some err \<Rightarrow> (False, f1)
             | None \<Rightarrow>
                 (case prog [''git'', ''init''] (resolve d a)
                         (remove_tree (resolve d (a @ ''/.git'')) f1) of
                    (st3, f3) \<Rightarrow>
                      if st3 \<noteq> 0 then (False, f3)
                      else
                        (case prog (remote_argv h) (resolve d a) f3 of
                           (st4, f4) \<Rightarrow> (st4 = 0, f4)))))"

text \<open>
  The manifest with \<^verbatim>\<open>name\<close> and \<^verbatim>\<open>figdata.id\<close> set, and the files after it is
  read, changed and written back with an indentation of two.
\<close>

definition customised :: "string \<Rightarrow> json \<Rightarrow> js_error + json" where
  "customised a pkg =
     (case set_prop (Val pkg) ''name'' (JStr a) of
        Inl err \<Rightarrow> Inl err
      | Inr pkg1 \<Rightarrow>
          (case get_prop (Val pkg1) ''figdata'' of
             Inl err \<Rightarrow> Inl err
           | Inr fd \<Rightarrow>
               (case set_prop fd ''id'' (JStr a) of
                  Inl err \<Rightarrow> Inl err
                | Inr fd1 \<Rightarrow>
                    Inr (case pkg1 of
                           JObj kvs \<Rightarrow> JObj (AList.update ''figdata'' fd1 kvs)
                         | _ \<Rightarrow> pkg1))))"

definition manifest_result :: "env \<Rightarrow> string \<Rightarrow> string \<Rightarrow> filesystem \<Rightarrow> bool \<times> filesystem" where
  "manifest_result e a p f =
     (case f p of
        Some (File text) \<Rightarrow>
          (case JSON_parse text of
             None \<Rightarrow> (False, f)
           | Some pkg \<Rightarrow>
               (case customised a pkg of
                  Inl err \<Rightarrow> (False, f)
                | Inr pkg' \<Rightarrow>
                    (case write_fault e p of
                       Some err \<Rightarrow> (False, f)
                     | None \<Rightarrow> (True, f(p \<mapsto> File (JSON_stringify pkg' 2))))))
      | _ \<Rightarrow> (False, f))"

text \<open>Both steps: whether the run got through them, and the files at the end.\<close>

definition local_result ::
  "env \<Rightarrow> program \<Rightarrow> string \<Rightarrow> string \<Rightarrow> string \<Rightarrow> filesystem \<Rightarrow> bool \<times> filesystem" where
  "local_result e prog a h d f0 =
     (case workspace_result e prog a h d f0 of
        (ok, f4) \<Rightarrow>
          if ok then manifest_result e a (resolve d (a @ ''/package.json'')) f4 else (False, f4))"

text \<open>
  The HTTP requests among the effects; two states of the process that differ
  at most in what was printed.
\<close>

fun is_request :: "effect \<Rightarrow> bool" where
  "is_request (HttpRequest req res) = True"
| "is_request x = False"

definition same_world :: "proc \<Rightarrow> proc \<Rightarrow> bool" where
  "same_world s t = (cwd s = cwd t \<and> fs s = fs t \<and> trace s = trace t)"

text \<open>
  The exit code of the process: the argument of \<^verbatim>\<open>process.exit\<close>, 1 after an
  uncaught exception (or an unhandled rejection), 0 at the end of the script.
\<close>

fun exit_code :: "outcome \<Rightarrow> nat" where
  "exit_code (Exited n) = n"
| "exit_code (Uncaught err) = 1"
| "exit_code Completed = 0"

text \<open>The manifest was written.\<close>

fun is_written :: "effect \<Rightarrow> bool" where
  "is_written (WriteFile p t ok) = ok"
| "is_written x = False"

section \<open>A concrete world\<close>

text \<open>
  An operator in \<^verbatim>\<open>/home/op\<close> with a well-formed credentials file answers
  \<^verbatim>\<open>demo\<close>; the remote creates the repository; the clone brings a manifest.
\<close>

definition demo_credentials :: string where
  \<open>demo_credentials = ''{"username": "u", "token": "t"}''\<close>

definition demo_manifest :: string where
  \<open>demo_manifest =
     ''{"name": "old", "version": "1.0.0", "figdata": {"id": "old", "kind": 3}}''\<close>

definition demo_body :: json where
  "demo_body =
     JObj [(''links'', JObj [(''html'',
       JObj [(''href'', JStr ''https://bitbucket.org/lefigaro/demo'')])])]"

definition demo_shell :: "string \<Rightarrow> string \<Rightarrow> filesystem \<Rightarrow> nat \<times> filesystem" where
  "demo_shell cmd dir files =
     (if take 9 cmd = ''git clone''
      then (0, files(dir @ ''/demo/package.json'' \<mapsto> File demo_manifest,
                     dir @ ''/demo/.git/HEAD'' \<mapsto> File ''ref''))
      else (0, files))"

definition demo_env :: env where
  "demo_env =
     \<lparr>prompt_answer = ''demo'', axios_reply = (\<lambda>r. Response 201 demo_body),
      shell = demo_shell, zx_shell = (\<lambda>p d f. (0, f)),
      rm_fault = (\<lambda>p. None), chdir_fault = (\<lambda>p. None), write_fault = (\<lambda>p. None)\<rparr>"

definition demo_files :: filesystem where
  "demo_files = [''/home/op/./bitbucket-credentials.json'' \<mapsto> File demo_credentials]"

definition demo_start :: proc where
  "demo_start = start ''/home/op'' demo_files"

text \<open>The remote refuses the creation (the name is taken).\<close>

definition refused_body :: json where
  "refused_body = JObj [(''error'', JObj [(''message'', JStr ''Repository already exists.'')])]"

definition refused_env :: env where
  "refused_env = demo_env\<lparr>axios_reply := (\<lambda>r. Response 400 refused_body)\<rparr>"

text \<open>The remote creates the repository but its answer has no \<^verbatim>\<open>href\<close>, or no \<^verbatim>\<open>links\<close>.\<close>

definition no_href_body :: json where
  "no_href_body = JObj [(''links'', JObj [(''html'', JObj [])])]"

definition no_href_env :: env where
  "no_href_env = demo_env\<lparr>axios_reply := (\<lambda>r. Response 201 no_href_body)\<rparr>"

definition no_links_env :: env where
  "no_links_env = demo_env\<lparr>axios_reply := (\<lambda>r. Response 201 (JObj []))\<rparr>"

text \<open>The credentials file exists and is not JSON.\<close>

definition malformed_files :: filesystem where
  "malformed_files = [''/home/op/./bitbucket-credentials.json'' \<mapsto> File ''{'']"

text \<open>Every shell command fails, so the clone does.\<close>

definition failing_clone_env :: env where
  "failing_clone_env = demo_env\<lparr>shell := (\<lambda>cmd dir files. (128, files))\<rparr>"

definition demo_parsed :: json where
  "demo_parsed = JObj [(''username'', JStr ''u''), (''token'', JStr ''t'')]"

definition demo_url :: jsval where
  "demo_url = Val (JStr ''https://bitbucket.org/lefigaro/demo'')"

text \<open>The manifest the successful run writes, and the effects of that run.\<close>

definition demo_written :: string where
  "demo_written =
     JSON_stringify
       (JObj [(''name'', JStr ''demo''), (''version'', JStr ''1.0.0''),
              (''figdata'', JObj [(''id'', JStr ''demo''), (''kind'', JNum 3)])]) 2"

definition demo_trace :: "effect list" where
  "demo_trace =
     [HttpRequest (create_request ''dTp0'' ''demo'') (Response 201 demo_body),
      ExecSync (clone_command ''demo'') ''/home/op'' 0,
      RmSync ''/home/op/demo/.git'' True,
      Chdir ''/home/op/demo'' True,
      ExecSync ''git init'' ''/home/op/demo'' 0,
      ExecSync ''git remote add origin https://bitbucket.org/lefigaro/demo'' ''/home/op/demo'' 0,
      WriteFile ''/home/op/demo/package.json'' demo_written True,
      Chdir ''/home/op'' True]"


text \<open>The final change of directory, back to where the run started, is refused.\<close>

definition stranded_env :: env where
  "stranded_env =
     demo_env\<lparr>chdir_fault :=
       (\<lambda>p. if p = ''/home/op''
            then Some (SystemError ''EACCES''
                   (''EACCES: permission denied, chdir '' @ [squote] @ ''/home/op/demo'' @ [squote]
                    @ '' -> '' @ [squote] @ ''/home/op'' @ [squote]))
            else None)\<rparr>"

text \<open>
  A git behind a POSIX shell. \<^verbatim>\<open>clone\<close> takes the repository and one directory
  (with more operands git stops with status 129) and brings the manifest of the
  template; \<^verbatim>\<open>remote add origin\<close> takes one address and records it in the
  configuration of the repository; the other commands succeed. The operator
  answers \<open>a\<close>, the remote creates the repository and answers \<open>body\<close>.
\<close>

definition demo_git :: program where
  "demo_git argv dir files =
     (if take 2 argv = [''git'', ''clone''] then
        (if length argv = 6
         then (0, files(resolve dir (argv ! 5) @ ''/package.json'' \<mapsto> File demo_manifest,
                        resolve dir (argv ! 5) @ ''/.git/HEAD'' \<mapsto> File ''ref''))
         else (129, files))
      else if take 2 argv = [''git'', ''remote''] then
        (if length argv = 5 \<and> take 2 (drop 2 argv) = [''add'', ''origin'']
         then (0, files(dir @ ''/.git/config'' \<mapsto> File (argv ! 4)))
         else (129, files))
      else (0, files))"

definition posix_world :: "string \<Rightarrow> json \<Rightarrow> env" where
  "posix_world a body =
     with_posix
       (demo_env\<lparr>prompt_answer := a, axios_reply := (\<lambda>r. Response 201 body)\<rparr>) demo_git"

definition project_path :: "string \<Rightarrow> string" where
  "project_path a = ''/home/op/'' @ a"

text \<open>The manifest of the template once customised for \<open>a\<close>.\<close>

definition written :: "string \<Rightarrow> string" where
  "written a =
     JSON_stringify
       (JObj [(''name'', JStr a), (''version'', JStr ''1.0.0''),
              (''figdata'', JObj [(''id'', JStr a), (''kind'', JNum 3)])]) 2"


section \<open>The steps of the program, one equation each\<close>

lemmas io_defs = io_catch_def io_bind_def io_then_def io_throw_def io_return_def io_lift_def
  console_error_def console_log_def

lemma read_credentials_eq:
  "io_catch (io_bind (readFileSync ''./bitbucket-credentials.json'') JSON_parse_io) credentials_catch s =
     (case fs s (resolve (cwd s) ''./bitbucket-credentials.json'') of
        None \<Rightarrow>
          (Inl (SystemError ''ENOENT''
                 (''ENOENT: no such file or directory, open '' @ [squote] @ ''./bitbucket-credentials.json'' @ [squote])),
           say Stderr [S (file_missing_msg [])] s)
      | Some (Unreadable code msg) \<Rightarrow>
          (Inl (SystemError code msg),
           say Stderr (if code = ''ENOENT'' then [S (file_missing_msg [])]
                       else [S read_error_msg, S msg]) s)
      | Some (File text) \<Rightarrow>
          (case JSON_parse text of
             None \<Rightarrow> (Inl (SyntaxError ''Unexpected token in JSON''),
                       say Stderr [S invalid_json_msg] s)
           | Some v \<Rightarrow> (Inr v, s)))"
  by (simp add: io_defs credentials_catch_def readFileSync_def JSON_parse_io_def say_def
      split: option.splits node.splits)

lemma getBitbucketCredentials_eq:
  "io_catch getBitbucketCredentials credentials_catch s =
     (case fs s (resolve (cwd s) ''./bitbucket-credentials.json'') of
        None \<Rightarrow>
          (Inl (SystemError ''ENOENT''
                 (''ENOENT: no such file or directory, open '' @ [squote] @ ''./bitbucket-credentials.json'' @ [squote])),
           say Stderr [S (file_missing_msg [])] (say Stderr [S (file_missing_msg (pad 8))] s))
      | Some (Unreadable code msg) \<Rightarrow>
          (Inl (SystemError code msg),
           say Stderr (if code = ''ENOENT'' then [S (file_missing_msg [])]
                       else [S read_error_msg, S msg]) (say Stderr [S (file_missing_msg (pad 8))] s))
      | Some (File text) \<Rightarrow>
          (case JSON_parse text of
             None \<Rightarrow> (Inl (SyntaxError ''Unexpected token in JSON''),
                       say Stderr [S invalid_json_msg] (say Stderr [S (file_missing_msg (pad 8))] s))
           | Some v \<Rightarrow> (Inr v, s)))"
  by (simp add: io_defs getBitbucketCredentials_def credentials_catch_def readFileSync_def JSON_parse_io_def say_def
      split: option.splits node.splits)

lemma get_prop_nonnull: "c \<noteq> JNull \<Longrightarrow> get_prop (Val c) k = Inr (get_prop_opt (Val c) k)"
  by (cases c) simp_all

lemma check_credentials_eq:
  "check_credentials c s =
     (if c = JNull then (Inl (TypeError ''Cannot read properties of null (reading 'token')''), s)
      else if valid_credentials c then (Inr (), s)
      else (Inl (Error invalid_format_msg), s))"
  by (simp add: check_credentials_def valid_credentials_def io_defs get_prop_nonnull)

lemma basic_auth_eq:
  "c \<noteq> JNull \<Longrightarrow> basic_auth c s = (Inr (auth_token c), s)"
  by (simp add: basic_auth_def auth_token_def io_defs get_prop_nonnull)

lemma axios_eq:
  "axios e req s =
     (case axios_reply e req of
        NoResponse msg \<Rightarrow> (Inl (AxiosError msg None), sent (HttpRequest req (NoResponse msg)) s)
      | Response st body \<Rightarrow>
          (if 200 \<le> st \<and> st < 300 then (Inr (st, body), sent (HttpRequest req (Response st body)) s)
           else (Inl (AxiosError (''Request failed with status code '' @ show_nat st) (Some (st, body))),
           sent (HttpRequest req (Response st body)) s)))"
  by (auto simp: axios_def sent_def Let_def split: http_result.splits)

lemma provision_valid:
  assumes "valid_credentials c"
  shows "provision e n c s =
     (let req = create_request (auth_token c) n;
          s1 = sent (HttpRequest req (axios_reply e req)) s
      in case (case axios_reply e req of
                 NoResponse msg \<Rightarrow> Inl (AxiosError msg None)
               | Response st body \<Rightarrow>
                   if 200 \<le> st \<and> st < 300 then response_href body
                   else Inl (AxiosError (''Request failed with status code '' @ show_nat st)
                               (Some (st, body)))) of
           Inl err \<Rightarrow> (Inl err, say Stderr [S creation_failed_msg, V (reported_message err)] s1)
         | Inr u \<Rightarrow> (Inr u, s1))"
proof -
  from assms have nn: "c \<noteq> JNull" by (simp add: valid_credentials_def)
  show ?thesis
    unfolding provision_def
    by (auto simp: io_defs check_credentials_eq nn assms basic_auth_eq
        axios_eq response_href_def Let_def say_def
        split: http_result.splits sum.splits)
qed

lemma provision_invalid:
  assumes "\<not> valid_credentials c"
  shows "\<exists>err. provision e n c s = (Inl err, s)"
  using assms unfolding provision_def
  by (auto simp: io_defs check_credentials_eq)


section \<open>The trace only grows\<close>

lemma adds_mono: "adds P m \<Longrightarrow> (\<And>x. P x \<Longrightarrow> Q x) \<Longrightarrow> adds Q m"
  unfolding adds_def list_all_iff by blast

lemma adds_prefix:
  assumes "adds P m" and "m s = (r, s')"
  shows "prefix (trace s) (trace s')"
  using assms by (auto simp: adds_def prefix_def dest!: spec [of _ s])

lemma adds_new:
  assumes "adds P m" and "m s = (r, s')" and "x \<in> set (trace s')"
  shows "x \<in> set (trace s) \<or> P x"
proof -
  from assms(1) obtain t where "trace (snd (m s)) = trace s @ t" "list_all P t"
    unfolding adds_def by blast
  then show ?thesis using assms(2,3) by (auto simp: list_all_iff)
qed

lemma adds_return [simp]: "adds P (io_return x)"
  by (simp add: adds_def io_return_def)

lemma adds_throw [simp]: "adds P (io_throw x)"
  by (simp add: adds_def io_throw_def)

lemma adds_lift [simp]: "adds P (io_lift x)"
  by (simp add: adds_def io_lift_def)

lemma adds_bind:
  assumes "adds P m" and "\<And>x. adds P (k x)"
  shows "adds P (io_bind m k)"
  unfolding adds_def
proof
  fix s
  obtain r s1 where m: "m s = (r, s1)" by (cases "m s")
  from assms(1) m obtain t1 where t1: "trace s1 = trace s @ t1" "list_all P t1"
    by (auto simp: adds_def dest!: spec [of _ s])
  show "\<exists>t. trace (snd (io_bind m k s)) = trace s @ t \<and> list_all P t"
  proof (cases r)
    case (Inl err)
    then show ?thesis using m t1 by (simp add: io_bind_def)
  next
    case (Inr x)
    from assms(2) [of x] obtain t2 where "trace (snd (k x s1)) = trace s1 @ t2" "list_all P t2"
      by (auto simp: adds_def dest!: spec [of _ s1])
    then have "trace (snd (io_bind m k s)) = trace s @ (t1 @ t2) \<and> list_all P (t1 @ t2)"
      using m t1 Inr by (simp add: io_bind_def)
    then show ?thesis by blast
  qed
qed

lemma adds_then: "adds P m \<Longrightarrow> adds P k \<Longrightarrow> adds P (io_then m k)"
  by (simp add: io_then_def adds_bind)

lemma adds_catch:
  assumes "adds P m" and "\<And>x. adds P (h x)"
  shows "adds P (io_catch m h)"
  unfolding adds_def
proof
  fix s
  obtain r s1 where m: "m s = (r, s1)" by (cases "m s")
  from assms(1) m obtain t1 where t1: "trace s1 = trace s @ t1" "list_all P t1"
    by (auto simp: adds_def dest!: spec [of _ s])
  show "\<exists>t. trace (snd (io_catch m h s)) = trace s @ t \<and> list_all P t"
  proof (cases r)
    case (Inr x)
    then show ?thesis using m t1 by (simp add: io_catch_def)
  next
    case (Inl err)
    from assms(2) [of err] obtain t2 where "trace (snd (h err s1)) = trace s1 @ t2" "list_all P t2"
      by (auto simp: adds_def dest!: spec [of _ s1])
    then have "trace (snd (io_catch m h s)) = trace s @ (t1 @ t2) \<and> list_all P (t1 @ t2)"
      using m t1 Inl by (simp add: io_catch_def)
    then show ?thesis by blast
  qed
qed

lemma adds_console [simp]: "adds P (console_log args)" "adds P (console_error args)"
  by (simp_all add: adds_def console_log_def console_error_def)

lemma adds_readFileSync [simp]: "adds P (readFileSync p)"
  by (simp add: adds_def readFileSync_def split: option.splits node.splits)

lemma adds_JSON_parse_io [simp]: "adds P (JSON_parse_io t)"
  by (simp add: JSON_parse_io_def split: option.splits)

lemma adds_process_cwd [simp]: "adds P process_cwd"
  by (simp add: adds_def process_cwd_def)

lemma adds_writeFileSync:
  "(\<And>q ok. P (WriteFile q t ok)) \<Longrightarrow> adds P (writeFileSync e p t)"
  by (simp add: adds_def writeFileSync_def Let_def split: option.splits)

lemma adds_execSync:
  "(\<And>dir st. P (ExecSync c dir st)) \<Longrightarrow> adds P (execSync e c)"
  by (simp add: adds_def execSync_def split: prod.splits)

lemma adds_zx:
  "(\<And>dir st. P (ZxRun c dir st)) \<Longrightarrow> adds P (zx e c)"
  by (simp add: adds_def zx_def split: prod.splits)

lemma adds_rmSync:
  "(\<And>q ok. P (RmSync q ok)) \<Longrightarrow> adds P (rmSync e p)"
  by (simp add: adds_def rmSync_def Let_def split: option.splits)

lemma adds_process_chdir:
  "(\<And>q ok. P (Chdir q ok)) \<Longrightarrow> adds P (process_chdir e p)"
  by (simp add: adds_def process_chdir_def Let_def split: option.splits)

lemmas adds_intros = adds_bind adds_then adds_catch adds_writeFileSync adds_execSync adds_zx
  adds_rmSync adds_process_chdir

text \<open>What the steps after the creation add: no HTTP request, and only these commands.\<close>

lemma adds_rewriteManifest:
  "adds (\<lambda>x. \<exists>q t ok. x = WriteFile q t ok) (rewriteManifest e p d)"
  unfolding rewriteManifest_def by (intro adds_intros; simp)

lemma adds_after_creation:
  "adds (\<lambda>x. local_step d u x) (after_creation e d u)"
  unfolding after_creation_def initWorkspace_def customizeManifest_def
  by (intro adds_intros adds_mono [OF adds_rewriteManifest];
      auto simp: local_step_def clone_command_def remote_command_def)

lemma adds_after_creation_zx:
  "adds (\<lambda>x. \<exists>parts dir st q t ok. x = ZxRun parts dir st \<or> x = WriteFile q t ok)
     (after_creation_zx e d u)"
  unfolding after_creation_zx_def initWorkspace_zx_def customizeManifest_zx_def
  by (intro adds_intros adds_mono [OF adds_rewriteManifest]; auto)

lemma created_create_request:
  "200 \<le> st \<Longrightarrow> st < 300 \<Longrightarrow> created (HttpRequest (create_request a n) (Response st body))"
  by (simp add: create_request_def repositories_url_def)

lemma provision_result:
  assumes "provision e n c s = (r, s')"
  shows "cwd s' = cwd s \<and> fs s' = fs s \<and>
     (case r of
        Inl err \<Rightarrow> trace s' = trace s \<or> (\<exists>x. trace s' = trace s @ [x] \<and> \<not> is_mutation x)
      | Inr u \<Rightarrow> \<exists>x. trace s' = trace s @ [x] \<and> created x)"
proof (cases "valid_credentials c")
  case False
  from provision_invalid [OF this, of e n s] assms show ?thesis by auto
next
  case True
  show ?thesis
    using assms unfolding provision_valid [OF True]
    by (auto simp del: created.simps simp: Let_def sent_def say_def created_create_request
        split: http_result.splits sum.splits if_splits)
qed

lemma createBitbucketRepo_result:
  assumes "createBitbucketRepo e n s = (r, s')"
  shows "cwd s' = cwd s \<and> fs s' = fs s \<and>
     (case r of
        Inl err \<Rightarrow> trace s' = trace s \<or> (\<exists>x. trace s' = trace s @ [x] \<and> \<not> is_mutation x)
      | Inr u \<Rightarrow> \<exists>x. trace s' = trace s @ [x] \<and> created x)"
proof -
  obtain r0 s0 where c: "io_catch getBitbucketCredentials credentials_catch s = (r0, s0)"
    by (cases "io_catch getBitbucketCredentials credentials_catch s")
  have fr: "trace s0 = trace s \<and> cwd s0 = cwd s \<and> fs s0 = fs s"
    using c unfolding getBitbucketCredentials_eq
    by (auto simp: say_def split: option.splits node.splits)
  show ?thesis
  proof (cases r0)
    case (Inl err)
    then show ?thesis using assms c fr by (auto simp: createBitbucketRepo_def io_bind_def)
  next
    case (Inr cr)
    then have "provision e n cr s0 = (r, s')"
      using assms c by (simp add: createBitbucketRepo_def io_bind_def)
    from provision_result [OF this] fr show ?thesis by (cases r) auto
  qed
qed

lemma createBitbucketRepo_zx_result:
  assumes "createBitbucketRepo_zx e n s = (r, s')"
  shows "cwd s' = cwd s \<and> fs s' = fs s \<and>
     (case r of
        Inl err \<Rightarrow> trace s' = trace s \<or> (\<exists>x. trace s' = trace s @ [x] \<and> \<not> is_mutation x)
      | Inr u \<Rightarrow> \<exists>x. trace s' = trace s @ [x] \<and> created x)"
proof -
  let ?rd = "io_catch (io_bind (readFileSync ''./bitbucket-credentials.json'') JSON_parse_io) credentials_catch"
  obtain r0 s0 where c: "?rd s = (r0, s0)"
    by (cases "?rd s")
  have fr: "trace s0 = trace s \<and> cwd s0 = cwd s \<and> fs s0 = fs s"
    using c unfolding read_credentials_eq
    by (auto simp: say_def split: option.splits node.splits)
  show ?thesis
  proof (cases r0)
    case (Inl err)
    then show ?thesis using assms c fr by (auto simp: createBitbucketRepo_zx_def io_bind_def)
  next
    case (Inr cr)
    then have "provision e n cr s0 = (r, s')"
      using assms c by (simp add: createBitbucketRepo_zx_def io_bind_def)
    from provision_result [OF this] fr show ?thesis by (cases r) auto
  qed
qed

lemma creation_first_prefix:
  assumes "created x" and "prefix [x] t"
  shows "creation_first t" and "\<exists>y\<in>set t. created y"
  using assms by (auto simp: prefix_def)

lemma run_eq:
  "run e s0 =
     (case createBitbucketRepo e (prompt_answer e) (say Stdout [S creating_msg] s0) of
        (Inl err, s1) \<Rightarrow> (Exited 1, say Stderr [S impossible_msg] s1)
      | (Inr repoUrl, s1) \<Rightarrow>
          (case after_creation e (prompt_answer e) repoUrl s1 of
             (Inl err, s2) \<Rightarrow> (Uncaught err, s2)
           | (Inr u, s2) \<Rightarrow> (Completed, s2)))"
  by (simp add: run_def after_creation_def Let_def io_then_def io_bind_def [of "console_log x" for x]
      console_log_def console_error_def say_def split: prod.splits sum.splits)

lemma run_zx_eq:
  "run_zx e s0 =
     (case createBitbucketRepo_zx e (prompt_answer e) (say Stdout [S creating_msg] s0) of
        (Inl err, s1) \<Rightarrow> (Exited 1, say Stderr [S impossible_msg] s1)
      | (Inr repoUrl, s1) \<Rightarrow>
          (case after_creation_zx e (prompt_answer e) repoUrl s1 of
             (Inl err, s2) \<Rightarrow> (Uncaught err, s2)
           | (Inr u, s2) \<Rightarrow> (Completed, s2)))"
  by (simp add: run_zx_def after_creation_zx_def Let_def io_then_def io_bind_def [of "console_log x" for x]
      console_log_def console_error_def say_def split: prod.splits sum.splits)

lemma guarded_generic:
  assumes step: "\<And>r s'. create (say Stdout [S creating_msg] s0) = (r, s') \<Longrightarrow>
           (case r of
              Inl err \<Rightarrow> trace s' = trace (say Stdout [S creating_msg] s0)
                   \<or> (\<exists>x. trace s' = trace (say Stdout [S creating_msg] s0) @ [x] \<and> \<not> is_mutation x)
            | Inr u \<Rightarrow> \<exists>x. trace s' = trace (say Stdout [S creating_msg] s0) @ [x] \<and> created x)"
    and rest: "\<And>u. adds (P u) (rest u)"
    and empty: "trace s0 = []"
  shows "mutation_guarded
     (case create (say Stdout [S creating_msg] s0) of
        (Inl err, s1) \<Rightarrow> (Exited 1, say Stderr [S impossible_msg] s1)
      | (Inr repoUrl, s1) \<Rightarrow>
          (case rest repoUrl s1 of
             (Inl err, s2) \<Rightarrow> (Uncaught err, s2)
           | (Inr u, s2) \<Rightarrow> (Completed, s2)))"
proof -
  obtain r s1 where c: "create (say Stdout [S creating_msg] s0) = (r, s1)"
    by (cases "create (say Stdout [S creating_msg] s0)")
  have t0: "trace (say Stdout [S creating_msg] s0) = []" using empty by (simp add: say_def)
  show ?thesis
  proof (cases r)
    case (Inl err)
    with step [OF c] t0 have "trace s1 = [] \<or> (\<exists>x. trace s1 = [x] \<and> \<not> is_mutation x)" by simp
    then show ?thesis using c Inl
      by (auto simp: mutation_guarded_def say_def)
  next
    case (Inr u)
    with step [OF c] t0 obtain x where x: "trace s1 = [x]" "created x" by auto
    obtain r2 s2 where r2: "rest u s1 = (r2, s2)" by (cases "rest u s1")
    have "prefix (trace s1) (trace s2)"
      using adds_prefix [OF rest r2] .
    then have "prefix [x] (trace s2)" using x by simp
    from creation_first_prefix [OF x(2) this]
    show ?thesis using c Inr r2 by (cases r2) (auto simp: mutation_guarded_def)
  qed
qed


section \<open>Reading properties\<close>

lemma get_prop_nullish:
  assumes "nullish v"
  shows "\<exists>m. get_prop v k = Inl (TypeError m)" and "get_prop_opt v k = Undefined"
  using assms by (auto simp: nullish_def)

lemma get_prop_present:
  assumes "\<not> nullish v"
  shows "get_prop v k = Inr (get_prop_opt v k)"
proof (cases v)
  case Undefined
  with assms show ?thesis by (simp add: nullish_def)
next
  case (Val j)
  with assms show ?thesis by (cases j) (simp_all add: nullish_def)
qed

lemma response_href_nullish:
  assumes "nullish (html_of body)"
  shows "\<exists>m. response_href body = Inl (TypeError m)"
proof (cases "nullish (Val body)")
  case True
  from get_prop_nullish(1) [OF this, of "''links''"] show ?thesis
    by (auto simp: response_href_def)
next
  case b: False
  show ?thesis
  proof (cases "nullish (get_prop_opt (Val body) ''links'')")
    case True
    from get_prop_nullish(1) [OF this, of "''html''"] show ?thesis
      by (auto simp: response_href_def get_prop_present [OF b])
  next
    case False
    from get_prop_nullish(1) [OF assms, of "''href''"] show ?thesis
      by (auto simp: response_href_def get_prop_present [OF b] get_prop_present [OF False]
          html_of_def)
  qed
qed

lemma response_href_present:
  assumes "\<not> nullish (html_of body)"
  shows "response_href body = Inr (get_prop_opt (html_of body) ''href'')"
proof -
  have l: "\<not> nullish (get_prop_opt (Val body) ''links'')"
    using assms get_prop_nullish(2) [of "get_prop_opt (Val body) ''links''" "''html''"]
    by (auto simp: html_of_def nullish_def)
  have b: "\<not> nullish (Val body)"
    using l get_prop_nullish(2) [of "Val body" "''links''"] by (auto simp: nullish_def)
  show ?thesis
    using assms
    by (simp add: response_href_def get_prop_present [OF b] get_prop_present [OF l]
        get_prop_present html_of_def)
qed

lemma reported_TypeError: "reported_message (TypeError m) = Val (JStr m)"
  by (simp add: reported_message_def js_or_def)

lemma update_permissions_unbound:
  assumes "valid_credentials c" and "n \<noteq> []"
  shows "update_permissions module_scope e n c s = (Inl (ReferenceError ''permission is not defined''), s)"
  using assms
  by (simp add: update_permissions_def check_credentials_eq valid_credentials_def
      lookup_ident_def module_scope_def io_defs)

section \<open>Successful steps\<close>

lemma io_bind_Inr:
  "io_bind m k s = (Inr y, s') \<longleftrightarrow> (\<exists>x s1. m s = (Inr x, s1) \<and> k x s1 = (Inr y, s'))"
  by (auto simp: io_bind_def split: prod.splits sum.splits)

lemma io_then_Inr:
  "io_then m k s = (Inr y, s') \<longleftrightarrow> (\<exists>s1. m s = (Inr (), s1) \<and> k s1 = (Inr y, s'))"
  by (auto simp: io_then_def io_bind_Inr)

lemma keeps_cwdD: "keeps_cwd m \<Longrightarrow> m s = (r, s') \<Longrightarrow> cwd s' = cwd s"
  by (auto simp: keeps_cwd_def dest!: spec [of _ s])

lemma keeps_cwd_simple [simp]:
  "keeps_cwd (io_return x)" "keeps_cwd (io_throw err)" "keeps_cwd (io_lift r)"
  "keeps_cwd (console_log args)" "keeps_cwd (console_error args)"
  "keeps_cwd (readFileSync p)" "keeps_cwd (JSON_parse_io t)"
  "keeps_cwd (writeFileSync e p t)" "keeps_cwd (execSync e c)" "keeps_cwd (rmSync e p)"
  "keeps_cwd (zx e parts)" "keeps_cwd process_cwd"
  by (simp_all add: keeps_cwd_def io_defs readFileSync_def JSON_parse_io_def writeFileSync_def
      execSync_def rmSync_def zx_def process_cwd_def Let_def split: option.splits node.splits prod.splits)

lemma keeps_cwd_bind:
  assumes "keeps_cwd m" and "\<And>x. keeps_cwd (k x)"
  shows "keeps_cwd (io_bind m k)"
  unfolding keeps_cwd_def
proof
  fix s
  obtain r s1 where m: "m s = (r, s1)" by (cases "m s")
  with assms(1) have c: "cwd s1 = cwd s" by (rule keeps_cwdD)
  show "cwd (snd (io_bind m k s)) = cwd s"
  proof (cases r)
    case (Inl err)
    then show ?thesis using m c by (simp add: io_bind_def)
  next
    case (Inr x)
    have "cwd (snd (k x s1)) = cwd s1" using assms(2) by (simp add: keeps_cwd_def)
    then show ?thesis using m c Inr by (simp add: io_bind_def)
  qed
qed

lemma keeps_cwd_then: "keeps_cwd m \<Longrightarrow> keeps_cwd k \<Longrightarrow> keeps_cwd (io_then m k)"
  by (simp add: io_then_def keeps_cwd_bind)

lemma keeps_cwd_customizeManifest: "keeps_cwd (customizeManifest e d)"
  unfolding customizeManifest_def rewriteManifest_def
  by (intro keeps_cwd_then keeps_cwd_bind; simp)

lemma execSync_Inr:
  "execSync e c s = (Inr x, s') \<Longrightarrow> cwd s' = cwd s \<and> prefix (trace s) (trace s')"
  by (auto simp: execSync_def split: prod.splits if_splits)

lemma rmSync_Inr:
  "rmSync e p s = (Inr x, s') \<Longrightarrow> cwd s' = cwd s \<and> prefix (trace s) (trace s')"
  by (auto simp: rmSync_def Let_def split: option.splits)

lemma process_chdir_Inr:
  "process_chdir e p s = (Inr x, s') \<Longrightarrow>
     cwd s' = resolve (cwd s) p \<and> trace s' = trace s @ [Chdir (resolve (cwd s) p) True]"
  by (auto simp: process_chdir_def Let_def split: option.splits)

lemma initWorkspace_Inr:
  assumes "initWorkspace e d u s = (Inr i, s')"
  shows "i = cwd s \<and> cwd s' = resolve (cwd s) d \<and> Chdir (resolve (cwd s) d) True \<in> set (trace s')"
proof -
  from assms obtain s1 s2 s3 s4 s5 s6 where
    1: "console_log [S cloning_msg] s = (Inr (), s1)" and
    2: "execSync e (''git clone --depth 1 '' @ template_url @ '' '' @ d) s1 = (Inr (), s2)" and
    3: "rmSync e (d @ ''/.git'') s2 = (Inr (), s3)" and
    4: "process_chdir e d s3 = (Inr (), s4)" and
    5: "execSync e ''git init'' s4 = (Inr (), s5)" and
    6: "execSync e (''git remote add origin '' @ to_string u) s5 = (Inr (), s6)" and
    7: "i = cwd s3" "s' = s6"
    unfolding initWorkspace_def
    by (auto simp: io_then_Inr io_bind_Inr process_cwd_def io_return_def)
  from 1 have c1: "cwd s1 = cwd s" by (auto simp: console_log_def)
  note e2 = execSync_Inr [OF 2] and e3 = rmSync_Inr [OF 3] and e4 = process_chdir_Inr [OF 4]
    and e5 = execSync_Inr [OF 5] and e6 = execSync_Inr [OF 6]
  have c3: "cwd s3 = cwd s" using c1 e2 e3 by simp
  have "Chdir (resolve (cwd s) d) True \<in> set (trace s4)" using e4 c3 by simp
  moreover have "prefix (trace s4) (trace s6)" using e5 e6 by (auto intro: prefix_order.trans)
  ultimately have "Chdir (resolve (cwd s) d) True \<in> set (trace s6)"
    by (auto simp: prefix_def)
  then show ?thesis using 7 c3 e4 e5 e6 by simp
qed

lemma adds_customizeManifest: "adds (\<lambda>x. True) (customizeManifest e d)"
  unfolding customizeManifest_def
  by (intro adds_then adds_mono [OF adds_rewriteManifest]; simp)

lemma initWorkspace_no_write: "adds (\<lambda>x. \<not> is_written x) (initWorkspace e d u)"
  unfolding initWorkspace_def by (intro adds_intros; simp)

lemma rewriteManifest_failed:
  assumes "rewriteManifest e p d s = (Inl err, s')" and "x \<in> set (trace s')" and "is_written x"
  shows "x \<in> set (trace s)"
  using assms
  by (auto simp: rewriteManifest_def io_defs readFileSync_def JSON_parse_io_def writeFileSync_def
      Let_def split: option.splits node.splits sum.splits)

lemma customizeManifest_failed:
  assumes "customizeManifest e d s = (Inl err, s')" and "x \<in> set (trace s')" and "is_written x"
  shows "x \<in> set (trace s)"
proof -
  from assms(1) have "rewriteManifest e ''package.json'' d (say Stdout [S customizing_msg] s) = (Inl err, s')"
    by (simp add: customizeManifest_def io_then_def io_bind_def console_log_def say_def)
  from rewriteManifest_failed [OF this assms(2,3)] show ?thesis by (simp add: say_def)
qed

lemma resolve_absolute: "absolute p \<Longrightarrow> resolve d p = p"
  by (simp add: resolve_def absolute_def)



lemma rewriteManifest_eq:
  assumes "fs s (resolve (cwd s) path) = Some (File text)"
    and "JSON_parse text = Some (JObj kvs)"
    and "map_of kvs ''figdata'' = Some fd"
    and "set_prop (Val fd) ''id'' (JStr d) = Inr fd'"
    and "write_fault e (resolve (cwd s) path) = None"
  shows "rewriteManifest e path d s =
     (Inr (),
      s\<lparr>fs := (fs s)(resolve (cwd s) path \<mapsto>
                 File (JSON_stringify
                   (JObj (AList.update ''figdata'' fd' (AList.update ''name'' (JStr d) kvs))) 2)),
        trace := trace s @
          [WriteFile (resolve (cwd s) path)
             (JSON_stringify
               (JObj (AList.update ''figdata'' fd' (AList.update ''name'' (JStr d) kvs))) 2)
             True]\<rparr>)"
  using assms
  by (simp add: rewriteManifest_def io_defs readFileSync_def JSON_parse_io_def writeFileSync_def
      Let_def update_conv')

lemma console_log_say: "console_log args s = (Inr (), say Stdout args s)"
  by (simp add: console_log_def say_def)

section \<open>Parsing what was serialised\<close>

subsection \<open>Numbers\<close>















subsection \<open>Strings\<close>






lemma quote_eq: "quote t @ r = dquote # concat (map quote_char t) @ dquote # r"
  by (simp add: quote_def)

subsection \<open>Values\<close>



lemma all_ws_simps [simp]:
  "all_ws []" "all_ws (newline # w) = all_ws w" "all_ws (CHR '' '' # w) = all_ws w"
  "all_ws (pad n)" "all_ws (u @ w) = (all_ws u \<and> all_ws w)"
  by (auto simp: all_ws_def is_ws_def pad_def list_all_iff)

lemma not_ws [simp]:
  "\<not> is_ws (CHR ''{'')" "\<not> is_ws (CHR ''['')" "\<not> is_ws (CHR ''}'')" "\<not> is_ws (CHR '']'')"
  "\<not> is_ws (CHR '','')" "\<not> is_ws (CHR '':'')" "\<not> is_ws dquote"
  "\<not> is_ws (CHR ''t'')" "\<not> is_ws (CHR ''f'')" "\<not> is_ws (CHR ''n'')" "\<not> is_ws (CHR ''-'')"
  by (simp_all add: is_ws_def)









lemma follows_simps [simp]:
  "follows (CHR '','' # r)" "follows (CHR '']'' # r)" "follows (CHR ''}'' # r)"
  "follows (newline # r)" "follows []"
  by (simp_all add: follows_def is_ws_def)
















subsection \<open>Parsed trees are well formed\<close>








section \<open>The concrete world, evaluated\<close>

lemma demo_start_simps [simp]:
  "cwd demo_start = ''/home/op''" "fs demo_start = demo_files"
  "console demo_start = []" "trace demo_start = []"
  by (simp_all add: demo_start_def start_def)

lemma demo_credentials_parse:
  "JSON_parse demo_credentials = Some (JObj [(''username'', JStr ''u''), (''token'', JStr ''t'')])"
  by code_simp

lemma demo_read:
  assumes "cwd s = ''/home/op''" and "fs s = demo_files"
  shows "io_catch getBitbucketCredentials credentials_catch s
         = (Inr (JObj [(''username'', JStr ''u''), (''token'', JStr ''t'')]), s)"
  by (simp add: getBitbucketCredentials_eq assms demo_files_def resolve_def demo_credentials_parse)

lemma demo_valid: "valid_credentials (JObj [(''username'', JStr ''u''), (''token'', JStr ''t'')])"
  by (simp add: valid_credentials_def)

lemma demo_auth: "auth_token (JObj [(''username'', JStr ''u''), (''token'', JStr ''t'')]) = ''dTp0''"
  by code_simp

lemma show_nat_400: "show_nat 400 = ''400''"
  by code_simp

lemma refused_create:
  assumes "cwd s = ''/home/op''" and "fs s = demo_files"
  shows "createBitbucketRepo refused_env ''demo'' s =
     (Inl (AxiosError ''Request failed with status code 400'' (Some (400, refused_body))),
      say Stderr [S creation_failed_msg, V (Val (JStr ''Repository already exists.''))]
        (sent (HttpRequest (create_request ''dTp0'' ''demo'') (Response 400 refused_body)) s))"
  by (simp add: createBitbucketRepo_def io_bind_def demo_read assms provision_valid demo_valid
      demo_auth refused_env_def demo_env_def Let_def show_nat_400 reported_message_def
      refused_body_def js_or_def)

lemma refused_run:
  "run refused_env demo_start =
     (Exited 1,
      say Stderr [S impossible_msg]
        (say Stderr [S creation_failed_msg, V (Val (JStr ''Repository already exists.''))]
          (sent (HttpRequest (create_request ''dTp0'' ''demo'') (Response 400 refused_body))
            (say Stdout [S creating_msg] demo_start))))"
proof -
  have "prompt_answer refused_env = ''demo''" by (simp add: refused_env_def demo_env_def)
  then show ?thesis
    by (simp add: run_eq refused_create say_def)
qed

lemma demo_create:
  assumes "cwd s = ''/home/op''" and "fs s = demo_files"
    and "axios_reply e = (\<lambda>r. Response 201 body)"
  shows "createBitbucketRepo e n s =
     (case response_href body of
        Inl err \<Rightarrow> (Inl err, say Stderr [S creation_failed_msg, V (reported_message err)]
                        (sent (HttpRequest (create_request ''dTp0'' n) (Response 201 body)) s))
      | Inr u \<Rightarrow> (Inr u, sent (HttpRequest (create_request ''dTp0'' n) (Response 201 body)) s))"
  by (simp add: createBitbucketRepo_def io_bind_def demo_read assms provision_valid demo_valid
      demo_auth Let_def)

lemma malformed_parse: "JSON_parse ''{'' = None"
  by code_simp

lemma demo_manifest_parse:
  "JSON_parse demo_manifest =
     Some (JObj [(''name'', JStr ''old''), (''version'', JStr ''1.0.0''),
                 (''figdata'', JObj [(''id'', JStr ''old''), (''kind'', JNum 3)])])"
  by code_simp

lemma demo_env_simps:
  "prompt_answer demo_env = ''demo''"
  "axios_reply demo_env = (\<lambda>r. Response 201 demo_body)"
  "shell demo_env = demo_shell"
  "rm_fault demo_env = (\<lambda>p. None)" "chdir_fault demo_env = (\<lambda>p. None)"
  "write_fault demo_env = (\<lambda>p. None)"
  by (simp_all add: demo_env_def)

lemma demo_href: "response_href demo_body = Inr demo_url"
  by (simp add: response_href_def demo_body_def demo_url_def)

lemma demo_init:
  assumes "cwd s = ''/home/op''" and "fs s = demo_files"
    and "shell e = demo_shell" and "rm_fault e = (\<lambda>p. None)"
    and "chdir_fault e ''/home/op/demo'' = None"
  shows "\<exists>sb. initWorkspace e ''demo'' demo_url s = (Inr ''/home/op'', sb)
     \<and> cwd sb = ''/home/op/demo''
     \<and> fs sb ''/home/op/demo/package.json'' = Some (File demo_manifest)
     \<and> fs sb ''/home/op/demo/.git/HEAD'' = None
     \<and> trace sb = trace s @
          [ExecSync (clone_command ''demo'') ''/home/op'' 0,
           RmSync ''/home/op/demo/.git'' True,
           Chdir ''/home/op/demo'' True,
           ExecSync ''git init'' ''/home/op/demo'' 0,
           ExecSync ''git remote add origin https://bitbucket.org/lefigaro/demo'' ''/home/op/demo'' 0]"
  by (simp add: initWorkspace_def io_defs execSync_def demo_shell_def rmSync_def
      process_cwd_def process_chdir_def resolve_def template_url_def demo_url_def
      clone_command_def Let_def assms)

lemma demo_rewrite:
  assumes "cwd s = ''/home/op/demo''"
    and "fs s ''/home/op/demo/package.json'' = Some (File demo_manifest)"
    and "write_fault e ''/home/op/demo/package.json'' = None"
  shows "rewriteManifest e ''package.json'' ''demo'' s =
     (Inr (), s\<lparr>fs := (fs s)(''/home/op/demo/package.json'' \<mapsto> File demo_written),
        trace := trace s @ [WriteFile ''/home/op/demo/package.json'' demo_written True]\<rparr>)"
proof -
  have sp: "set_prop (Val (JObj [(''id'', JStr ''old''), (''kind'', JNum 3)])) ''id'' (JStr ''demo'')
       = Inr (JObj [(''id'', JStr ''demo''), (''kind'', JNum 3)])" by simp
  show ?thesis
    using assms
    by (subst rewriteManifest_eq [OF _ demo_manifest_parse _ sp])
       (simp_all add: resolve_def demo_written_def)
qed

text \<open>
  The run up to the manifest, in a world like the concrete one; what is left is
  the change back to the initial directory.
\<close>

lemma demo_until_return:
  assumes "prompt_answer e = ''demo''" and "axios_reply e = (\<lambda>r. Response 201 demo_body)"
    and "shell e = demo_shell" and "rm_fault e = (\<lambda>p. None)"
    and "chdir_fault e ''/home/op/demo'' = None"
    and "write_fault e ''/home/op/demo/package.json'' = None"
  shows "\<exists>s4. run e demo_start =
        (case process_chdir e ''/home/op'' s4 of
           (Inl err, s5) \<Rightarrow> (Uncaught err, s5)
         | (Inr u, s5) \<Rightarrow> (Completed, say Stdout [S done_msg] s5))
     \<and> cwd s4 = ''/home/op/demo''
     \<and> trace s4 =
          [HttpRequest (create_request ''dTp0'' ''demo'') (Response 201 demo_body),
           ExecSync (clone_command ''demo'') ''/home/op'' 0,
           RmSync ''/home/op/demo/.git'' True,
           Chdir ''/home/op/demo'' True,
           ExecSync ''git init'' ''/home/op/demo'' 0,
           ExecSync ''git remote add origin https://bitbucket.org/lefigaro/demo'' ''/home/op/demo'' 0,
           WriteFile ''/home/op/demo/package.json'' demo_written True]
     \<and> fs s4 ''/home/op/demo/package.json'' = Some (File demo_written)
     \<and> fs s4 ''/home/op/demo/.git/HEAD'' = None"
proof -
  define s0 where "s0 = say Stdout [S creating_msg] demo_start"
  define s1 where "s1 = sent (HttpRequest (create_request ''dTp0'' ''demo'') (Response 201 demo_body)) s0"
  define s2 where "s2 = say Stdout [S created_msg, V demo_url] s1"
  have p2: "cwd s2 = ''/home/op''" "fs s2 = demo_files"
    "trace s2 = [HttpRequest (create_request ''dTp0'' ''demo'') (Response 201 demo_body)]"
    by (simp_all add: s2_def s1_def s0_def say_def sent_def)
  have cr: "createBitbucketRepo e ''demo'' s0 = (Inr demo_url, s1)"
    by (simp add: demo_create [OF _ _ assms(2)] demo_href s0_def s1_def say_def)
  from demo_init [OF p2(1,2) assms(3,4,5)] obtain sb where
    iw: "initWorkspace e ''demo'' demo_url s2 = (Inr ''/home/op'', sb)"
    and sb: "cwd sb = ''/home/op/demo''"
       "fs sb ''/home/op/demo/package.json'' = Some (File demo_manifest)"
       "fs sb ''/home/op/demo/.git/HEAD'' = None"
       "trace sb = trace s2 @
          [ExecSync (clone_command ''demo'') ''/home/op'' 0,
           RmSync ''/home/op/demo/.git'' True,
           Chdir ''/home/op/demo'' True,
           ExecSync ''git init'' ''/home/op/demo'' 0,
           ExecSync ''git remote add origin https://bitbucket.org/lefigaro/demo'' ''/home/op/demo'' 0]"
    by blast
  define s3 where "s3 = say Stdout [S customizing_msg] sb"
  define s4 where "s4 = s3\<lparr>fs := (fs s3)(''/home/op/demo/package.json'' \<mapsto> File demo_written),
        trace := trace s3 @ [WriteFile ''/home/op/demo/package.json'' demo_written True]\<rparr>"
  have p3: "cwd s3 = ''/home/op/demo''" "fs s3 ''/home/op/demo/package.json'' = Some (File demo_manifest)"
    by (simp_all add: s3_def say_def sb)
  have rw: "rewriteManifest e ''package.json'' ''demo'' s3 = (Inr (), s4)"
    unfolding s4_def by (rule demo_rewrite [OF p3 assms(6)])
  have ac: "after_creation e ''demo'' demo_url s1 =
      (case process_chdir e ''/home/op'' s4 of
         (Inl err, s5) \<Rightarrow> (Inl err, s5)
       | (Inr u, s5) \<Rightarrow> (Inr (), say Stdout [S done_msg] s5))"
    by (simp add: after_creation_def customizeManifest_def io_then_def io_bind_def
        console_log_say iw [unfolded s2_def] rw [unfolded s3_def] split: prod.splits sum.splits)
  have run: "run e demo_start =
        (case process_chdir e ''/home/op'' s4 of
           (Inl err, s5) \<Rightarrow> (Uncaught err, s5)
         | (Inr u, s5) \<Rightarrow> (Completed, say Stdout [S done_msg] s5))"
    by (simp add: run_eq assms(1) cr [unfolded s0_def] ac split: prod.splits sum.splits)
  have "cwd s4 = ''/home/op/demo''" by (simp add: s4_def p3)
  moreover have "trace s4 =
          [HttpRequest (create_request ''dTp0'' ''demo'') (Response 201 demo_body),
           ExecSync (clone_command ''demo'') ''/home/op'' 0,
           RmSync ''/home/op/demo/.git'' True,
           Chdir ''/home/op/demo'' True,
           ExecSync ''git init'' ''/home/op/demo'' 0,
           ExecSync ''git remote add origin https://bitbucket.org/lefigaro/demo'' ''/home/op/demo'' 0,
           WriteFile ''/home/op/demo/package.json'' demo_written True]"
    by (simp add: s4_def s3_def say_def sb p2)
  moreover have "fs s4 ''/home/op/demo/package.json'' = Some (File demo_written)"
    by (simp add: s4_def)
  moreover have "fs s4 ''/home/op/demo/.git/HEAD'' = None"
    by (simp add: s4_def s3_def say_def sb)
  ultimately show ?thesis using run by blast
qed

lemma demo_run:
  "\<exists>s. run demo_env demo_start = (Completed, s) \<and> cwd s = ''/home/op'' \<and> trace s = demo_trace
     \<and> fs s ''/home/op/demo/package.json'' = Some (File demo_written)
     \<and> fs s ''/home/op/demo/.git/HEAD'' = None"
proof -
  from demo_until_return [of demo_env] obtain s4 where
    run: "run demo_env demo_start =
        (case process_chdir demo_env ''/home/op'' s4 of
           (Inl err, s5) \<Rightarrow> (Uncaught err, s5)
         | (Inr u, s5) \<Rightarrow> (Completed, say Stdout [S done_msg] s5))"
    and s4: "cwd s4 = ''/home/op/demo''"
      "trace s4 =
          [HttpRequest (create_request ''dTp0'' ''demo'') (Response 201 demo_body),
           ExecSync (clone_command ''demo'') ''/home/op'' 0,
           RmSync ''/home/op/demo/.git'' True,
           Chdir ''/home/op/demo'' True,
           ExecSync ''git init'' ''/home/op/demo'' 0,
           ExecSync ''git remote add origin https://bitbucket.org/lefigaro/demo'' ''/home/op/demo'' 0,
           WriteFile ''/home/op/demo/package.json'' demo_written True]"
      "fs s4 ''/home/op/demo/package.json'' = Some (File demo_written)"
      "fs s4 ''/home/op/demo/.git/HEAD'' = None"
    by (auto simp: demo_env_simps)
  define s5 where "s5 = s4\<lparr>cwd := ''/home/op'', trace := trace s4 @ [Chdir ''/home/op'' True]\<rparr>"
  have ch: "process_chdir demo_env ''/home/op'' s4 = (Inr (), s5)"
    by (simp add: process_chdir_def demo_env_simps resolve_def s5_def Let_def)
  have r: "run demo_env demo_start = (Completed, say Stdout [S done_msg] s5)"
    by (simp add: run ch)
  have "cwd (say Stdout [S done_msg] s5) = ''/home/op''" by (simp add: say_def s5_def)
  moreover have "trace (say Stdout [S done_msg] s5) = demo_trace"
    by (simp add: say_def s5_def s4 demo_trace_def)
  moreover have "fs (say Stdout [S done_msg] s5) ''/home/op/demo/package.json'' = Some (File demo_written)"
    by (simp add: say_def s5_def s4)
  moreover have "fs (say Stdout [S done_msg] s5) ''/home/op/demo/.git/HEAD'' = None"
    by (simp add: say_def s5_def s4)
  ultimately show ?thesis using r by blast
qed

lemma stranded_run:
  "\<exists>s err. run stranded_env demo_start = (Uncaught err, s) \<and> cwd s = ''/home/op/demo''
     \<and> chdir_fault stranded_env ''/home/op'' = Some err
     \<and> trace s =
          [HttpRequest (create_request ''dTp0'' ''demo'') (Response 201 demo_body),
           ExecSync (clone_command ''demo'') ''/home/op'' 0,
           RmSync ''/home/op/demo/.git'' True,
           Chdir ''/home/op/demo'' True,
           ExecSync ''git init'' ''/home/op/demo'' 0,
           ExecSync ''git remote add origin https://bitbucket.org/lefigaro/demo'' ''/home/op/demo'' 0,
           WriteFile ''/home/op/demo/package.json'' demo_written True,
           Chdir ''/home/op'' False]"
proof -
  from demo_until_return [of stranded_env] obtain s4 where
    run: "run stranded_env demo_start =
        (case process_chdir stranded_env ''/home/op'' s4 of
           (Inl err, s5) \<Rightarrow> (Uncaught err, s5)
         | (Inr u, s5) \<Rightarrow> (Completed, say Stdout [S done_msg] s5))"
    and s4: "cwd s4 = ''/home/op/demo''"
      "trace s4 =
          [HttpRequest (create_request ''dTp0'' ''demo'') (Response 201 demo_body),
           ExecSync (clone_command ''demo'') ''/home/op'' 0,
           RmSync ''/home/op/demo/.git'' True,
           Chdir ''/home/op/demo'' True,
           ExecSync ''git init'' ''/home/op/demo'' 0,
           ExecSync ''git remote add origin https://bitbucket.org/lefigaro/demo'' ''/home/op/demo'' 0,
           WriteFile ''/home/op/demo/package.json'' demo_written True]"
    by (auto simp: stranded_env_def demo_env_def)
  obtain err where f: "chdir_fault stranded_env ''/home/op'' = Some err"
    by (simp add: stranded_env_def)
  define s5 where "s5 = s4\<lparr>trace := trace s4 @ [Chdir ''/home/op'' False]\<rparr>"
  have ch: "process_chdir stranded_env ''/home/op'' s4 = (Inl err, s5)"
    by (simp add: process_chdir_def f resolve_def s5_def Let_def)
  have r: "run stranded_env demo_start = (Uncaught err, s5)" by (simp add: run ch)
  show ?thesis using r f s4 by (intro exI [of _ s5] exI [of _ err]) (simp add: s5_def)
qed


section \<open>The two variants in front of a POSIX shell\<close>

subsection \<open>Words of the commands\<close>

lemma split_on_plain: "list_all plain_char w \<Longrightarrow> split_on (CHR '' '') w = [w]"
  by (induction w) (auto simp: plain_char_def)

lemma plain_not_and: "list_all plain_char w \<Longrightarrow> w \<noteq> ''&&''"
  by (auto simp: plain_char_def)

lemma commands_words: "commands (map Word ws) = [ws]"
  by (induction ws) simp_all

lemma sh_clone:
  assumes "plain_word d"
  shows "sh_tokens (clone_command d) = Some (map Word (clone_argv d))"
proof -
  have p: "list_all plain_char d" and n: "d \<noteq> []" using assms by (simp_all add: plain_word_def)
  have t: "list_all plain_char template_url" by (simp add: template_url_def plain_char_def)
  have s: "filter (\<lambda>w. w \<noteq> []) (split_on (CHR '' '') (clone_command d))
        = [''git'', ''clone'', ''--depth'', ''1'', template_url, d]"
    using n by (simp add: clone_command_def template_url_def split_on_plain [OF p])
  show ?thesis
    unfolding sh_tokens_def s
    using p t plain_not_and [OF p] plain_not_and [OF t]
    by (simp add: clone_argv_def plain_char_def)
qed

lemma sh_init: "sh_tokens ''git init'' = Some (map Word [''git'', ''init''])"
  by (simp add: sh_tokens_def plain_char_def)

lemma sh_remote:
  assumes "plain_word h"
  shows "sh_tokens (''git remote add origin '' @ h) = Some (map Word (remote_argv h))"
proof -
  have p: "list_all plain_char h" and n: "h \<noteq> []" using assms by (simp_all add: plain_word_def)
  have s: "filter (\<lambda>w. w \<noteq> []) (split_on (CHR '' '') (''git remote add origin '' @ h))
        = [''git'', ''remote'', ''add'', ''origin'', h]"
    using n by (simp add: split_on_plain [OF p])
  show ?thesis
    unfolding sh_tokens_def s
    using p plain_not_and [OF p]
    by (simp add: remote_argv_def plain_char_def)
qed

lemma zx_clone:
  assumes "d \<noteq> []"
  shows "zx_tokens (clone_parts d) = Some (map Word (clone_argv d))"
proof -
  have t: "list_all plain_char template_url" by (simp add: template_url_def plain_char_def)
  have s: "filter (\<lambda>w. w \<noteq> []) (split_on (CHR '' '') (''git clone --depth 1 '' @ template_url @ '' ''))
        = [''git'', ''clone'', ''--depth'', ''1'', template_url]"
    by (simp add: template_url_def)
  have 1: "sh_tokens (''git clone --depth 1 '' @ template_url @ '' '')
        = Some (map Word [''git'', ''clone'', ''--depth'', ''1'', template_url])"
    unfolding sh_tokens_def s
    using t plain_not_and [OF t] by (simp add: plain_char_def)
  have 2: "sh_tokens '' '' = Some []" by (simp add: sh_tokens_def)
  have 3: "last (''git clone --depth 1 '' @ template_url @ '' '') = CHR '' ''" by simp
  have "zx_tokens (clone_parts d)
      = (case sh_tokens (''git clone --depth 1 '' @ template_url @ '' '') of
           None \<Rightarrow> None
         | Some ts \<Rightarrow> (case sh_tokens '' '' of None \<Rightarrow> None | Some r \<Rightarrow> Some (ts @ Word d # r)))"
    unfolding clone_parts_def using assms
    by (simp del: append.simps append_Cons add: 3 split: option.splits)
  then show ?thesis unfolding 1 2 by (simp add: clone_argv_def)
qed

lemma zx_setup:
  assumes "d \<noteq> []" and "h \<noteq> []"
  shows "zx_tokens (setup_parts d (Val (JStr h))) =
     Some ([Word ''cd'', Word d, AndIf, Word ''rm'', Word ''-rf'', Word ''.git'', AndIf,
            Word ''git'', Word ''init'', AndIf] @ map Word (remote_argv h))"
proof -
  have 1: "sh_tokens ''cd '' = Some [Word ''cd'']" by (simp add: sh_tokens_def plain_char_def)
  have 2: "sh_tokens '' && rm -rf .git && git init && git remote add origin '' =
      Some [AndIf, Word ''rm'', Word ''-rf'', Word ''.git'', AndIf, Word ''git'', Word ''init'',
            AndIf, Word ''git'', Word ''remote'', Word ''add'', Word ''origin'']"
    by (simp add: sh_tokens_def plain_char_def)
  show ?thesis using assms by (simp add: setup_parts_def 1 2 remote_argv_def)
qed

lemma commands_setup:
  "commands ([Word ''cd'', Word d, AndIf, Word ''rm'', Word ''-rf'', Word ''.git'', AndIf,
              Word ''git'', Word ''init'', AndIf] @ map Word (remote_argv h))
   = [[''cd'', d], [''rm'', ''-rf'', ''.git''], [''git'', ''init''], remote_argv h]"
  by (simp add: remote_argv_def)

subsection \<open>The workspace step of each variant\<close>

declare run_list.simps [simp del]

lemma resolve_join:
  assumes "a \<noteq> []" and "p \<noteq> []" and "hd p \<noteq> CHR ''/''"
  shows "resolve (resolve d a) p = resolve d (a @ ''/'' @ p)"
  using assms by (cases a) (auto simp: resolve_def)

lemma run_list_git:
  assumes "hd argv = ''git''" and "argv \<noteq> []"
  shows "run_list e prog [argv] dir files = Some (prog argv dir files)"
proof -
  have "\<not> (length argv = 3 \<and> take 2 argv = [''rm'', ''-rf''])"
    using assms by (cases argv) auto
  with assms show ?thesis by (auto simp: run_list.simps split: prod.splits)
qed

lemma shell_posix:
  assumes "posix e prog" and "sh_tokens cmd = Some (map Word argv)"
    and "hd argv = ''git''" and "argv \<noteq> []"
  shows "shell e cmd dir files = prog argv dir files"
proof -
  have "posix_sh e prog cmd dir files = Some (prog argv dir files)"
    by (simp add: posix_sh_def assms(2) commands_words run_list_git [OF assms(3,4)])
  with assms(1) show ?thesis unfolding posix_def by blast
qed

lemma execSync_posix:
  assumes "posix e prog" and "sh_tokens cmd = Some (map Word argv)"
    and "hd argv = ''git''" and "argv \<noteq> []"
  shows "execSync e cmd s =
     (case prog argv (cwd s) (fs s) of
        (st, files) \<Rightarrow>
          (if st = 0 then Inr () else Inl (ChildProcessError cmd st),
           s\<lparr>fs := files, trace := trace s @ [ExecSync cmd (cwd s) st]\<rparr>))"
  by (simp add: execSync_def shell_posix [OF assms])

lemma rmSync_eq:
  "rmSync e path s =
     (case rm_fault e (resolve (cwd s) path) of
        Some err \<Rightarrow> (Inl err, s\<lparr>trace := trace s @ [RmSync (resolve (cwd s) path) False]\<rparr>)
      | None \<Rightarrow>
          (Inr (), s\<lparr>fs := remove_tree (resolve (cwd s) path) (fs s),
                      trace := trace s @ [RmSync (resolve (cwd s) path) True]\<rparr>))"
  by (simp add: rmSync_def remove_tree_def Let_def split: option.splits)

lemma initWorkspace_folded:
  "initWorkspace e a u =
     io_then (console_log [S cloning_msg])
    (io_then (execSync e (clone_command a))
    (io_then (rmSync e (a @ ''/.git''))
    (io_bind process_cwd (\<lambda>initialDir.
     io_then (process_chdir e a)
    (io_then (execSync e ''git init'')
    (io_then (execSync e (remote_command u))
             (io_return initialDir)))))))"
  by (simp only: initWorkspace_def clone_command_def remote_command_def)

lemma git_words:
  "hd (clone_argv a) = ''git''" "clone_argv a \<noteq> []"
  "hd (remote_argv h) = ''git''" "remote_argv h \<noteq> []"
  by (simp_all add: clone_argv_def remote_argv_def)

lemma initWorkspace_refines:
  assumes "posix e prog" and "plain_word a" and "plain_word h"
    and "chdir_fault e (resolve (cwd s) a) = None"
  shows "fs (snd (initWorkspace e a (Val (JStr h)) s))
           = snd (workspace_result e prog a h (cwd s) (fs s))
       \<and> isl (fst (initWorkspace e a (Val (JStr h)) s))
           = (\<not> fst (workspace_result e prog a h (cwd s) (fs s)))
       \<and> (\<forall>i. fst (initWorkspace e a (Val (JStr h)) s) = Inr i \<longrightarrow>
            i = cwd s \<and> cwd (snd (initWorkspace e a (Val (JStr h)) s)) = resolve (cwd s) a)"
proof -
  note ex1 = execSync_posix [OF assms(1) sh_clone [OF assms(2)] git_words(1,2)]
  have i: "hd [''git'', ''init''] = ''git''" "[''git'', ''init''] \<noteq> []" by simp_all
  note ex2 = execSync_posix [OF assms(1) sh_init i]
  have r: "remote_command (Val (JStr h)) = ''git remote add origin '' @ h"
    by (simp add: remote_command_def)
  note ex3 = execSync_posix [OF assms(1) sh_remote [OF assms(3)] git_words(3,4), folded r]
  show ?thesis
    using assms(4)
    by (auto simp: initWorkspace_folded workspace_result_def io_defs ex1 ex2 ex3
        rmSync_eq Let_def process_cwd_def process_chdir_def
        split: prod.splits option.splits)
qed

lemma initWorkspace_zx_folded:
  "initWorkspace_zx e a u =
     io_then (console_log [S cloning_msg])
    (io_then (zx e (clone_parts a)) (zx e (setup_parts a u)))"
  by (simp only: initWorkspace_zx_def clone_parts_def setup_parts_def)

lemma zx_posix:
  assumes "posix e prog" and "zx_tokens parts = Some ts"
    and "run_list e prog (commands ts) (cwd s) (fs s) = Some r"
  shows "zx e parts s =
     (case r of
        (st, files) \<Rightarrow>
          (if st = 0 then Inr () else Inl (ChildProcessError (zx_text parts) st),
           s\<lparr>fs := files, trace := trace s @ [ZxRun parts (cwd s) st]\<rparr>))"
proof -
  have "posix_zx e prog parts (cwd s) (fs s) = Some r"
    by (simp add: posix_zx_def assms(2,3))
  with assms(1) have "zx_shell e parts (cwd s) (fs s) = r" unfolding posix_def by blast
  then show ?thesis by (simp add: zx_def)
qed

lemma rm_operand_git: "rm_operand ''.git''"
  by (simp add: rm_operand_def)

lemma run_list_setup:
  assumes "a \<noteq> []" and "cd_operand a" and "chdir_fault e (resolve d a) = None"
  shows "run_list e prog
           [[''cd'', a], [''rm'', ''-rf'', ''.git''], [''git'', ''init''], remote_argv h] d f1
         = Some (case rm_fault e (resolve d (a @ ''/.git'')) of
              Some err \<Rightarrow> (1, f1)
            | None \<Rightarrow>
                (case prog [''git'', ''init''] (resolve d a)
                        (remove_tree (resolve d (a @ ''/.git'')) f1) of
                   (st3, f3) \<Rightarrow>
                     if st3 \<noteq> 0 then (st3, f3)
                     else prog (remote_argv h) (resolve d a) f3))"
proof -
  have r: "resolve (resolve d a) ''.git'' = resolve d (a @ ''/.git'')"
    using resolve_join [OF assms(1), of "''.git''" d] by simp
  show ?thesis
    using assms(2,3) rm_operand_git
    by (auto simp: run_list.simps r remote_argv_def split: option.splits prod.splits)
qed

lemma initWorkspace_zx_refines:
  assumes "posix e prog" and "a \<noteq> []" and "cd_operand a"
    and "chdir_fault e (resolve (cwd s) a) = None" and "h \<noteq> []"
  shows "fs (snd (initWorkspace_zx e a (Val (JStr h)) s))
           = snd (workspace_result e prog a h (cwd s) (fs s))
       \<and> isl (fst (initWorkspace_zx e a (Val (JStr h)) s))
           = (\<not> fst (workspace_result e prog a h (cwd s) (fs s)))
       \<and> cwd (snd (initWorkspace_zx e a (Val (JStr h)) s)) = cwd s"
proof -
  let ?s1 = "say Stdout [S cloning_msg] s"
  have c1: "cwd ?s1 = cwd s" "fs ?s1 = fs s" by (simp_all add: say_def)
  have l1: "run_list e prog (commands (map Word (clone_argv a))) (cwd ?s1) (fs ?s1)
      = Some (prog (clone_argv a) (cwd s) (fs s))"
    by (simp add: commands_words run_list_git [OF git_words(1,2)] c1)
  note z1 = zx_posix [OF assms(1) zx_clone [OF assms(2)] l1]
  obtain st1 f1 where p1: "prog (clone_argv a) (cwd s) (fs s) = (st1, f1)"
    by (cases "prog (clone_argv a) (cwd s) (fs s)")
  let ?s2 = "?s1\<lparr>fs := f1, trace := trace ?s1 @ [ZxRun (clone_parts a) (cwd ?s1) st1]\<rparr>"
  have c2: "cwd ?s2 = cwd s" "fs ?s2 = f1" by (simp_all add: say_def)
  define R where "R = (case rm_fault e (resolve (cwd s) (a @ ''/.git'')) of
              Some err \<Rightarrow> (1, f1)
            | None \<Rightarrow>
                (case prog [''git'', ''init''] (resolve (cwd s) a)
                        (remove_tree (resolve (cwd s) (a @ ''/.git'')) f1) of
                   (st3, f3) \<Rightarrow>
                     if st3 \<noteq> 0 then (st3, f3)
                     else prog (remote_argv h) (resolve (cwd s) a) f3))"
  have l2: "run_list e prog
      (commands ([Word ''cd'', Word a, AndIf, Word ''rm'', Word ''-rf'', Word ''.git'', AndIf,
              Word ''git'', Word ''init'', AndIf] @ map Word (remote_argv h))) (cwd ?s2) (fs ?s2)
      = Some R"
    unfolding commands_setup c2 R_def by (rule run_list_setup [OF assms(2,3,4)])
  note z2 = zx_posix [OF assms(1) zx_setup [OF assms(2,5)] l2]
  obtain st f where R: "R = (st, f)" by (cases R)
  have wr: "workspace_result e prog a h (cwd s) (fs s)
      = (if st1 \<noteq> 0 then (False, f1) else (st = 0, f))"
    using R by (auto simp: workspace_result_def p1 R_def split: option.splits prod.splits)
  have zc: "zx e (clone_parts a) ?s1
      = (if st1 = 0 then Inr () else Inl (ChildProcessError (zx_text (clone_parts a)) st1), ?s2)"
    using z1 by (simp add: p1)
  have zs: "zx e (setup_parts a (Val (JStr h))) ?s2
      = (if st = 0 then Inr ()
         else Inl (ChildProcessError (zx_text (setup_parts a (Val (JStr h)))) st),
         ?s2\<lparr>fs := f, trace := trace ?s2 @ [ZxRun (setup_parts a (Val (JStr h))) (cwd ?s2) st]\<rparr>)"
    using z2 by (simp add: R)
  have i: "initWorkspace_zx e a (Val (JStr h)) s =
      (case zx e (clone_parts a) ?s1 of
         (Inl err, t) \<Rightarrow> (Inl err, t)
       | (Inr x, t) \<Rightarrow> zx e (setup_parts a (Val (JStr h))) t)"
    by (simp add: initWorkspace_zx_folded io_then_def io_bind_def console_log_say
        split: prod.splits sum.splits)
  show ?thesis
  proof (cases "st1 = 0")
    case True
    have "initWorkspace_zx e a (Val (JStr h)) s = zx e (setup_parts a (Val (JStr h))) ?s2"
      unfolding i zc using True by simp
    with zs have ii: "initWorkspace_zx e a (Val (JStr h)) s
      = (if st = 0 then Inr ()
         else Inl (ChildProcessError (zx_text (setup_parts a (Val (JStr h)))) st),
         ?s2\<lparr>fs := f, trace := trace ?s2 @ [ZxRun (setup_parts a (Val (JStr h))) (cwd ?s2) st]\<rparr>)"
      by (simp only:)
    show ?thesis unfolding ii wr using True by (simp add: say_def)
  next
    case False
    have ii: "initWorkspace_zx e a (Val (JStr h)) s
        = (Inl (ChildProcessError (zx_text (clone_parts a)) st1), ?s2)"
      unfolding i zc using False by simp
    show ?thesis unfolding ii wr using False by (simp add: say_def)
  qed
qed

lemma rewriteManifest_refines:
  "fs (snd (rewriteManifest e path a s))
     = snd (manifest_result e a (resolve (cwd s) path) (fs s))
   \<and> isl (fst (rewriteManifest e path a s))
     = (\<not> fst (manifest_result e a (resolve (cwd s) path) (fs s)))
   \<and> cwd (snd (rewriteManifest e path a s)) = cwd s"
  by (auto simp: rewriteManifest_def manifest_result_def customised_def io_defs
      readFileSync_def JSON_parse_io_def writeFileSync_def Let_def
      split: option.splits node.splits sum.splits)

subsection \<open>The creation step of each variant\<close>

lemma provision_invalid_eq:
  assumes "\<not> valid_credentials c"
  shows "provision e n c s =
     (Inl (if c = JNull then TypeError ''Cannot read properties of null (reading 'token')''
           else Error invalid_format_msg), s)"
  using assms unfolding provision_def
  by (auto simp: io_defs check_credentials_eq)

lemma provision_same:
  assumes "same_world s t"
  shows "fst (provision e n c s) = fst (provision e n c t)
       \<and> same_world (snd (provision e n c s)) (snd (provision e n c t))"
proof (cases "valid_credentials c")
  case True
  show ?thesis
    using assms
    by (auto simp: provision_valid [OF True] Let_def sent_def say_def same_world_def
        split: http_result.splits sum.splits)
next
  case False
  show ?thesis using assms by (simp add: provision_invalid_eq [OF False])
qed

lemma create_agree:
  "fst (createBitbucketRepo e n s) = fst (createBitbucketRepo_zx e n s)
   \<and> same_world (snd (createBitbucketRepo e n s)) (snd (createBitbucketRepo_zx e n s))"
proof -
  let ?a = "io_catch getBitbucketCredentials credentials_catch s"
  let ?b = "io_catch (io_bind (readFileSync ''./bitbucket-credentials.json'') JSON_parse_io) credentials_catch s"
  have r: "fst ?a = fst ?b" and w: "same_world (snd ?a) (snd ?b)"
    unfolding getBitbucketCredentials_eq read_credentials_eq
    by (auto simp: say_def same_world_def split: option.splits node.splits)
  show ?thesis
  proof (cases "fst ?a")
    case (Inl err)
    with r w show ?thesis
      by (cases ?a; cases ?b) (auto simp: createBitbucketRepo_def createBitbucketRepo_zx_def io_bind_def)
  next
    case (Inr c)
    with r w provision_same [OF w, of e n c] show ?thesis
      by (cases ?a; cases ?b) (auto simp: createBitbucketRepo_def createBitbucketRepo_zx_def io_bind_def)
  qed
qed

lemma createBitbucketRepo_reply:
  assumes "createBitbucketRepo e n s = (Inr u, s')"
  shows "\<exists>req st body. axios_reply e req = Response st body \<and> response_href body = Inr u"
    and "cwd s' = cwd s"
proof -
  from assms obtain cr s0 where
    c: "io_catch getBitbucketCredentials credentials_catch s = (Inr cr, s0)"
    and p: "provision e n cr s0 = (Inr u, s')"
    by (auto simp: createBitbucketRepo_def io_bind_Inr)
  have w: "cwd s0 = cwd s"
    using c unfolding getBitbucketCredentials_eq
    by (auto simp: say_def split: option.splits node.splits)
  have v: "valid_credentials cr"
    using provision_invalid [of cr e n s0] p by auto
  from p show "\<exists>req st body. axios_reply e req = Response st body \<and> response_href body = Inr u"
    unfolding provision_valid [OF v]
    by (auto simp: Let_def split: http_result.splits sum.splits if_splits)
  from p w show "cwd s' = cwd s"
    unfolding provision_valid [OF v]
    by (auto simp: Let_def sent_def say_def split: http_result.splits sum.splits if_splits)
qed

subsection \<open>After the creation\<close>

lemma after_creation_local:
  assumes "posix e prog" and "plain_word a" and "plain_word h"
    and "chdir_fault e (resolve (cwd s) a) = None"
    and "absolute (cwd s)" and "chdir_fault e (cwd s) = None"
  shows "fs (snd (after_creation e a (Val (JStr h)) s)) = snd (local_result e prog a h (cwd s) (fs s))
       \<and> isl (fst (after_creation e a (Val (JStr h)) s))
           = (\<not> fst (local_result e prog a h (cwd s) (fs s)))"
proof -
  let ?u = "Val (JStr h)"
  let ?s1 = "say Stdout [S created_msg, V ?u] s"
  have c: "cwd ?s1 = cwd s" "fs ?s1 = fs s" by (simp_all add: say_def)
  have ch: "chdir_fault e (resolve (cwd ?s1) a) = None" using assms(4) c by simp
  note iw = initWorkspace_refines [OF assms(1-3) ch, unfolded c]
  obtain r sb where i: "initWorkspace e a ?u ?s1 = (r, sb)" by (cases "initWorkspace e a ?u ?s1")
  obtain ok f4 where wr: "workspace_result e prog a h (cwd s) (fs s) = (ok, f4)"
    by (cases "workspace_result e prog a h (cwd s) (fs s)")
  have a: "a \<noteq> []" using assms(2) by (simp add: plain_word_def)
  have p: "resolve (resolve (cwd s) a) ''package.json'' = resolve (cwd s) (a @ ''/package.json'')"
    using resolve_join [OF a, of "''package.json''" "cwd s"] by simp
  show ?thesis
  proof (cases r)
    case (Inl err)
    with iw i wr show ?thesis
      by (simp add: after_creation_def io_then_def io_bind_def console_log_say local_result_def)
  next
    case (Inr ini)
    with iw i wr have ok: "ok" and f: "fs sb = f4" and cw: "cwd sb = resolve (cwd s) a"
      and ini: "ini = cwd s" by simp_all
    let ?s3 = "say Stdout [S customizing_msg] sb"
    obtain rm sm where m: "rewriteManifest e ''package.json'' a ?s3 = (rm, sm)"
      by (cases "rewriteManifest e ''package.json'' a ?s3")
    from rewriteManifest_refines [of e "''package.json''" a ?s3] m
    have mf: "fs sm = snd (manifest_result e a (resolve (cwd s) (a @ ''/package.json'')) f4)"
      and mi: "isl rm = (\<not> fst (manifest_result e a (resolve (cwd s) (a @ ''/package.json'')) f4))"
      and mc: "cwd sm = resolve (cwd s) a"
      by (simp_all add: say_def cw p f)
    have bk: "resolve (cwd sm) (cwd s) = cwd s" using assms(5) by (rule resolve_absolute)
    show ?thesis
    proof (cases rm)
      case (Inl err)
      with i Inr m mf mi wr ok show ?thesis
        by (simp add: after_creation_def customizeManifest_def io_then_def io_bind_def
            console_log_say local_result_def)
    next
      case r: (Inr x)
      with i Inr m mf mi wr ok ini assms(6) bk show ?thesis
        by (simp add: after_creation_def customizeManifest_def io_then_def io_bind_def
            console_log_say local_result_def process_chdir_def Let_def say_def)
    qed
  qed
qed

lemma after_creation_zx_local:
  assumes "posix e prog" and "a \<noteq> []" and "cd_operand a"
    and "chdir_fault e (resolve (cwd s) a) = None" and "h \<noteq> []"
  shows "fs (snd (after_creation_zx e a (Val (JStr h)) s))
           = snd (local_result e prog a h (cwd s) (fs s))
       \<and> isl (fst (after_creation_zx e a (Val (JStr h)) s))
           = (\<not> fst (local_result e prog a h (cwd s) (fs s)))"
proof -
  let ?u = "Val (JStr h)"
  let ?s1 = "say Stdout [S created_msg, V ?u] s"
  have c: "cwd ?s1 = cwd s" "fs ?s1 = fs s" by (simp_all add: say_def)
  have ch: "chdir_fault e (resolve (cwd ?s1) a) = None" using assms(4) c by simp
  note iw = initWorkspace_zx_refines [OF assms(1-3) ch assms(5), unfolded c]
  obtain r sb where i: "initWorkspace_zx e a ?u ?s1 = (r, sb)"
    by (cases "initWorkspace_zx e a ?u ?s1")
  obtain ok f4 where wr: "workspace_result e prog a h (cwd s) (fs s) = (ok, f4)"
    by (cases "workspace_result e prog a h (cwd s) (fs s)")
  show ?thesis
  proof (cases r)
    case (Inl err)
    with iw i wr show ?thesis
      by (simp add: after_creation_zx_def io_then_def io_bind_def console_log_say local_result_def)
  next
    case (Inr x)
    with iw i wr have ok: "ok" and f: "fs sb = f4" and cw: "cwd sb = cwd s" by simp_all
    let ?s3 = "say Stdout [S customizing_msg] sb"
    obtain rm sm where m: "rewriteManifest e (a @ ''/package.json'') a ?s3 = (rm, sm)"
      by (cases "rewriteManifest e (a @ ''/package.json'') a ?s3")
    from rewriteManifest_refines [of e "a @ ''/package.json''" a ?s3] m
    have mf: "fs sm = snd (manifest_result e a (resolve (cwd s) (a @ ''/package.json'')) f4)"
      and mi: "isl rm = (\<not> fst (manifest_result e a (resolve (cwd s) (a @ ''/package.json'')) f4))"
      by (simp_all add: say_def cw f)
    from i Inr m mf mi wr ok show ?thesis
      by (cases rm)
         (simp_all add: after_creation_zx_def customizeManifest_zx_def io_then_def io_bind_def
            console_log_say local_result_def say_def)
  qed
qed

lemma adds_requests:
  assumes "adds P m" and "\<And>x. P x \<Longrightarrow> \<not> is_request x"
  shows "filter is_request (trace (snd (m s))) = filter is_request (trace s)"
proof -
  from assms(1) obtain t where t: "trace (snd (m s)) = trace s @ t" "list_all P t"
    unfolding adds_def by blast
  then have "filter is_request t = []" using assms(2) by (auto simp: list_all_iff filter_empty_conv)
  with t show ?thesis by simp
qed

lemma after_creation_requests:
  "filter is_request (trace (snd (after_creation e a u s))) = filter is_request (trace s)"
  "filter is_request (trace (snd (after_creation_zx e a u s))) = filter is_request (trace s)"
  by (rule adds_requests [OF adds_after_creation], auto simp: local_step_def split: effect.splits)
     (rule adds_requests [OF adds_after_creation_zx], auto)

lemma snd_outcome:
  "snd (case p of (Inl err, s2) \<Rightarrow> (X err, s2) | (Inr u, s2) \<Rightarrow> (Y, s2)) = snd p"
  by (simp split: prod.splits sum.splits)

lemma exit_code_outcome:
  "exit_code (fst (case p of (Inl err, s2) \<Rightarrow> (Uncaught err, s2) | (Inr u, s2) \<Rightarrow> (Completed, s2)))
     = (if isl (fst p) then 1 else 0)"
  by (simp split: prod.splits sum.splits)



subsection \<open>The POSIX world, evaluated\<close>

lemma run_list_env:
  assumes "chdir_fault e = chdir_fault e'" and "rm_fault e = rm_fault e'"
  shows "run_list e prog cs d f = run_list e' prog cs d f"
  using assms
  by (induction cs arbitrary: d f) (auto simp: run_list.simps split: option.splits prod.splits)

lemma posix_with_posix: "posix (with_posix e prog) prog"
proof -
  have "run_list (with_posix e prog) prog = run_list e prog"
    by (intro ext run_list_env) (simp_all add: with_posix_def)
  then show ?thesis
    by (simp add: posix_def posix_sh_def posix_zx_def with_posix_def split: option.splits)
qed

lemma posix_world_simps:
  "prompt_answer (posix_world a body) = a"
  "axios_reply (posix_world a body) = (\<lambda>r. Response 201 body)"
  "rm_fault (posix_world a body) = (\<lambda>p. None)" "chdir_fault (posix_world a body) = (\<lambda>p. None)"
  "write_fault (posix_world a body) = (\<lambda>p. None)"
  by (simp_all add: posix_world_def with_posix_def demo_env_def)

lemma posix_posix_world: "posix (posix_world a body) demo_git"
  unfolding posix_world_def by (rule posix_with_posix)

lemma plain_demo: "plain_word ''demo''" "project_name ''demo''"
  by (simp_all add: plain_word_def plain_char_def project_name_def cd_operand_def)

lemma plain_demo_url: "plain_word ''https://bitbucket.org/lefigaro/demo''"
  by (simp add: plain_word_def plain_char_def)

lemma hrefs_plain_world: "hrefs_plain (posix_world a demo_body)"
  using plain_demo_url
  by (auto simp: hrefs_plain_def posix_world_simps demo_href demo_url_def)

lemma take_prefix: "(take (Suc (length p)) q = p @ [c]) = prefix (p @ [c]) q"
proof
  assume "take (Suc (length p)) q = p @ [c]"
  then have "q = (p @ [c]) @ drop (Suc (length p)) q"
    by (metis append_take_drop_id)
  then show "prefix (p @ [c]) q" by (metis prefixI)
next
  assume "prefix (p @ [c]) q"
  then show "take (Suc (length p)) q = p @ [c]" by (auto simp: prefix_def)
qed

lemma remove_tree_git:
  "remove_tree (p @ ''/.git'') f (p @ ''/package.json'') = f (p @ ''/package.json'')"
  "remove_tree (p @ ''/.git'') f (p @ ''/.git/HEAD'') = None"
proof -
  have t: "take (Suc (length (p @ ''/.git''))) q = (p @ ''/.git'') @ ''/''
      \<longleftrightarrow> prefix ((p @ ''/.git'') @ ''/'') q" for q
    by (rule take_prefix)
  show "remove_tree (p @ ''/.git'') f (p @ ''/package.json'') = f (p @ ''/package.json'')"
    unfolding remove_tree_def t by simp
  show "remove_tree (p @ ''/.git'') f (p @ ''/.git/HEAD'') = None"
    unfolding remove_tree_def t by simp
qed

lemma home_path:
  assumes "a \<noteq> []" and "hd a \<noteq> CHR ''/''"
  shows "resolve ''/home/op'' (a @ t) = project_path a @ t"
  using assms by (simp add: resolve_def project_path_def)

lemma demo_git_clone:
  assumes "a \<noteq> []" and "hd a \<noteq> CHR ''/''"
  shows "demo_git (clone_argv a) ''/home/op'' f =
      (0, f(project_path a @ ''/package.json'' \<mapsto> File demo_manifest,
            project_path a @ ''/.git/HEAD'' \<mapsto> File ''ref''))"
  using home_path [OF assms, of "[]"] by (simp add: demo_git_def clone_argv_def)

lemma demo_git_init: "demo_git [''git'', ''init''] dir f = (0, f)"
  by (simp add: demo_git_def)

lemma demo_git_remote: "demo_git (remote_argv w) dir f = (0, f(dir @ ''/.git/config'' \<mapsto> File w))"
  by (simp add: demo_git_def remote_argv_def)

text \<open>The workspace step of the second variant.\<close>

lemma world_init_zx:
  assumes "cwd s = ''/home/op''" and "a \<noteq> []" and "hd a \<noteq> CHR ''/''" and "cd_operand a"
    and "h \<noteq> []"
  shows "\<exists>sb. initWorkspace_zx (posix_world a body) a (Val (JStr h)) s = (Inr (), sb)
     \<and> cwd sb = ''/home/op''
     \<and> fs sb (project_path a @ ''/package.json'') = Some (File demo_manifest)
     \<and> fs sb (project_path a @ ''/.git/HEAD'') = None
     \<and> fs sb (project_path a @ ''/.git/config'') = Some (File h)
     \<and> trace sb = trace s @
          [ZxRun (clone_parts a) ''/home/op'' 0,
           ZxRun (setup_parts a (Val (JStr h))) ''/home/op'' 0]"
proof -
  let ?e = "posix_world a body"
  define s1 where "s1 = say Stdout [S cloning_msg] s"
  define f1 where "f1 = (fs s1)(project_path a @ ''/package.json'' \<mapsto> File demo_manifest,
                        project_path a @ ''/.git/HEAD'' \<mapsto> File ''ref'')"
  define s2 where "s2 = s1\<lparr>fs := f1, trace := trace s1 @ [ZxRun (clone_parts a) ''/home/op'' 0]\<rparr>"
  define f3 where "f3 = (remove_tree (project_path a @ ''/.git'') f1)
                          (project_path a @ ''/.git/config'' \<mapsto> File h)"
  define s3 where "s3 = s2\<lparr>fs := f3,
        trace := trace s2 @ [ZxRun (setup_parts a (Val (JStr h))) ''/home/op'' 0]\<rparr>"
  have c1: "cwd s1 = ''/home/op''" using assms(1) by (simp add: s1_def say_def)
  have c2: "cwd s2 = ''/home/op''" "fs s2 = f1" using c1 by (simp_all add: s2_def)
  have l1: "run_list ?e demo_git (commands (map Word (clone_argv a))) (cwd s1) (fs s1)
      = Some (0, f1)"
    by (simp add: commands_words run_list_git [OF git_words(1,2)] c1
        demo_git_clone [OF assms(2,3)] f1_def)
  have z1: "zx ?e (clone_parts a) s1 = (Inr (), s2)"
    by (simp add: zx_posix [OF posix_posix_world zx_clone [OF assms(2)] l1] s2_def c1)
  have ch: "chdir_fault ?e (resolve (cwd s2) a) = None" by (simp add: posix_world_simps)
  have l2: "run_list ?e demo_git
      (commands ([Word ''cd'', Word a, AndIf, Word ''rm'', Word ''-rf'', Word ''.git'', AndIf,
              Word ''git'', Word ''init'', AndIf] @ map Word (remote_argv h))) (cwd s2) (fs s2)
      = Some (0, f3)"
    unfolding commands_setup run_list_setup [OF assms(2,4) ch]
    using home_path [OF assms(2,3), of "''/.git''"] home_path [OF assms(2,3), of "[]"]
    by (simp add: posix_world_simps demo_git_init demo_git_remote c2 f3_def)
  have z2: "zx ?e (setup_parts a (Val (JStr h))) s2 = (Inr (), s3)"
    by (simp add: zx_posix [OF posix_posix_world zx_setup [OF assms(2,5)] l2] s3_def c2)
  have i: "initWorkspace_zx ?e a (Val (JStr h)) s = (Inr (), s3)"
    by (simp add: initWorkspace_zx_folded io_then_def io_bind_def console_log_say
        z1 [unfolded s1_def] z2)
  have "cwd s3 = ''/home/op''" using c2 by (simp add: s3_def)
  moreover have "fs s3 (project_path a @ ''/package.json'') = Some (File demo_manifest)"
    by (simp add: s3_def f3_def remove_tree_git f1_def)
  moreover have "fs s3 (project_path a @ ''/.git/HEAD'') = None"
    by (simp add: s3_def f3_def remove_tree_git)
  moreover have "fs s3 (project_path a @ ''/.git/config'') = Some (File h)"
    by (simp add: s3_def f3_def)
  moreover have "trace s3 = trace s @
          [ZxRun (clone_parts a) ''/home/op'' 0, ZxRun (setup_parts a (Val (JStr h))) ''/home/op'' 0]"
    by (simp add: s3_def s2_def s1_def say_def)
  ultimately show ?thesis using i by blast
qed

lemma world_rewrite:
  assumes "fs s (resolve (cwd s) path) = Some (File demo_manifest)"
  shows "rewriteManifest (posix_world a body) path a s =
     (Inr (), s\<lparr>fs := (fs s)(resolve (cwd s) path \<mapsto> File (written a)),
        trace := trace s @ [WriteFile (resolve (cwd s) path) (written a) True]\<rparr>)"
proof -
  have sp: "set_prop (Val (JObj [(''id'', JStr ''old''), (''kind'', JNum 3)])) ''id'' (JStr a)
       = Inr (JObj [(''id'', JStr a), (''kind'', JNum 3)])" by simp
  show ?thesis
    using assms
    by (subst rewriteManifest_eq [OF _ demo_manifest_parse _ sp])
       (simp_all add: posix_world_simps written_def)
qed

lemma world_create:
  "createBitbucketRepo (posix_world a body) a (say Stdout [S creating_msg] demo_start) =
     (case response_href body of
        Inl err \<Rightarrow> (Inl err, say Stderr [S creation_failed_msg, V (reported_message err)]
                        (sent (HttpRequest (create_request ''dTp0'' a) (Response 201 body))
                           (say Stdout [S creating_msg] demo_start)))
      | Inr u \<Rightarrow> (Inr u, sent (HttpRequest (create_request ''dTp0'' a) (Response 201 body))
                           (say Stdout [S creating_msg] demo_start)))"
  by (rule demo_create [OF _ _ posix_world_simps(2)]) (simp_all add: say_def)

text \<open>The whole run of the second variant.\<close>

lemma world_run_zx:
  assumes "a \<noteq> []" and "hd a \<noteq> CHR ''/''" and "cd_operand a"
    and "response_href body = Inr (Val (JStr h))" and "h \<noteq> []"
  shows "\<exists>s. run_zx (posix_world a body) demo_start = (Completed, s)
     \<and> trace s =
         [HttpRequest (create_request ''dTp0'' a) (Response 201 body),
          ZxRun (clone_parts a) ''/home/op'' 0,
          ZxRun (setup_parts a (Val (JStr h))) ''/home/op'' 0,
          WriteFile (project_path a @ ''/package.json'') (written a) True]
     \<and> fs s (project_path a @ ''/package.json'') = Some (File (written a))
     \<and> fs s (project_path a @ ''/.git/config'') = Some (File h)"
proof -
  let ?e = "posix_world a body"
  let ?u = "Val (JStr h)"
  define s0 where "s0 = say Stdout [S creating_msg] demo_start"
  define s1 where "s1 = sent (HttpRequest (create_request ''dTp0'' a) (Response 201 body)) s0"
  have cr: "createBitbucketRepo ?e a s0 = (Inr ?u, s1)"
    unfolding s0_def s1_def by (simp add: world_create assms(4))
  obtain rz s1z where cz: "createBitbucketRepo_zx ?e a s0 = (rz, s1z)"
    by (cases "createBitbucketRepo_zx ?e a s0")
  from create_agree [of ?e a s0] cr cz
  have rz: "rz = Inr ?u" and w: "same_world s1 s1z" by simp_all
  define s2 where "s2 = say Stdout [S created_msg, V ?u] s1z"
  have p2: "cwd s2 = ''/home/op''"
    "trace s2 = [HttpRequest (create_request ''dTp0'' a) (Response 201 body)]"
    using w by (simp_all add: same_world_def s2_def s1_def s0_def say_def sent_def)
  from world_init_zx [OF p2(1) assms(1,2,3,5), of body] obtain sb where
    iw: "initWorkspace_zx ?e a ?u s2 = (Inr (), sb)"
    and sb: "cwd sb = ''/home/op''"
      "fs sb (project_path a @ ''/package.json'') = Some (File demo_manifest)"
      "fs sb (project_path a @ ''/.git/config'') = Some (File h)"
      "trace sb = trace s2 @
          [ZxRun (clone_parts a) ''/home/op'' 0, ZxRun (setup_parts a ?u) ''/home/op'' 0]"
    by blast
  define s3 where "s3 = say Stdout [S customizing_msg] sb"
  define s4 where "s4 =
     s3\<lparr>fs := (fs s3)(project_path a @ ''/package.json'' \<mapsto> File (written a)),
        trace := trace s3 @ [WriteFile (project_path a @ ''/package.json'') (written a) True]\<rparr>"
  have pp: "resolve (cwd s3) (a @ ''/package.json'') = project_path a @ ''/package.json''"
    using home_path [OF assms(1,2)] by (simp add: s3_def say_def sb)
  have p3: "fs s3 (resolve (cwd s3) (a @ ''/package.json'')) = Some (File demo_manifest)"
    unfolding pp by (simp add: s3_def say_def sb)
  have rw: "rewriteManifest ?e (a @ ''/package.json'') a s3 = (Inr (), s4)"
    unfolding s4_def using world_rewrite [OF p3, of a body] by (simp add: pp)
  have ac: "after_creation_zx ?e a ?u s1z = (Inr (), say Stdout [S done_msg] s4)"
    by (simp add: after_creation_zx_def customizeManifest_zx_def io_then_def io_bind_def
        console_log_say iw [unfolded s2_def] rw [unfolded s3_def])
  have run: "run_zx ?e demo_start = (Completed, say Stdout [S done_msg] s4)"
    by (simp add: run_zx_eq posix_world_simps(1) cz [unfolded s0_def] rz ac)
  have "trace (say Stdout [S done_msg] s4) =
         [HttpRequest (create_request ''dTp0'' a) (Response 201 body),
          ZxRun (clone_parts a) ''/home/op'' 0,
          ZxRun (setup_parts a ?u) ''/home/op'' 0,
          WriteFile (project_path a @ ''/package.json'') (written a) True]"
    by (simp add: say_def s4_def s3_def sb p2)
  moreover have "fs (say Stdout [S done_msg] s4) (project_path a @ ''/package.json'')
       = Some (File (written a))"
    by (simp add: say_def s4_def)
  moreover have "fs (say Stdout [S done_msg] s4) (project_path a @ ''/.git/config'')
       = Some (File h)"
    by (simp add: say_def s4_def s3_def sb)
  ultimately show ?thesis using run by blast
qed



text \<open>The clone of the first variant when the identifier is two words.\<close>

lemma spaced_words:
  "sh_tokens (clone_command ''my project'')
     = Some (map Word [''git'', ''clone'', ''--depth'', ''1'', template_url, ''my'', ''project''])"
  by (simp add: sh_tokens_def clone_command_def template_url_def plain_char_def)

lemma spaced_clone:
  "execSync (posix_world ''my project'' body) (clone_command ''my project'') s =
     (Inl (ChildProcessError (clone_command ''my project'') 129),
      s\<lparr>fs := fs s, trace := trace s @ [ExecSync (clone_command ''my project'') (cwd s) 129]\<rparr>)"
  by (subst execSync_posix [OF posix_posix_world spaced_words]) (simp_all add: demo_git_def)

lemma spaced_run:
  "run (posix_world ''my project'' demo_body) demo_start =
     (Uncaught (ChildProcessError (clone_command ''my project'') 129),
      \<lparr>cwd = ''/home/op'', fs = demo_files,
       console = [(Stdout, [S creating_msg]), (Stdout, [S created_msg, V demo_url]),
                  (Stdout, [S cloning_msg])],
       trace = [HttpRequest (create_request ''dTp0'' ''my project'') (Response 201 demo_body),
                ExecSync (clone_command ''my project'') ''/home/op'' 129]\<rparr>)"
proof -
  let ?e = "posix_world ''my project'' demo_body"
  define s0 where "s0 = say Stdout [S creating_msg] demo_start"
  define s1 where "s1 = sent (HttpRequest (create_request ''dTp0'' ''my project'') (Response 201 demo_body)) s0"
  have cr: "createBitbucketRepo ?e ''my project'' s0 = (Inr demo_url, s1)"
    unfolding s0_def s1_def by (simp add: world_create demo_href)
  have ac: "after_creation ?e ''my project'' demo_url s1 =
      (Inl (ChildProcessError (clone_command ''my project'') 129),
       (say Stdout [S cloning_msg] (say Stdout [S created_msg, V demo_url] s1))
         \<lparr>trace := trace s1 @ [ExecSync (clone_command ''my project'') (cwd s1) 129]\<rparr>)"
    by (simp add: after_creation_def initWorkspace_folded io_then_def io_bind_def
        console_log_say spaced_clone say_def)
  have run: "run ?e demo_start =
      (Uncaught (ChildProcessError (clone_command ''my project'') 129),
       (say Stdout [S cloning_msg] (say Stdout [S created_msg, V demo_url] s1))
         \<lparr>trace := trace s1 @ [ExecSync (clone_command ''my project'') (cwd s1) 129]\<rparr>)"
    by (simp add: run_eq posix_world_simps(1) cr [unfolded s0_def] ac)
  show ?thesis
    unfolding run by (simp add: s1_def s0_def say_def sent_def demo_start_def start_def)
qed



section \<open>The claims\<close>

text \<open>
  C1. In every run, of either variant, no local file system mutation (clone,
  removal of \<^verbatim>\<open>.git\<close>, \<^verbatim>\<open>git init\<close>, remote registration, manifest write) is
  attempted before the create-repository request has come back with a successful
  response; and when no such response came back, the process has exited with
  code 1 and no mutation was attempted.
\<close>

theorem creation_precedes_mutation:
  "mutation_guarded (run e (start d f)) \<and> mutation_guarded (run_zx e (start d f))"
proof
  show "mutation_guarded (run e (start d f))"
    unfolding run_eq
    by (rule guarded_generic)
       (use createBitbucketRepo_result adds_after_creation in
         \<open>auto simp: start_def split: sum.splits\<close>)
  show "mutation_guarded (run_zx e (start d f))"
    unfolding run_zx_eq
    by (rule guarded_generic)
       (use createBitbucketRepo_zx_result adds_after_creation_zx in
         \<open>auto simp: start_def split: sum.splits\<close>)
qed

theorem creation_precedes_mutation_witness:
  "filter created (trace (snd (run refused_env demo_start))) = []
   \<and> fst (run refused_env demo_start) = Exited 1
   \<and> filter is_mutation (trace (snd (run refused_env demo_start))) = []"
proof -
  have "\<forall>x \<in> set (trace (snd (run refused_env demo_start))). \<not> created x"
    by (simp add: refused_run say_def sent_def)
  with creation_precedes_mutation [of refused_env "''/home/op''" demo_files]
  show ?thesis by (simp add: mutation_guarded_def demo_start_def filter_empty_conv)
qed




text \<open>
  C3 (the code departs from the claim). The credentials file exists and holds
  malformed JSON. The first variant prints the diagnostic of a missing file
  (from \<^verbatim>\<open>getBitbucketCredentials\<close>, whose handler prints it for every error),
  then the diagnostic of invalid JSON, then the final line, and exits with code 1:
  the diagnostic of a missing file is not particular to the missing file.
\<close>

theorem malformed_credentials_reported_missing:
  "run demo_env (start ''/home/op'' malformed_files) =
     (Exited 1,
      say Stderr [S impossible_msg]
        (say Stderr [S invalid_json_msg]
          (say Stderr [S (file_missing_msg (pad 8))]
            (say Stdout [S creating_msg] (start ''/home/op'' malformed_files)))))"
  by (simp add: run_eq createBitbucketRepo_def io_bind_def getBitbucketCredentials_eq
      start_def say_def malformed_files_def resolve_def malformed_parse)







text \<open>
  C5 (counterexample to the claim as stated). The clone fails: nothing catches
  the error of \<^verbatim>\<open>execSync\<close>. The run ends with an uncaught exception, not with
  \<^verbatim>\<open>process.exit(1)\<close>, and the last line the program printed is the
  announcement of the clone.
\<close>

theorem clone_failure_is_uncaught:
  "run failing_clone_env demo_start =
     (Uncaught (ChildProcessError (clone_command ''demo'') 128),
      sent (ExecSync (clone_command ''demo'') ''/home/op'' 128)
        (say Stdout [S cloning_msg]
          (say Stdout [S created_msg, V (Val (JStr ''https://bitbucket.org/lefigaro/demo''))]
            (sent (HttpRequest (create_request ''dTp0'' ''demo'') (Response 201 demo_body))
              (say Stdout [S creating_msg] demo_start)))))"
proof -
  have a: "prompt_answer failing_clone_env = ''demo''"
    and b: "axios_reply failing_clone_env = (\<lambda>r. Response 201 demo_body)"
    and c: "shell failing_clone_env = (\<lambda>cmd dir files. (128, files))"
    by (simp_all add: failing_clone_env_def demo_env_def)
  have d: "response_href demo_body = Inr (Val (JStr ''https://bitbucket.org/lefigaro/demo''))"
    by (simp add: response_href_def demo_body_def)
  show ?thesis
    by (simp add: run_eq a demo_create [OF _ _ b] d say_def sent_def
        after_creation_def initWorkspace_def io_defs execSync_def c clone_command_def)
qed


text \<open>
  C5 (amended). Every failure of the provisioning step is caught by the top-level
  run, which prints the diagnostic and exits with code 1. A failure of a
  workspace-initialization step (clone, removal, change of directory, init, remote
  registration) is not caught: it ends the run as an uncaught exception, in the
  state the failing step left.
\<close>

theorem failures_caught_or_not:
  "(createBitbucketRepo e (prompt_answer e) (say Stdout [S creating_msg] s0) = (Inl err, s1) \<longrightarrow>
      run e s0 = (Exited 1, say Stderr [S impossible_msg] s1))
   \<and> (createBitbucketRepo e (prompt_answer e) (say Stdout [S creating_msg] s0) = (Inr u, s1)
       \<and> initWorkspace e (prompt_answer e) u (say Stdout [S created_msg, V u] s1) = (Inl err, s2) \<longrightarrow>
      run e s0 = (Uncaught err, s2))"
  by (simp add: run_eq after_creation_def io_defs say_def)


theorem failures_caught_or_not_witness:
  "createBitbucketRepo refused_env (prompt_answer refused_env) (say Stdout [S creating_msg] demo_start)
     = (Inl (AxiosError ''Request failed with status code 400'' (Some (400, refused_body))),
        say Stderr [S creation_failed_msg, V (Val (JStr ''Repository already exists.''))]
          (sent (HttpRequest (create_request ''dTp0'' ''demo'') (Response 400 refused_body))
            (say Stdout [S creating_msg] demo_start)))
   \<and> run refused_env demo_start
     = (Exited 1,
        say Stderr [S impossible_msg]
          (say Stderr [S creation_failed_msg, V (Val (JStr ''Repository already exists.''))]
            (sent (HttpRequest (create_request ''dTp0'' ''demo'') (Response 400 refused_body))
              (say Stdout [S creating_msg] demo_start))))"
proof -
  have a: "prompt_answer refused_env = ''demo''" by (simp add: refused_env_def demo_env_def)
  have c: "createBitbucketRepo refused_env (prompt_answer refused_env)
             (say Stdout [S creating_msg] demo_start)
     = (Inl (AxiosError ''Request failed with status code 400'' (Some (400, refused_body))),
        say Stderr [S creation_failed_msg, V (Val (JStr ''Repository already exists.''))]
          (sent (HttpRequest (create_request ''dTp0'' ''demo'') (Response 400 refused_body))
            (say Stdout [S creating_msg] demo_start)))"
    by (simp add: a refused_create say_def)
  from failures_caught_or_not [of refused_env demo_start] c show ?thesis by simp
qed

text \<open>
  C6 (the code departs from the claim). With well-formed credentials and a
  non-empty repository name, \<^verbatim>\<open>updateBitbucketRepoPermissions\<close> throws a
  ReferenceError at \<^verbatim>\<open>permission.toLowerCase()\<close>: the function has the single
  parameter \<^verbatim>\<open>repoName\<close>, and the module declares neither \<^verbatim>\<open>permission\<close> nor
  \<^verbatim>\<open>permissionMap\<close>. Nothing is validated, no PUT is sent, no status returned.
\<close>

theorem permission_is_not_defined:
  "updateBitbucketRepoPermissions demo_env ''demo'' demo_start =
     (Inl (ReferenceError ''permission is not defined''), demo_start)"
  by (simp add: updateBitbucketRepoPermissions_def io_bind_def demo_read
      update_permissions_unbound demo_valid)


text \<open>
  C7 (the code departs from the claim). \<^verbatim>\<open>createBitbucketRepo\<close> does not check
  its argument: for the empty identifier it sends the POST to the URL of the
  organisation itself.
\<close>

theorem empty_identifier_is_posted:
  "createBitbucketRepo demo_env [] demo_start =
     (Inr (Val (JStr ''https://bitbucket.org/lefigaro/demo'')),
      sent (HttpRequest (create_request ''dTp0'' []) (Response 201 demo_body)) demo_start)
   \<and> url (create_request ''dTp0'' []) = ''https://api.bitbucket.org/2.0/repositories/lefigaro/''"
  by (simp add: demo_create [where body = demo_body] demo_env_def
      response_href_def demo_body_def create_request_def)


text \<open>
  C8 (counterexample to the claim as stated). The run clones, initialises,
  registers the remote and writes the manifest; the final \<^verbatim>\<open>process.chdir\<close> back
  to the initial directory is refused. The run ends there with the uncaught
  error, and the working directory is the project directory, not the one the run
  started in.
\<close>

theorem return_refused_leaves_project_directory:
  "WriteFile ''/home/op/demo/package.json'' demo_written True
     \<in> set (trace (snd (run stranded_env demo_start)))
   \<and> cwd demo_start = ''/home/op''
   \<and> cwd (snd (run stranded_env demo_start)) = ''/home/op/demo''
   \<and> fst (run stranded_env demo_start) =
       Uncaught (SystemError ''EACCES''
         (''EACCES: permission denied, chdir '' @ [squote] @ ''/home/op/demo'' @ [squote]
          @ '' -> '' @ [squote] @ ''/home/op'' @ [squote]))"
proof -
  from stranded_run obtain s err where
    r: "run stranded_env demo_start = (Uncaught err, s)" and c: "cwd s = ''/home/op/demo''"
    and f: "chdir_fault stranded_env ''/home/op'' = Some err"
    and t: "trace s =
          [HttpRequest (create_request ''dTp0'' ''demo'') (Response 201 demo_body),
           ExecSync (clone_command ''demo'') ''/home/op'' 0,
           RmSync ''/home/op/demo/.git'' True,
           Chdir ''/home/op/demo'' True,
           ExecSync ''git init'' ''/home/op/demo'' 0,
           ExecSync ''git remote add origin https://bitbucket.org/lefigaro/demo'' ''/home/op/demo'' 0,
           WriteFile ''/home/op/demo/package.json'' demo_written True,
           Chdir ''/home/op'' False]"
    by blast
  from f have "err = SystemError ''EACCES''
         (''EACCES: permission denied, chdir '' @ [squote] @ ''/home/op/demo'' @ [squote]
          @ '' -> '' @ [squote] @ ''/home/op'' @ [squote])"
    by (simp add: stranded_env_def)
  with r c t show ?thesis by simp
qed


text \<open>
  C8 (amended). On every run of the first variant, started in an absolute
  working directory, that has written the manifest: the run has changed into the
  project directory; when the final change back to the initial directory
  succeeds, the run reaches the end of the script and the working directory is
  again the one it started in; when that change is refused, the run ends with
  the uncaught error of \<^verbatim>\<open>process.chdir\<close> and the working directory is the
  project directory.
\<close>

theorem working_directory_after_manifest:
  assumes "x \<in> set (trace (snd (run e (start d f))))" and "is_written x" and "absolute d"
  shows "Chdir (resolve d (prompt_answer e)) True \<in> set (trace (snd (run e (start d f))))
     \<and> (chdir_fault e d = None \<longrightarrow>
          fst (run e (start d f)) = Completed \<and> cwd (snd (run e (start d f))) = d)
     \<and> (\<forall>err. chdir_fault e d = Some err \<longrightarrow>
          fst (run e (start d f)) = Uncaught err
          \<and> cwd (snd (run e (start d f))) = resolve d (prompt_answer e))"
proof -
  let ?a = "prompt_answer e"
  let ?s0 = "say Stdout [S creating_msg] (start d f)"
  have t0: "trace ?s0 = []" and c0: "cwd ?s0 = d" by (simp_all add: say_def start_def)
  obtain r s1 where c: "createBitbucketRepo e ?a ?s0 = (r, s1)"
    by (cases "createBitbucketRepo e ?a ?s0")
  note cr = createBitbucketRepo_result [OF c]
  have u: "\<exists>u. r = Inr u"
  proof (cases r)
    case (Inl err)
    with cr t0 have "\<forall>y \<in> set (trace s1). \<not> is_mutation y" by auto
    moreover have "trace (snd (run e (start d f))) = trace s1"
      using c Inl by (simp add: run_eq say_def)
    ultimately have "\<not> is_mutation x" using assms(1) by simp
    with assms(2) show ?thesis by (cases x) simp_all
  qed simp
  then obtain u where u: "r = Inr u" ..
  from cr u t0 obtain x0 where t1: "trace s1 = [x0]" "created x0" by auto
  have x0: "\<not> is_written x0" using t1(2) by (cases x0) simp_all
  have c1: "cwd s1 = d" using cr c0 by simp
  let ?sa = "say Stdout [S created_msg, V u] s1"
  have ca: "cwd ?sa = d" "trace ?sa = [x0]" using c1 t1 by (simp_all add: say_def)
  obtain ri sb where i: "initWorkspace e ?a u ?sa = (ri, sb)"
    by (cases "initWorkspace e ?a u ?sa")
  have nb: "\<not> is_written y" if "y \<in> set (trace sb)" for y
    using adds_new [OF initWorkspace_no_write i that] ca x0 by auto
  have run1: "run e (start d f) =
     (case after_creation e ?a u s1 of (Inl err, s2) \<Rightarrow> (Uncaught err, s2)
                                     | (Inr v, s2) \<Rightarrow> (Completed, s2))"
    using c u by (simp add: run_eq)
  have "\<exists>i. ri = Inr i"
  proof (cases ri)
    case (Inl err)
    then have "after_creation e ?a u s1 = (Inl err, sb)"
      using i by (simp add: after_creation_def io_then_def io_bind_def console_log_say)
    then have "trace (snd (run e (start d f))) = trace sb" by (simp add: run1)
    with nb assms(1,2) show ?thesis by auto
  qed simp
  then obtain i0 where ri: "ri = Inr i0" ..
  note iw = initWorkspace_Inr [OF i [unfolded ri]]
  have i0: "i0 = d" and cb: "cwd sb = resolve d ?a"
    and chd: "Chdir (resolve d ?a) True \<in> set (trace sb)"
    using iw ca by simp_all
  obtain rc sc where m: "customizeManifest e ?a sb = (rc, sc)"
    by (cases "customizeManifest e ?a sb")
  have cc: "cwd sc = resolve d ?a"
    using keeps_cwdD [OF keeps_cwd_customizeManifest m] cb by simp
  have pc: "prefix (trace sb) (trace sc)" using adds_prefix [OF adds_customizeManifest m] .
  have "rc = Inr ()"
  proof (cases rc)
    case (Inl err)
    then have "after_creation e ?a u s1 = (Inl err, sc)"
      using i ri m by (simp add: after_creation_def io_then_def io_bind_def console_log_say)
    then have "trace (snd (run e (start d f))) = trace sc" by (simp add: run1)
    with assms(1) have "x \<in> set (trace sc)" by simp
    from customizeManifest_failed [OF m [unfolded Inl] this assms(2)] nb assms(2)
    show ?thesis by blast
  qed simp
  have ac: "after_creation e ?a u s1 =
     (case process_chdir e d sc of
        (Inl err, sd) \<Rightarrow> (Inl err, sd)
      | (Inr v, sd) \<Rightarrow> (Inr (), say Stdout [S done_msg] sd))"
    using i ri m \<open>rc = Inr ()\<close> i0
    by (simp add: after_creation_def io_then_def io_bind_def console_log_say
        split: prod.splits sum.splits)
  have rd: "resolve (cwd sc) d = d" using assms(3) by (rule resolve_absolute)
  have in_sc: "Chdir (resolve d ?a) True \<in> set (trace sc)"
    using chd pc by (auto simp: prefix_def)
  show ?thesis
  proof (cases "chdir_fault e d")
    case None
    then have "process_chdir e d sc =
        (Inr (), sc\<lparr>cwd := d, trace := trace sc @ [Chdir d True]\<rparr>)"
      by (simp add: process_chdir_def rd Let_def)
    then have "run e (start d f) =
        (Completed, say Stdout [S done_msg] (sc\<lparr>cwd := d, trace := trace sc @ [Chdir d True]\<rparr>))"
      by (simp add: run1 ac)
    with None in_sc show ?thesis by (simp add: say_def)
  next
    case (Some err)
    then have "process_chdir e d sc = (Inl err, sc\<lparr>trace := trace sc @ [Chdir d False]\<rparr>)"
      by (simp add: process_chdir_def rd Let_def)
    then have "run e (start d f) = (Uncaught err, sc\<lparr>trace := trace sc @ [Chdir d False]\<rparr>)"
      by (simp add: run1 ac)
    with Some in_sc cc show ?thesis by simp
  qed
qed

theorem working_directory_after_manifest_witness:
  "WriteFile ''/home/op/demo/package.json'' demo_written True
     \<in> set (trace (snd (run demo_env (start ''/home/op'' demo_files))))
   \<and> is_written (WriteFile ''/home/op/demo/package.json'' demo_written True)
   \<and> absolute ''/home/op''
   \<and> chdir_fault demo_env ''/home/op'' = None
   \<and> Chdir ''/home/op/demo'' True \<in> set (trace (snd (run demo_env (start ''/home/op'' demo_files))))
   \<and> fst (run demo_env (start ''/home/op'' demo_files)) = Completed
   \<and> cwd (snd (run demo_env (start ''/home/op'' demo_files))) = ''/home/op''"
proof -
  from demo_run have t: "trace (snd (run demo_env (start ''/home/op'' demo_files))) = demo_trace"
    by (auto simp: demo_start_def)
  have 1: "WriteFile ''/home/op/demo/package.json'' demo_written True
     \<in> set (trace (snd (run demo_env (start ''/home/op'' demo_files))))"
    by (simp add: t demo_trace_def)
  have 2: "is_written (WriteFile ''/home/op/demo/package.json'' demo_written True)" by simp
  have 3: "absolute ''/home/op''" by (simp add: absolute_def)
  have 4: "chdir_fault demo_env ''/home/op'' = None" by (simp add: demo_env_simps)
  from working_directory_after_manifest [OF 1 2 3] 1 2 3 4 show ?thesis
    by (simp add: demo_env_simps resolve_def)
qed


text \<open>
  C9 (counterexample to the claim as stated). The create-repository call
  succeeds and the body has \<^verbatim>\<open>links.html\<close> without \<^verbatim>\<open>href\<close>: nothing is
  thrown, the Provisioner returns \<^verbatim>\<open>undefined\<close>.
\<close>

theorem missing_href_returns_undefined:
  "createBitbucketRepo no_href_env ''demo'' demo_start =
     (Inr Undefined,
      sent (HttpRequest (create_request ''dTp0'' ''demo'') (Response 201 no_href_body)) demo_start)"
  by (simp add: demo_create [where body = no_href_body] no_href_env_def demo_env_def
      response_href_def no_href_body_def)


text \<open>
  C9 (amended). After a successful create-repository call, when
  \<^verbatim>\<open>response.data?.links?.html\<close> is \<^verbatim>\<open>undefined\<close> or \<^verbatim>\<open>null\<close> the dereference
  throws a TypeError inside the \<^verbatim>\<open>try\<close> block: the handler prints the
  creation-failed diagnostic with the message of the TypeError and throws it again.
  Otherwise nothing is thrown and the Provisioner returns \<^verbatim>\<open>links.html.href\<close>,
  which is \<^verbatim>\<open>undefined\<close> when the field is absent.
\<close>

theorem dereference_inside_try:
  assumes "valid_credentials c"
    and "axios_reply e (create_request (auth_token c) n) = Response st body"
    and "200 \<le> st" and "st < 300"
  shows "(nullish (html_of body) \<longrightarrow>
            (\<exists>m. provision e n c s =
               (Inl (TypeError m),
                say Stderr [S creation_failed_msg, V (Val (JStr m))]
                  (sent (HttpRequest (create_request (auth_token c) n) (Response st body)) s))))
       \<and> (\<not> nullish (html_of body) \<longrightarrow>
            provision e n c s =
              (Inr (get_prop_opt (html_of body) ''href''),
               sent (HttpRequest (create_request (auth_token c) n) (Response st body)) s))"
proof (intro conjI impI)
  assume "nullish (html_of body)"
  from response_href_nullish [OF this] obtain m where "response_href body = Inl (TypeError m)" ..
  then have "provision e n c s =
     (Inl (TypeError m),
      say Stderr [S creation_failed_msg, V (Val (JStr m))]
        (sent (HttpRequest (create_request (auth_token c) n) (Response st body)) s))"
    using assms by (simp add: provision_valid Let_def reported_TypeError)
  then show "\<exists>m. provision e n c s =
     (Inl (TypeError m),
      say Stderr [S creation_failed_msg, V (Val (JStr m))]
        (sent (HttpRequest (create_request (auth_token c) n) (Response st body)) s))" ..
next
  assume "\<not> nullish (html_of body)"
  from response_href_present [OF this] show "provision e n c s =
     (Inr (get_prop_opt (html_of body) ''href''),
      sent (HttpRequest (create_request (auth_token c) n) (Response st body)) s)"
    using assms by (simp add: provision_valid Let_def)
qed

theorem dereference_inside_try_witness:
  "valid_credentials demo_parsed
   \<and> axios_reply no_links_env (create_request (auth_token demo_parsed) ''demo'') = Response 201 (JObj [])
   \<and> nullish (html_of (JObj []))
   \<and> (\<exists>m. provision no_links_env ''demo'' demo_parsed demo_start =
        (Inl (TypeError m),
         say Stderr [S creation_failed_msg, V (Val (JStr m))]
           (sent (HttpRequest (create_request (auth_token demo_parsed) ''demo'') (Response 201 (JObj [])))
              demo_start)))"
proof -
  have v: "valid_credentials demo_parsed" using demo_valid by (simp add: demo_parsed_def)
  have r: "axios_reply no_links_env (create_request (auth_token demo_parsed) ''demo'') = Response 201 (JObj [])"
    by (simp add: no_links_env_def demo_env_def)
  have n: "nullish (html_of (JObj []))" by (simp add: nullish_def html_of_def)
  from dereference_inside_try [OF v r, of demo_start] n v r show ?thesis by simp
qed

text \<open>
  C10 (counterexample to the claim as stated). The operator answers
  \<^verbatim>\<open>my project\<close>. The first variant puts the answer into the text of the command,
  so git gets the two words \<^verbatim>\<open>my\<close> and \<^verbatim>\<open>project\<close> after the template, refuses
  the clone, and the run ends there as an uncaught exception. The second variant
  passes the answer as one word: it clones, removes the history, registers
  \<^verbatim>\<open>origin\<close> and rewrites the manifest. The credentials file, the answer and the
  answers of the remote and of git are the same for both.
\<close>

theorem spaced_identifier_diverges:
  "fst (run (posix_world ''my project'' demo_body) demo_start)
     = Uncaught (ChildProcessError (clone_command ''my project'') 129)
   \<and> trace (snd (run (posix_world ''my project'' demo_body) demo_start)) =
         [HttpRequest (create_request ''dTp0'' ''my project'') (Response 201 demo_body),
          ExecSync (clone_command ''my project'') ''/home/op'' 129]
   \<and> fs (snd (run (posix_world ''my project'' demo_body) demo_start))
        ''/home/op/my project/package.json'' = None
   \<and> fst (run_zx (posix_world ''my project'' demo_body) demo_start) = Completed
   \<and> trace (snd (run_zx (posix_world ''my project'' demo_body) demo_start)) =
         [HttpRequest (create_request ''dTp0'' ''my project'') (Response 201 demo_body),
          ZxRun (clone_parts ''my project'') ''/home/op'' 0,
          ZxRun (setup_parts ''my project'' demo_url) ''/home/op'' 0,
          WriteFile ''/home/op/my project/package.json'' (written ''my project'') True]
   \<and> fs (snd (run_zx (posix_world ''my project'' demo_body) demo_start))
        ''/home/op/my project/package.json'' = Some (File (written ''my project''))"
proof -
  have c: "cd_operand ''my project''" by (simp add: cd_operand_def)
  have hr: "response_href demo_body = Inr (Val (JStr ''https://bitbucket.org/lefigaro/demo''))"
    using demo_href by (simp add: demo_url_def)
  have hn: "''https://bitbucket.org/lefigaro/demo'' \<noteq> []" by simp
  from world_run_zx [OF _ _ c hr hn] obtain s where
    z: "run_zx (posix_world ''my project'' demo_body) demo_start = (Completed, s)"
    and t: "trace s =
         [HttpRequest (create_request ''dTp0'' ''my project'') (Response 201 demo_body),
          ZxRun (clone_parts ''my project'') ''/home/op'' 0,
          ZxRun (setup_parts ''my project'' demo_url) ''/home/op'' 0,
          WriteFile ''/home/op/my project/package.json'' (written ''my project'') True]"
    and f: "fs s ''/home/op/my project/package.json'' = Some (File (written ''my project''))"
    by (auto simp: project_path_def demo_url_def)
  have "fs (snd (run (posix_world ''my project'' demo_body) demo_start))
          ''/home/op/my project/package.json'' = None"
    by (simp add: spaced_run demo_files_def)
  then show ?thesis by (simp add: spaced_run z t f)
qed


text \<open>
  C10 (amended). In front of a POSIX shell (with \<^verbatim>\<open>CDPATH\<close> unset) and the same
  git, for the same credentials file and answers of the remote, when
  \<^item> the answer of the operator is a plain word (letters, digits and
    \<^verbatim>\<open>- _ . / : @\<close>) that does not begin with \<^verbatim>\<open>-\<close> and has no component \<^verbatim>\<open>..\<close>,
  \<^item> every address in a successful answer of the remote is a string and a plain
    word,
  \<^item> the run starts in an absolute working directory, and both this directory
    and the project directory can be entered,

  the two variants send the same HTTP requests in the same order, leave the same
  files (those of the shallow clone of the fixed template, without its history,
  after \<^verbatim>\<open>git init\<close> and the registration of \<^verbatim>\<open>origin\<close> with the returned
  address, holding the rewritten manifest: \<^const>\<open>local_result\<close>, lemmas
  \<open>after_creation_local\<close> and \<open>after_creation_zx_local\<close>), and end with the same
  exit code.
\<close>

theorem variants_agree:
  assumes "posix e prog" and "project_name (prompt_answer e)" and "hrefs_plain e"
    and "absolute d"
    and "chdir_fault e (resolve d (prompt_answer e)) = None" and "chdir_fault e d = None"
  shows "filter is_request (trace (snd (run e (start d f))))
           = filter is_request (trace (snd (run_zx e (start d f))))
       \<and> fs (snd (run e (start d f))) = fs (snd (run_zx e (start d f)))
       \<and> exit_code (fst (run e (start d f))) = exit_code (fst (run_zx e (start d f)))"
proof -
  let ?a = "prompt_answer e"
  let ?s0 = "say Stdout [S creating_msg] (start d f)"
  obtain r s1 where c1: "createBitbucketRepo e ?a ?s0 = (r, s1)"
    by (cases "createBitbucketRepo e ?a ?s0")
  obtain rz s1z where c2: "createBitbucketRepo_zx e ?a ?s0 = (rz, s1z)"
    by (cases "createBitbucketRepo_zx e ?a ?s0")
  from create_agree [of e ?a ?s0] c1 c2 have rr: "rz = r" and w: "same_world s1 s1z" by simp_all
  show ?thesis
  proof (cases r)
    case (Inl err)
    with c1 c2 rr w show ?thesis
      by (simp add: run_eq run_zx_eq same_world_def say_def)
  next
    case (Inr u)
    from createBitbucketRepo_reply [OF c1 [unfolded Inr]]
    obtain req st body where "axios_reply e req = Response st body" "response_href body = Inr u"
      and cw: "cwd s1 = d" by (auto simp: say_def start_def)
    with assms(3) have "plain_href u" unfolding hrefs_plain_def by blast
    then obtain h where u: "u = Val (JStr h)" and ph: "plain_word h"
      by (cases u rule: plain_href.cases) simp_all
    have pa: "plain_word ?a" and ca: "cd_operand ?a" and ne: "?a \<noteq> []"
      using assms(2) by (simp_all add: project_name_def plain_word_def)
    have cwz: "cwd s1z = d" using cw w by (simp add: same_world_def)
    have ch1: "chdir_fault e (resolve (cwd s1) ?a) = None" using assms(5) cw by simp
    have ch2: "chdir_fault e (resolve (cwd s1z) ?a) = None" using assms(5) cwz by simp
    have ab: "absolute (cwd s1)" and cb: "chdir_fault e (cwd s1) = None"
      using assms(4,6) cw by simp_all
    note l1 = after_creation_local [OF assms(1) pa ph ch1 ab cb]
    have hn: "h \<noteq> []" using ph by (simp add: plain_word_def)
    note l2 = after_creation_zx_local [OF assms(1) ne ca ch2 hn]
    have same: "local_result e prog ?a h (cwd s1z) (fs s1z) = local_result e prog ?a h (cwd s1) (fs s1)"
      using w by (simp add: same_world_def)
    have r1: "run e (start d f) =
       (case after_creation e ?a u s1 of (Inl err, s2) \<Rightarrow> (Uncaught err, s2)
                                       | (Inr v, s2) \<Rightarrow> (Completed, s2))"
      by (simp add: run_eq c1 Inr)
    have r2: "run_zx e (start d f) =
       (case after_creation_zx e ?a u s1z of (Inl err, s2) \<Rightarrow> (Uncaught err, s2)
                                           | (Inr v, s2) \<Rightarrow> (Completed, s2))"
      by (simp add: run_zx_eq c2 rr Inr)
    have "fs (snd (run e (start d f))) = fs (snd (run_zx e (start d f)))"
      unfolding r1 r2 snd_outcome using l1 l2 same by (simp add: u)
    moreover have "exit_code (fst (run e (start d f))) = exit_code (fst (run_zx e (start d f)))"
      unfolding r1 r2 exit_code_outcome using l1 l2 same by (simp add: u)
    moreover have "filter is_request (trace (snd (run e (start d f))))
        = filter is_request (trace (snd (run_zx e (start d f))))"
      unfolding r1 r2 snd_outcome after_creation_requests using w by (simp add: same_world_def)
    ultimately show ?thesis by simp
  qed
qed

theorem variants_agree_witness:
  "posix (posix_world ''demo'' demo_body) demo_git
   \<and> project_name (prompt_answer (posix_world ''demo'' demo_body))
   \<and> hrefs_plain (posix_world ''demo'' demo_body)
   \<and> absolute ''/home/op''
   \<and> chdir_fault (posix_world ''demo'' demo_body)
       (resolve ''/home/op'' (prompt_answer (posix_world ''demo'' demo_body))) = None
   \<and> chdir_fault (posix_world ''demo'' demo_body) ''/home/op'' = None
   \<and> filter is_request (trace (snd (run (posix_world ''demo'' demo_body) demo_start)))
       = filter is_request (trace (snd (run_zx (posix_world ''demo'' demo_body) demo_start)))
   \<and> fs (snd (run (posix_world ''demo'' demo_body) demo_start))
       = fs (snd (run_zx (posix_world ''demo'' demo_body) demo_start))
   \<and> exit_code (fst (run (posix_world ''demo'' demo_body) demo_start))
       = exit_code (fst (run_zx (posix_world ''demo'' demo_body) demo_start))
   \<and> fst (run_zx (posix_world ''demo'' demo_body) demo_start) = Completed
   \<and> fs (snd (run (posix_world ''demo'' demo_body) demo_start)) ''/home/op/demo/package.json''
       = Some (File demo_written)
   \<and> fs (snd (run (posix_world ''demo'' demo_body) demo_start)) ''/home/op/demo/.git/config''
       = Some (File ''https://bitbucket.org/lefigaro/demo'')
   \<and> filter is_request (trace (snd (run (posix_world ''demo'' demo_body) demo_start)))
       = [HttpRequest (create_request ''dTp0'' ''demo'') (Response 201 demo_body)]"
proof -
  let ?e = "posix_world ''demo'' demo_body"
  have p: "posix ?e demo_git" by (rule posix_posix_world)
  have a: "project_name (prompt_answer ?e)"
    by (simp add: posix_world_simps plain_demo)
  have ab: "absolute ''/home/op''" by (simp add: absolute_def)
  have c: "chdir_fault ?e (resolve ''/home/op'' (prompt_answer ?e)) = None"
    and cb: "chdir_fault ?e ''/home/op'' = None"
    by (simp_all add: posix_world_simps)
  note v = variants_agree [OF p a hrefs_plain_world ab c cb, of demo_files, folded demo_start_def]
  have cd: "cd_operand ''demo''" using plain_demo(2) by (simp add: project_name_def)
  have hr: "response_href demo_body = Inr (Val (JStr ''https://bitbucket.org/lefigaro/demo''))"
    using demo_href by (simp add: demo_url_def)
  have hn: "''https://bitbucket.org/lefigaro/demo'' \<noteq> []" by simp
  from world_run_zx [OF _ _ cd hr hn] obtain s where
    z: "run_zx ?e demo_start = (Completed, s)"
    and t: "trace s =
         [HttpRequest (create_request ''dTp0'' ''demo'') (Response 201 demo_body),
          ZxRun (clone_parts ''demo'') ''/home/op'' 0,
          ZxRun (setup_parts ''demo'' (Val (JStr ''https://bitbucket.org/lefigaro/demo''))) ''/home/op'' 0,
          WriteFile ''/home/op/demo/package.json'' (written ''demo'') True]"
    and f: "fs s ''/home/op/demo/package.json'' = Some (File (written ''demo''))"
    and g: "fs s ''/home/op/demo/.git/config'' = Some (File ''https://bitbucket.org/lefigaro/demo'')"
    by (auto simp: project_path_def)
  have w: "written ''demo'' = demo_written" by (simp add: written_def demo_written_def)
  have f1: "fs (snd (run ?e demo_start)) ''/home/op/demo/package.json'' = Some (File demo_written)"
    using v f by (simp add: z w)
  have g1: "fs (snd (run ?e demo_start)) ''/home/op/demo/.git/config''
      = Some (File ''https://bitbucket.org/lefigaro/demo'')"
    using v g by (simp add: z)
  have t1: "filter is_request (trace (snd (run ?e demo_start)))
       = [HttpRequest (create_request ''dTp0'' ''demo'') (Response 201 demo_body)]"
    using v by (simp add: z t)
  have z1: "fst (run_zx ?e demo_start) = Completed" by (simp add: z)
  from v p a hrefs_plain_world ab c cb f1 g1 t1 z1 show ?thesis by blast
qed

end
